theory Spec2Isabelle
  imports Main "HOL-Library.Multiset"
begin

section \<open>JavaScript values used by the transaction tools\<close>

text \<open>
  The transaction tools and the tables they read are embedded as HOL functions. File
  names and line numbers are those of the source tree: the transfer tool is
  \<^verbatim>\<open>tools/transfer.ts\<close>, the approval tool \<^verbatim>\<open>tools/approve.ts\<close>, the swap tool the part of
  \<^verbatim>\<open>tools/token-utils.ts\<close> from line 323; the venue table is \<^verbatim>\<open>config/dex.ts\<close> (lines 1-162),
  the network table the part of \<^verbatim>\<open>config/agent.ts\<close> from line 72, the token table with
  \<^verbatim>\<open>getToken\<close> and \<^verbatim>\<open>isNativeToken\<close> is \<^verbatim>\<open>unnamed/part_003\<close>, and \<^verbatim>\<open>getIO\<close> is in
  \<^verbatim>\<open>socket/socket.ts\<close>.

  A JavaScript \<^verbatim>\<open>string\<close> is a \<^typ>\<open>string\<close>. The functions \<open>toLowerCase\<close>,
  \<open>toUpperCase\<close> and \<open>trim\<close> below are the methods of that name on ASCII text (case
  conversion touches the letters A-Z and a-z only); the tools apply them to build a key of
  an ASCII table, or a string that is compared with an ASCII literal or with a hexadecimal
  address. Contact names are free text: for them \<^verbatim>\<open>String.prototype.toLowerCase\<close> is a
  built-in taken as given (the field \<open>lowerCase\<close> of the record \<open>builtins\<close>). A \<^verbatim>\<open>bigint\<close>
  and an integral \<^verbatim>\<open>number\<close> (chain id, fee tier, basis points) are an \<^typ>\<open>int\<close>. A value
  that can be \<^verbatim>\<open>null\<close> or \<^verbatim>\<open>undefined\<close> is an \<^typ>\<open>'a option\<close>.
\<close>

definition upperLetters :: string where
  "upperLetters = ''ABCDEFGHIJKLMNOPQRSTUVWXYZ''"

definition lowerLetters :: string where
  "lowerLetters = ''abcdefghijklmnopqrstuvwxyz''"

definition lowerChar :: "char \<Rightarrow> char" where
  "lowerChar c = (case map_of (zip upperLetters lowerLetters) c of Some d \<Rightarrow> d | None \<Rightarrow> c)"

definition upperChar :: "char \<Rightarrow> char" where
  "upperChar c = (case map_of (zip lowerLetters upperLetters) c of Some d \<Rightarrow> d | None \<Rightarrow> c)"

definition toLowerCase :: "string \<Rightarrow> string" where
  "toLowerCase s = map lowerChar s"

definition toUpperCase :: "string \<Rightarrow> string" where
  "toUpperCase s = map upperChar s"

definition isWhiteSpace :: "char \<Rightarrow> bool" where
  "isWhiteSpace c = (c \<in> set [CHR '' '', CHR 0x09, CHR 0x0A, CHR 0x0B, CHR 0x0C, CHR 0x0D])"

definition trim :: "string \<Rightarrow> string" where
  "trim s = rev (dropWhile isWhiteSpace (rev (dropWhile isWhiteSpace s)))"

definition endsWith :: "string \<Rightarrow> string \<Rightarrow> bool" where
  "endsWith s suffix =
     (length suffix \<le> length s \<and> drop (length s - length suffix) s = suffix)"

definition strIncludes :: "string \<Rightarrow> string \<Rightarrow> bool" where
  "strIncludes s part = (\<exists>i \<in> set (upt 0 (Suc (length s))). take (length part) (drop i s) = part)"

text \<open>
  What a \<^verbatim>\<open>throw\<close> or a rejected promise carries. The three resolution errors are the
  \<^verbatim>\<open>new Error(...)\<close> of resolveRecipient, resolveToken and resolveSpender, with the input
  their message quotes. \<open>SocketNotInitialized\<close> is the error of \<^verbatim>\<open>getIO\<close>. \<open>External\<close>
  stands for a failure raised by a collaborator (the chain data provider, the data store,
  the ABI encoder, the socket server or the agent), named by the call that failed.
  \<open>NumericFault\<close> is the error of ethers for a negative value where an unsigned one is
  required.
\<close>

datatype exn =
    TypeError
  | RangeError
  | NumericFault
  | RecipientNotResolved string
  | TokenNotFound string
  | SpenderNotResolved string
  | SocketNotInitialized
  | External string

text \<open>
  A property read \<^verbatim>\<open>TABLE[key]\<close> on an object literal finds the literal's own entries and,
  for the keys every object inherits from \<^verbatim>\<open>Object.prototype\<close>, an inherited function or
  object, which is truthy and is neither a string nor a table entry.
\<close>

definition objectPrototypeKeys :: "string list" where
  "objectPrototypeKeys = [''constructor'', ''__defineGetter__'', ''__defineSetter__'',
     ''hasOwnProperty'', ''__lookupGetter__'', ''__lookupSetter__'', ''isPrototypeOf'',
     ''propertyIsEnumerable'', ''toString'', ''valueOf'', ''__proto__'', ''toLocaleString'']"

datatype 'v property = Own 'v | Inherited | Absent

definition getProp :: "(string \<times> 'v) list \<Rightarrow> string \<Rightarrow> 'v property" where
  "getProp table key =
     (case map_of table key of
        Some v \<Rightarrow> Own v
      | None \<Rightarrow> if key \<in> set objectPrototypeKeys then Inherited else Absent)"

text \<open>
  Division of two \<^verbatim>\<open>bigint\<close> values truncates toward zero. (Division by \<^verbatim>\<open>0n\<close> throws;
  the only divisor in the tools is the literal \<^verbatim>\<open>BigInt(10000)\<close>.)
\<close>

definition bigintDiv :: "int \<Rightarrow> int \<Rightarrow> int" where
  "bigintDiv a b = sgn a * sgn b * (\<bar>a\<bar> div \<bar>b\<bar>)"

text \<open>
  Arithmetic on a \<^verbatim>\<open>number\<close> is arithmetic on doubles: the exact result is rounded to the
  nearest double, ties to the even significand, and a result of magnitude 2^1024 or more
  is infinite (\<open>None\<close>). Every integer of magnitude up to 2^53 is a double. \<open>bitLength\<close> is
  the number of binary digits of a natural number.
\<close>

function bitLength :: "int \<Rightarrow> nat" where
  "bitLength n = (if n \<le> 0 then 0 else Suc (bitLength (n div 2)))"
  by pat_completeness auto
termination
  by (relation "measure nat") auto

declare bitLength.simps [simp del]

definition nearestDouble :: "int \<Rightarrow> int option" where
  "nearestDouble x =
     (if \<bar>x\<bar> \<le> 2 ^ 53 then Some x
      else
        (let magnitude = \<bar>x\<bar>;
             dropped = bitLength magnitude - 53;
             significand = magnitude div 2 ^ dropped;
             remainder = magnitude mod 2 ^ dropped;
             roundUp = (2 ^ dropped < 2 * remainder
                        \<or> (2 * remainder = 2 ^ dropped \<and> odd significand));
             rounded = (if roundUp then significand + 1 else significand) * 2 ^ dropped
         in if 1024 < bitLength rounded then None else Some (sgn x * rounded)))"

section \<open>Registries: the network, token and venue tables\<close>

record NetworkConfig =
  net_chainId :: int
  net_name :: string
  net_symbol :: string
  rpcUrl :: string
  explorerUrl :: string

record TokenConfig =
  tc_symbol :: string
  tc_name :: string
  tc_decimals :: int
  addresses :: "(int \<times> string) list"

text \<open>
  \<^verbatim>\<open>DexConfig\<close> without \<^verbatim>\<open>factoryAddress\<close> and \<^verbatim>\<open>website\<close>, which no tool reads. The three
  address tables are keyed by chain id; \<open>DEX_PROTOCOLS\<close> keeps the order in which the
  object literal lists the venues, which is the order of \<^verbatim>\<open>Object.values\<close>.
\<close>

record DexConfig =
  name :: string
  slug :: string
  routerAddress :: "(int \<times> string) list"
  quoterAddress :: "(int \<times> string) list option"
  supportedChains :: "int list"

definition NETWORKS :: "(int \<times> NetworkConfig) list" where
  "NETWORKS = [
    (1, \<lparr> net_chainId = 1, net_name = ''Ethereum'', net_symbol = ''ETH'',
      rpcUrl = ''https://ethereum-rpc.publicnode.com'',
      explorerUrl = ''https://etherscan.io'' \<rparr>),
    (42161, \<lparr> net_chainId = 42161, net_name = ''Arbitrum'', net_symbol = ''ETH'',
      rpcUrl = ''https://arb1.arbitrum.io/rpc'',
      explorerUrl = ''https://arbiscan.io'' \<rparr>),
    (137, \<lparr> net_chainId = 137, net_name = ''Polygon'', net_symbol = ''MATIC'',
      rpcUrl = ''https://polygon-bor-rpc.publicnode.com'',
      explorerUrl = ''https://polygonscan.com'' \<rparr>),
    (56, \<lparr> net_chainId = 56, net_name = ''BNB Chain'', net_symbol = ''BNB'',
      rpcUrl = ''https://bsc-dataseed1.bnbchain.org'',
      explorerUrl = ''https://bscscan.com'' \<rparr>),
    (43114, \<lparr> net_chainId = 43114, net_name = ''Avalanche'', net_symbol = ''AVAX'',
      rpcUrl = ''https://api.avax.network/ext/bc/C/rpc'',
      explorerUrl = ''https://snowtrace.io'' \<rparr>),
    (10, \<lparr> net_chainId = 10, net_name = ''Optimism'', net_symbol = ''ETH'',
      rpcUrl = ''https://optimism-rpc.publicnode.com'',
      explorerUrl = ''https://optimistic.etherscan.io'' \<rparr>),
    (8453, \<lparr> net_chainId = 8453, net_name = ''Base'', net_symbol = ''ETH'',
      rpcUrl = ''https://base-rpc.publicnode.com'',
      explorerUrl = ''https://basescan.org'' \<rparr>),
    (11155111, \<lparr> net_chainId = 11155111, net_name = ''Sepolia'', net_symbol = ''ETH'',
      rpcUrl = ''https://ethereum-sepolia-rpc.publicnode.com'',
      explorerUrl = ''https://sepolia.etherscan.io'' \<rparr>)]"

definition TOKENS :: "(string \<times> TokenConfig) list" where
  "TOKENS = [
    (''USDC'', \<lparr> tc_symbol = ''USDC'', tc_name = ''USD Coin'', tc_decimals = 6, addresses =
      [(1, ''0xA0b86991c6218b36c1d19D4a2e9Eb0cE3606eB48''),
       (137, ''0x3c499c542cEF5E3811e1192ce70d8cC03d5c3359''),
       (42161, ''0xaf88d065e77c8cC2239327C5EDb3A432268e5831''),
       (10, ''0x0b2C639c533813f4Aa9D7837CAf62653d097Ff85''),
       (8453, ''0x833589fCD6eDb6E08f4c7C32D4f71b54bdA02913''),
       (43114, ''0xB97EF9Ef8734C71904D8002F8b6Bc66Dd9c48a6E''),
       (56, ''0x8AC76a51cc950d9822D68b83fE1Ad97B32Cd580d''),
       (11155111, ''0x1c7D4B196Cb0C7B01d743Fbc6116a902379C7238'')] \<rparr>),
    (''USDT'', \<lparr> tc_symbol = ''USDT'', tc_name = ''Tether USD'', tc_decimals = 6, addresses =
      [(1, ''0xdAC17F958D2ee523a2206206994597C13D831ec7''),
       (137, ''0xc2132D05D31c914a87C6611C10748AEb04B58e8F''),
       (42161, ''0xFd086bC7CD5C481DCC9C85ebE478A1C0b69FCbb9''),
       (10, ''0x94b008aA00579c1307B0EF2c499aD98a8ce58e58''),
       (8453, ''0xfde4C96c8593536E31F229EA8f37b2ADa2699bb2''),
       (43114, ''0x9702230A8Ea53601f5cD2dc00fDBc13d4dF4A8c7''),
       (56, ''0x55d398326f99059fF775485246999027B3197955''),
       (11155111, ''0xaA8E23Fb1079EA71e0a56F48a2aA51851D8433D0'')] \<rparr>),
    (''DAI'', \<lparr> tc_symbol = ''DAI'', tc_name = ''Dai Stablecoin'', tc_decimals = 18, addresses =
      [(1, ''0x6B175474E89094C44Da98b954EescdeCB5BE3830''),
       (137, ''0x8f3Cf7ad23Cd3CaDbD9735AFf958023239c6A063''),
       (42161, ''0xDA10009cBd5D07dd0CeCc66161FC93D7c9000da1''),
       (10, ''0xDA10009cBd5D07dd0CeCc66161FC93D7c9000da1''),
       (8453, ''0x50c5725949A6F0c72E6C4a641F24049A917DB0Cb''),
       (43114, ''0xd586E7F844cEa2F87f50152665BCbc2C279D8d70''),
       (11155111, ''0xFF34B3d4Aee8ddCd6F9AFFFB6Fe49bD371b8a357'')] \<rparr>),
    (''WETH'', \<lparr> tc_symbol = ''WETH'', tc_name = ''Wrapped Ether'', tc_decimals = 18, addresses =
      [(1, ''0xC02aaA39b223FE8D0A0e5C4F27eAD9083C756Cc2''),
       (137, ''0x7ceB23fD6bC0adD59E62ac25578270cFf1b9f619''),
       (42161, ''0x82aF49447D8a07e3bd95BD0d56f35241523fBab1''),
       (10, ''0x4200000000000000000000000000000000000006''),
       (8453, ''0x4200000000000000000000000000000000000006''),
       (43114, ''0x49D5c2BdFfac6CE2BFdB6640F4F80f226bc10bAB''),
       (11155111, ''0x7b79995e5f793A07Bc00c21412e50Ecae098E7f9'')] \<rparr>),
    (''WBTC'', \<lparr> tc_symbol = ''WBTC'', tc_name = ''Wrapped Bitcoin'', tc_decimals = 8, addresses =
      [(1, ''0x2260FAC5E5542a773Aa44fBCfeDf7C193bc2C599''),
       (137, ''0x1BFD67037B42Cf73acF2047067bd4F2C47D9BfD6''),
       (42161, ''0x2f2a2543B76A4166549F7aaB2e75Bef0aefC5B0f''),
       (10, ''0x68f180fcCe6836688e9084f035309E29Bf0A2095''),
       (43114, ''0x50b7545627a5162F82A992c33b87aDc75187B218'')] \<rparr>),
    (''WMATIC'', \<lparr> tc_symbol = ''WMATIC'', tc_name = ''Wrapped Matic'', tc_decimals = 18, addresses =
      [(137, ''0x0d500B1d8E8eF31E21C99d1Db9A6444d3ADf1270'')] \<rparr>),
    (''WBNB'', \<lparr> tc_symbol = ''WBNB'', tc_name = ''Wrapped BNB'', tc_decimals = 18, addresses =
      [(56, ''0xbb4CdB9CBd36B01bD1cBaEBF2De08d9173bc095c'')] \<rparr>),
    (''WAVAX'', \<lparr> tc_symbol = ''WAVAX'', tc_name = ''Wrapped AVAX'', tc_decimals = 18, addresses =
      [(43114, ''0xB31f66AA3C1e785363F0875A1B74E27b85FD66c7'')] \<rparr>),
    (''LINK'', \<lparr> tc_symbol = ''LINK'', tc_name = ''Chainlink'', tc_decimals = 18, addresses =
      [(1, ''0x514910771AF9Ca656af840dff83E8264EcF986CA''),
       (137, ''0x53E0bca35eC356BD5ddDFebbD1Fc0fD03FaBad39''),
       (42161, ''0xf97f4df75117a78c1A5a0DBb814Af92458539FB4''),
       (10, ''0x350a791Bfc2C21F9Ed5d10980Dad2e2638ffa7f6''),
       (43114, ''0x5947BB275c521040051D82396192181b413227A3''),
       (11155111, ''0x779877A7B0D9E8603169DdbD7836e478b4624789'')] \<rparr>),
    (''UNI'', \<lparr> tc_symbol = ''UNI'', tc_name = ''Uniswap'', tc_decimals = 18, addresses =
      [(1, ''0x1f9840a85d5aF5bf1D1762F925BDADdC4201F984''),
       (137, ''0xb33EaAd8d922B1083446DC23f610c2567fB5180f''),
       (42161, ''0xFa7F8980b0f1E64A2062791cc3b0871572f1F7f0''),
       (10, ''0x6fd9d7AD17242c41f7131d257212c54A0e816691'')] \<rparr>),
    (''AAVE'', \<lparr> tc_symbol = ''AAVE'', tc_name = ''Aave'', tc_decimals = 18, addresses =
      [(1, ''0x7Fc66500c84A76Ad7e9c93437bFc5Ac33E2DDaE9''),
       (137, ''0xD6DF932A45C0f255f85145f286eA0b292B21C90B''),
       (42161, ''0xba5DdD1f9d7F570dc94a51479a000E3BCE967196''),
       (10, ''0x76FB31fb4af56892A25e32cFC43De717950c9278''),
       (43114, ''0x63a72806098Bd3D9520cC43356dD78afe5D386D9'')] \<rparr>),
    (''PEPE'', \<lparr> tc_symbol = ''PEPE'', tc_name = ''Pepe'', tc_decimals = 18, addresses =
      [(1, ''0x6982508145454Ce325dDbE47a25d4ec3d2311933'')] \<rparr>),
    (''SHIB'', \<lparr> tc_symbol = ''SHIB'', tc_name = ''Shiba Inu'', tc_decimals = 18, addresses =
      [(1, ''0x95aD61b0a150d79219dCF64E1E6Cc01f0B64C4cE'')] \<rparr>)]"

definition UNISWAP :: DexConfig where
  "UNISWAP = \<lparr> name = ''Uniswap'', slug = ''uniswap'',
     routerAddress =
      [(1, ''0x68b3465833fb72A70ecDF485E0e4C7bD8665Fc45''),
       (42161, ''0x68b3465833fb72A70ecDF485E0e4C7bD8665Fc45''),
       (137, ''0x68b3465833fb72A70ecDF485E0e4C7bD8665Fc45''),
       (10, ''0x68b3465833fb72A70ecDF485E0e4C7bD8665Fc45''),
       (8453, ''0x2626664c2603336E57B271c5C0b26F421741e481''),
       (56, ''0xB971eF87ede563556b2ED4b1C0b0019111Dd85d2''),
       (43114, ''0xbb00FF08d01D300023C629E8fFfFcb65A5a578cE''),
       (11155111, ''0x3bFA4769FB09eefC5a80d6E87c3B9C650f7Ae48E'')],
     quoterAddress = Some
      [(1, ''0x61fFE014bA17989E743c5F6cB21bF9697530B21e''),
       (42161, ''0x61fFE014bA17989E743c5F6cB21bF9697530B21e''),
       (137, ''0x61fFE014bA17989E743c5F6cB21bF9697530B21e''),
       (10, ''0x61fFE014bA17989E743c5F6cB21bF9697530B21e''),
       (8453, ''0x3d4e44Eb1374240CE5F1B871ab261CD16335B76a''),
       (56, ''0x78D78E420Da98ad378D7799bE8f4AF69033EB077''),
       (43114, ''0xbe0F5544EC67e9B3b2D979aaA43f18Fd87E6257F''),
       (11155111, ''0xEd1f6473345F45b75F8179591dd5bA1888cf2FB3'')],
     supportedChains = [1, 42161, 137, 10, 8453, 56, 43114, 11155111] \<rparr>"

definition SUSHISWAP :: DexConfig where
  "SUSHISWAP = \<lparr> name = ''SushiSwap'', slug = ''sushiswap'',
     routerAddress =
      [(1, ''0xd9e1cE17f2641f24aE83637ab66a2cca9C378B9F''),
       (42161, ''0x1b02dA8Cb0d097eB8D57A175b88c7D8b47997506''),
       (137, ''0x1b02dA8Cb0d097eB8D57A175b88c7D8b47997506''),
       (10, ''0x4C5D5234f232BD2D76B96aA33F5AE4FCF0E4BFAb''),
       (56, ''0x1b02dA8Cb0d097eB8D57A175b88c7D8b47997506''),
       (43114, ''0x1b02dA8Cb0d097eB8D57A175b88c7D8b47997506'')],
     quoterAddress = None,
     supportedChains = [1, 42161, 137, 10, 56, 43114] \<rparr>"

definition CURVE :: DexConfig where
  "CURVE = \<lparr> name = ''Curve'', slug = ''curve'',
     routerAddress =
      [(1, ''0x99a58482BD75cbab83b27EC03CA68fF489b5788f''),
       (42161, ''0xF0d4c12A5768D806021F80a262B4d39d26C58b8D''),
       (137, ''0xF0d4c12A5768D806021F80a262B4d39d26C58b8D''),
       (10, ''0x0DCDED3545D565bA3B19E683431381007245d983''),
       (43114, ''0x0DCDED3545D565bA3B19E683431381007245d983'')],
     quoterAddress = None,
     supportedChains = [1, 42161, 137, 10, 43114] \<rparr>"

definition PANCAKESWAP :: DexConfig where
  "PANCAKESWAP = \<lparr> name = ''PancakeSwap'', slug = ''pancakeswap'',
     routerAddress =
      [(56, ''0x10ED43C718714eb63d5aA57B78B54704E256024E''),
       (1, ''0x13f4EA83D0bd40E75C8222255bc855a974568Dd4''),
       (42161, ''0x8cFe327CEc66d1C090Dd72bd0FF11d690C33a2Eb'')],
     quoterAddress = None,
     supportedChains = [56, 1, 42161] \<rparr>"

definition TRADERJOE :: DexConfig where
  "TRADERJOE = \<lparr> name = ''TraderJoe'', slug = ''traderjoe'',
     routerAddress =
      [(43114, ''0xb4315e873dBcf96Ffd0acd8EA43f689D8c20fB30''),
       (42161, ''0xb4315e873dBcf96Ffd0acd8EA43f689D8c20fB30'')],
     quoterAddress = None,
     supportedChains = [43114, 42161] \<rparr>"

definition WRAPPED_NATIVE :: "(int \<times> string) list" where
  "WRAPPED_NATIVE = [
    (1, ''0xC02aaA39b223FE8D0A0e5C4F27eAD9083C756Cc2''),
    (42161, ''0x82aF49447D8a07e3bd95BD0d56f35241523fBab1''),
    (137, ''0x0d500B1d8E8eF31E21C99d1Db9A6444d3ADf1270''),
    (10, ''0x4200000000000000000000000000000000000006''),
    (8453, ''0x4200000000000000000000000000000000000006''),
    (56, ''0xbb4CdB9CBd36B01bD1cBaEBF2De08d9173bc095c''),
    (43114, ''0xB31f66AA3C1e785363F0875A1B74E27b85FD66c7''),
    (11155111, ''0xfFf9976782d46CC05630D1f6eBAb18b2324d6B14'')]"

definition DEX_PROTOCOLS :: "(string \<times> DexConfig) list" where
  "DEX_PROTOCOLS = [(''uniswap'', UNISWAP), (''sushiswap'', SUSHISWAP), (''curve'', CURVE),
     (''pancakeswap'', PANCAKESWAP), (''traderjoe'', TRADERJOE)]"

definition FEE_TIERS_LOWEST :: int where "FEE_TIERS_LOWEST = 100"
definition FEE_TIERS_LOW :: int where "FEE_TIERS_LOW = 500"
definition FEE_TIERS_MEDIUM :: int where "FEE_TIERS_MEDIUM = 3000"
definition FEE_TIERS_HIGH :: int where "FEE_TIERS_HIGH = 10000"

definition DEFAULT_SLIPPAGE_BPS :: int where "DEFAULT_SLIPPAGE_BPS = 50"

definition SWAP_DEADLINE_SECONDS :: int where "SWAP_DEADLINE_SECONDS = 20 * 60"

definition getNetwork :: "int \<Rightarrow> NetworkConfig option" where
  "getNetwork chainId = map_of NETWORKS chainId"

definition getRpcUrl :: "int \<Rightarrow> string" where
  "getRpcUrl chainId =
     (case map_of NETWORKS chainId of
        Some n \<Rightarrow> if rpcUrl n = [] then ''https://eth.llamarpc.com'' else rpcUrl n
      | None \<Rightarrow> ''https://eth.llamarpc.com'')"

definition getNativeSymbol :: "int \<Rightarrow> string" where
  "getNativeSymbol chainId =
     (case map_of NETWORKS chainId of
        Some n \<Rightarrow> if net_symbol n = [] then ''ETH'' else net_symbol n
      | None \<Rightarrow> ''ETH'')"

definition getExplorerUrl :: "int \<Rightarrow> string" where
  "getExplorerUrl chainId =
     (case map_of NETWORKS chainId of
        Some n \<Rightarrow> if explorerUrl n = [] then ''https://etherscan.io'' else explorerUrl n
      | None \<Rightarrow> ''https://etherscan.io'')"

text \<open>
  \<^verbatim>\<open>getToken\<close> and the resolvers below take the token table (and the alias table) as an
  argument, so that a theorem can speak about every content of the tables; the tools
  pass the module constants \<open>TOKENS\<close> and \<open>TOKEN_ALIASES\<close>. The key of the token table is
  the upper-cased symbol, which no inherited key of \<^verbatim>\<open>Object.prototype\<close> equals.
\<close>

record TokenEntry =
  te_address :: string
  te_decimals :: int
  te_name :: string

definition getToken :: "(string \<times> TokenConfig) list \<Rightarrow> string \<Rightarrow> int \<Rightarrow> TokenEntry option" where
  "getToken tokens symbol chainId =
     (let upperSymbol = toUpperCase symbol in
      case map_of tokens upperSymbol of
        None \<Rightarrow> None
      | Some token \<Rightarrow>
          (case map_of (addresses token) chainId of
             None \<Rightarrow> None
           | Some address \<Rightarrow>
               if address = [] then None
               else Some \<lparr> te_address = address, te_decimals = tc_decimals token,
                           te_name = tc_name token \<rparr>))"

definition nativeTokens :: "(int \<times> string list) list" where
  "nativeTokens = [(1, [''ETH'', ''ETHER'']), (137, [''MATIC'', ''POL'']),
     (42161, [''ETH'', ''ETHER'']), (10, [''ETH'', ''ETHER'']), (8453, [''ETH'', ''ETHER'']),
     (43114, [''AVAX'']), (56, [''BNB'']), (11155111, [''ETH'', ''ETHER''])]"

definition isNativeToken :: "string \<Rightarrow> int \<Rightarrow> bool" where
  "isNativeToken symbol chainId =
     (let upperSymbol = toUpperCase symbol in
      case map_of nativeTokens chainId of
        Some symbols \<Rightarrow> upperSymbol \<in> set symbols
      | None \<Rightarrow> False)"

text \<open>
  \<^verbatim>\<open>getDex\<close> reads \<^verbatim>\<open>DEX_PROTOCOLS[lowerName]\<close>: an inherited key yields a value that is
  not a \<^verbatim>\<open>DexConfig\<close>.
\<close>

definition getDex :: "string \<Rightarrow> DexConfig property" where
  "getDex dexName = getProp DEX_PROTOCOLS (toLowerCase dexName)"

definition getDexesForChain :: "int \<Rightarrow> DexConfig list" where
  "getDexesForChain chainId =
     filter (\<lambda>dex. chainId \<in> set (supportedChains dex)) (map snd DEX_PROTOCOLS)"

section \<open>Collaborators: the ethers library and the chain data provider\<close>

text \<open>
  The contract calls the tools encode with \<^verbatim>\<open>Interface.encodeFunctionData\<close>, by function
  name and arguments. The ABI encoder itself belongs to the ethers library: it is a
  field of the record \<open>ethers\<close> below, and it may throw.
\<close>

record ExactInputSingleParams =
  p_tokenIn :: string
  p_tokenOut :: string
  p_fee :: int
  p_recipient :: string
  p_amountIn :: int
  p_amountOutMinimum :: int
  p_sqrtPriceLimitX96 :: int

datatype call =
    ExactInputSingle ExactInputSingleParams
  | Multicall int "string list"
  | SwapExactETHForTokens int "string list" string int
  | SwapExactTokensForETH int int "string list" string int
  | SwapExactTokensForTokens int int "string list" string int
  | Erc20Transfer string int
  | Erc20Approve string int

text \<open>
  One JSON-RPC endpoint. Every field is a read the tools issue through
  \<^verbatim>\<open>ethers.JsonRpcProvider\<close> or \<^verbatim>\<open>ethers.Contract\<close>; \<open>Inl\<close> is a rejected promise (a
  revert, a timeout, a network failure). \<open>quoteExactInputSingle\<close> takes the quoter
  address, tokenIn, tokenOut, amountIn and the fee and returns \<^verbatim>\<open>result.amountOut\<close>;
  \<open>getAmountsOut\<close> takes the router address, amountIn and the path.
\<close>

record provider =
  getBalance :: "string \<Rightarrow> exn + int"
  balanceOf :: "string \<Rightarrow> string \<Rightarrow> exn + int"
  allowance :: "string \<Rightarrow> string \<Rightarrow> string \<Rightarrow> exn + int"
  decimalsAndSymbol :: "string \<Rightarrow> exn + (int \<times> string)"
  quoteExactInputSingle :: "string \<Rightarrow> string \<Rightarrow> string \<Rightarrow> int \<Rightarrow> int \<Rightarrow> exn + int"
  getAmountsOut :: "string \<Rightarrow> int \<Rightarrow> string list \<Rightarrow> exn + int list"
  resolveName :: "string \<Rightarrow> exn + string option"

text \<open>
  The part of the ethers namespace the tools use. \<open>isAddress\<close>, \<open>parseUnits\<close> (which
  throws on a malformed amount), \<open>formatUnits\<close> and \<open>encodeFunctionData\<close> are taken as
  given; \<open>JsonRpcProvider\<close> maps an endpoint URL to the endpoint. A transaction's
  \<^verbatim>\<open>value\<close> is kept as the integer its hexadecimal string encodes (\<^verbatim>\<open>'0x0'\<close> is \<open>0\<close>), so
  \<^verbatim>\<open>ethers.toQuantity\<close> returns its argument; it throws on a negative one.
\<close>

record ethers =
  isAddress :: "string \<Rightarrow> bool"
  parseUnits :: "string \<Rightarrow> int \<Rightarrow> exn + int"
  formatUnits :: "int \<Rightarrow> int \<Rightarrow> string"
  encodeFunctionData :: "call \<Rightarrow> exn + string"
  JsonRpcProvider :: "string \<Rightarrow> provider"

definition parseEther :: "ethers \<Rightarrow> string \<Rightarrow> exn + int" where
  "parseEther eth s = parseUnits eth s 18"

definition toQuantity :: "int \<Rightarrow> exn + int" where
  "toQuantity v = (if v < 0 then Inl NumericFault else Inr v)"

text \<open>
  Built-ins of the language whose results feed display strings, the slippage parameter,
  the deadline, the network switch and the match of a contact name: \<open>toFixed6\<close> stands for
  \<^verbatim>\<open>parseFloat(s).toFixed(6)\<close>, \<open>roundBps\<close> for \<^verbatim>\<open>Math.round(parseFloat(s) * 100)\<close> and
  \<open>parseInt\<close> for \<^verbatim>\<open>parseInt(s)\<close>, each \<open>None\<close> when the result is \<^verbatim>\<open>NaN\<close> (or infinite);
  \<open>dateNow\<close> is \<^verbatim>\<open>Date.now()\<close>. \<open>lowerCase\<close> is \<^verbatim>\<open>String.prototype.toLowerCase\<close> on text that
  need not be ASCII: the contact names and the recipient they are matched with.
\<close>

record builtins =
  toFixed6 :: "string \<Rightarrow> string"
  roundBps :: "string \<Rightarrow> int option"
  parseInt :: "string \<Rightarrow> int option"
  dateNow :: int
  lowerCase :: "string \<Rightarrow> string"

definition MaxUint256 :: int where
  "MaxUint256 = 2 ^ 256 - 1"

definition ZeroAddress :: string where
  "ZeroAddress = ''0x0000000000000000000000000000000000000000''"

text \<open>The reads a request issues, in order, as they are logged in the world below.\<close>

datatype rpc_call =
    GetBalance string
  | BalanceOf string string
  | Allowance string string string
  | DecimalsAndSymbol string
  | QuoteExactInputSingle string string string int int
  | GetAmountsOut string int "string list"
  | ResolveName string

section \<open>Quote aggregation: token-utils.ts, getUniswapV3Quote, getV2Quote, getAllQuotes\<close>

definition getUniswapV3Quote ::
  "provider \<Rightarrow> string \<Rightarrow> string \<Rightarrow> string \<Rightarrow> int \<Rightarrow> int \<Rightarrow> int option" where
  "getUniswapV3Quote prov quoter tokenIn tokenOut amountIn fee =
     (case quoteExactInputSingle prov quoter tokenIn tokenOut amountIn fee of
        Inr amount \<Rightarrow> Some amount
      | Inl _ \<Rightarrow> None)"

text \<open>
  When the returned array is shorter than two there is no \<^verbatim>\<open>amounts[1]\<close> to return (the
  read is undefined or throws inside the \<^verbatim>\<open>try\<close>): the venue gives no quote.
\<close>

definition getV2Quote :: "provider \<Rightarrow> string \<Rightarrow> string \<Rightarrow> string \<Rightarrow> int \<Rightarrow> int option" where
  "getV2Quote prov router tokenIn tokenOut amountIn =
     (case getAmountsOut prov router amountIn [tokenIn, tokenOut] of
        Inr amounts \<Rightarrow> if 1 < length amounts then Some (amounts ! 1) else None
      | Inl _ \<Rightarrow> None)"

record SwapQuote =
  dex :: DexConfig
  amountOut :: int
  amountOutFormatted :: string

text \<open>The test \<^verbatim>\<open>amountOut && amountOut > 0n\<close>: \<^verbatim>\<open>null\<close> and \<^verbatim>\<open>0n\<close> are falsy.\<close>

definition viable :: "int option \<Rightarrow> bool" where
  "viable a = (case a of Some v \<Rightarrow> v \<noteq> 0 \<and> 0 < v | None \<Rightarrow> False)"

text \<open>
  The inner loop \<^verbatim>\<open>for (const fee of [...]) { amountOut = await getUniswapV3Quote(...);
  if (amountOut && amountOut > 0n) break; }\<close>. The first argument is the quote call as a
  function of the fee; the result is the final \<^verbatim>\<open>amountOut\<close> and the fees that were
  queried, in order.
\<close>

fun quoteFeeTiers ::
  "(int \<Rightarrow> int option) \<Rightarrow> int list \<Rightarrow> int option \<Rightarrow> int option \<times> int list" where
  "quoteFeeTiers quote [] current = (current, [])"
| "quoteFeeTiers quote (fee # fees) current =
     (let current' = quote fee in
      if viable current' then (current', [fee])
      else (let (r, tried) = quoteFeeTiers quote fees current' in (r, fee # tried)))"

definition feeTierOrder :: "int list" where
  "feeTierOrder = [FEE_TIERS_MEDIUM, FEE_TIERS_LOW, FEE_TIERS_HIGH]"

text \<open>A table read \<^verbatim>\<open>table[chainId]\<close> used as a condition: an empty string is falsy.\<close>

definition addressOn :: "(int \<times> string) list \<Rightarrow> int \<Rightarrow> string option" where
  "addressOn table chainId =
     (case map_of table chainId of
        Some a \<Rightarrow> if a = [] then None else Some a
      | None \<Rightarrow> None)"

definition quoterOn :: "DexConfig \<Rightarrow> int \<Rightarrow> string option" where
  "quoterOn d chainId =
     (case quoterAddress d of Some table \<Rightarrow> addressOn table chainId | None \<Rightarrow> None)"

text \<open>
  One iteration of the outer loop of \<^verbatim>\<open>getAllQuotes\<close>, up to the \<^verbatim>\<open>quotes.push\<close>: the
  venue's \<^verbatim>\<open>amountOut\<close> and the reads it issued.
\<close>

definition quoteVenue ::
  "provider \<Rightarrow> int \<Rightarrow> string \<Rightarrow> string \<Rightarrow> int \<Rightarrow> DexConfig \<Rightarrow> int option \<times> rpc_call list" where
  "quoteVenue prov chainId tokenIn tokenOut amountIn d =
     (case (if slug d = ''uniswap'' then quoterOn d chainId else None) of
        Some quoter \<Rightarrow>
          (let (amount, tried) =
                 quoteFeeTiers (getUniswapV3Quote prov quoter tokenIn tokenOut amountIn)
                   feeTierOrder None
           in (amount, map (QuoteExactInputSingle quoter tokenIn tokenOut amountIn) tried))
      | None \<Rightarrow>
          (case addressOn (routerAddress d) chainId of
             Some router \<Rightarrow>
               (getV2Quote prov router tokenIn tokenOut amountIn,
                [GetAmountsOut router amountIn [tokenIn, tokenOut]])
           | None \<Rightarrow> (None, [])))"

definition pushQuote :: "ethers \<Rightarrow> int \<Rightarrow> DexConfig \<Rightarrow> int option \<Rightarrow> SwapQuote list" where
  "pushQuote eth tokenOutDecimals d amount =
     (case amount of
        Some v \<Rightarrow>
          if viable amount
          then [\<lparr> dex = d, amountOut = v,
                  amountOutFormatted = formatUnits eth v tokenOutDecimals \<rparr>]
          else []
      | None \<Rightarrow> [])"

fun collectQuotes ::
  "ethers \<Rightarrow> provider \<Rightarrow> int \<Rightarrow> string \<Rightarrow> string \<Rightarrow> int \<Rightarrow> int \<Rightarrow> DexConfig list
     \<Rightarrow> SwapQuote list \<times> rpc_call list" where
  "collectQuotes eth prov chainId tokenIn tokenOut amountIn tokenOutDecimals [] = ([], [])"
| "collectQuotes eth prov chainId tokenIn tokenOut amountIn tokenOutDecimals (d # ds) =
     (let (amount, calls) = quoteVenue prov chainId tokenIn tokenOut amountIn d;
          (quotes, calls') =
            collectQuotes eth prov chainId tokenIn tokenOut amountIn tokenOutDecimals ds
      in (pushQuote eth tokenOutDecimals d amount @ quotes, calls @ calls'))"

subsection \<open>Array.prototype.sort with the comparator of getAllQuotes\<close>

text \<open>
  \<^verbatim>\<open>quotes.sort((a, b) => (b.amountOut > a.amountOut ? 1 : -1))\<close>. The comparator never
  returns 0: for two quotes of equal \<^verbatim>\<open>amountOut\<close> it answers \<open>-1\<close> in both argument
  orders, so it is not a consistent comparator in the sense of ECMA-262, and the order of
  the result is the one the engine's algorithm happens to produce. The service runs on
  Node 20 (Dockerfile), whose engine sorts an array of fewer than 64 elements by
  detecting the run at the start of the array (\<^verbatim>\<open>CountAndMakeRun\<close>: a strictly descending
  run, by the comparator, is reversed) and inserting every later element by binary search
  (\<^verbatim>\<open>BinaryInsertionSort\<close>); there are five venues. The functions below follow that
  algorithm and always call the comparator as the engine does: the later element first.
\<close>

definition compareQuotes :: "SwapQuote \<Rightarrow> SwapQuote \<Rightarrow> int" where
  "compareQuotes a b = (if amountOut b > amountOut a then 1 else -1)"

fun runExtend :: "('a \<Rightarrow> 'a \<Rightarrow> int) \<Rightarrow> bool \<Rightarrow> 'a \<Rightarrow> 'a list \<Rightarrow> nat" where
  "runExtend cmp isDescending previousElement [] = 0"
| "runExtend cmp isDescending previousElement (currentElement # rest) =
     (let order = cmp currentElement previousElement in
      if (if isDescending then order \<ge> 0 else order < 0) then 0
      else Suc (runExtend cmp isDescending currentElement rest))"

definition countAndMakeRun :: "('a \<Rightarrow> 'a \<Rightarrow> int) \<Rightarrow> 'a list \<Rightarrow> nat \<times> 'a list" where
  "countAndMakeRun cmp xs =
     (case xs of
        [] \<Rightarrow> (0, [])
      | [a] \<Rightarrow> (1, [a])
      | elementHigh # elementLow # rest \<Rightarrow>
          (let isDescending = (cmp elementLow elementHigh < 0);
               runLength = 2 + runExtend cmp isDescending elementLow rest
           in (runLength,
               if isDescending then rev (take runLength xs) @ drop runLength xs else xs)))"

function binarySearch :: "('a \<Rightarrow> 'a \<Rightarrow> int) \<Rightarrow> 'a \<Rightarrow> 'a list \<Rightarrow> nat \<Rightarrow> nat \<Rightarrow> nat" where
  "binarySearch cmp pivot xs left right =
     (if left < right
      then (let mid = left + (right - left) div 2 in
            if cmp pivot (xs ! mid) < 0 then binarySearch cmp pivot xs left mid
            else binarySearch cmp pivot xs (mid + 1) right)
      else left)"
  by pat_completeness auto
termination
  by (relation "measure (\<lambda>(cmp, pivot, xs, left, right). right - left)") auto

declare binarySearch.simps [simp del]

fun binaryInsertionSort :: "('a \<Rightarrow> 'a \<Rightarrow> int) \<Rightarrow> 'a list \<Rightarrow> 'a list \<Rightarrow> 'a list" where
  "binaryInsertionSort cmp placed [] = placed"
| "binaryInsertionSort cmp placed (pivot # rest) =
     (let left = binarySearch cmp pivot placed 0 (length placed) in
      binaryInsertionSort cmp (take left placed @ pivot # drop left placed) rest)"

definition arraySort :: "('a \<Rightarrow> 'a \<Rightarrow> int) \<Rightarrow> 'a list \<Rightarrow> 'a list" where
  "arraySort cmp xs =
     (if length xs < 2 then xs
      else (let (runLength, ys) = countAndMakeRun cmp xs in
            binaryInsertionSort cmp (take runLength ys) (drop runLength ys)))"

definition getAllQuotes ::
  "ethers \<Rightarrow> provider \<Rightarrow> int \<Rightarrow> string \<Rightarrow> string \<Rightarrow> int \<Rightarrow> int \<Rightarrow> SwapQuote list \<times> rpc_call list" where
  "getAllQuotes eth prov chainId tokenIn tokenOut amountIn tokenOutDecimals =
     (let dexes = getDexesForChain chainId;
          (quotes, calls) =
            collectQuotes eth prov chainId tokenIn tokenOut amountIn tokenOutDecimals dexes
      in (arraySort compareQuotes quotes, calls))"

subsection \<open>Slippage bound: token-utils.ts, line 742\<close>

text \<open>
  \<^verbatim>\<open>(bestQuote.amountOut * BigInt(10000 - slippageBps)) / BigInt(10000)\<close>, where
  \<^verbatim>\<open>slippageBps\<close> is a \<^verbatim>\<open>number\<close> (\<open>None\<close> when it is \<^verbatim>\<open>NaN\<close> or infinite). The subtraction is
  one of doubles; \<^verbatim>\<open>BigInt\<close> of \<^verbatim>\<open>NaN\<close> or of an infinite number throws a RangeError, and the
  product and the quotient are exact \<^verbatim>\<open>bigint\<close> operations.
\<close>

definition amountOutMin :: "int \<Rightarrow> int option \<Rightarrow> exn + int" where
  "amountOutMin bestAmountOut slippageBps =
     (case slippageBps of
        None \<Rightarrow> Inl RangeError
      | Some bps \<Rightarrow>
          (case nearestDouble (10000 - bps) of
             None \<Rightarrow> Inl RangeError
           | Some factor \<Rightarrow> Inr (bigintDiv (bestAmountOut * factor) 10000)))"
section \<open>The data store, the notification channel and the world of one request\<close>

record Contact =
  contact_name :: string
  contact_address :: string
  deletedAt :: "int option"

record User =
  user_id :: string
  user_address :: string
  contacts :: "Contact list"

text \<open>
  A row of the transaction table, as \<^verbatim>\<open>db.transaction.create\<close> writes it, without the
  \<^verbatim>\<open>details\<close> blob (display metadata). \<open>tx_id\<close> is the identifier the store assigns.
  \<open>tx_to\<close> is optional because the swap tool reads it from \<^verbatim>\<open>dex.routerAddress[chainId]\<close>.
\<close>

record Transaction =
  tx_id :: nat
  tx_chatId :: string
  tx_userId :: string
  tx_type :: string
  tx_status :: string
  tx_chainId :: int
  tx_to :: "string option"
  tx_value :: int
  tx_data :: string
  tx_buttonText :: string

record ApprovalData =
  ad_token :: string
  ad_tokenSymbol :: string
  ad_spender :: "string option"
  ad_spenderName :: string
  ad_amount :: int

text \<open>
  What is emitted to a room of the socket server: \<open>NetworkSwitch room chainId\<close>, and
  \<open>PendingTransaction room row explorerUrl approvalData\<close>, whose payload repeats the
  saved row's id, type, to, value, data, chainId and buttonText.
\<close>

datatype emit =
    NetworkSwitch string int
  | PendingTransaction string Transaction string "ApprovalData option"

text \<open>
  The conditions of the collaborators during one request: the libraries; whether the data
  store rejects the read of the user's contacts (\<open>contactReadFails\<close>), the read of the
  user before the row is written (\<open>findUserFails\<close>) or the write (\<open>createFails\<close>);
  whether \<^verbatim>\<open>initSocket\<close> has run (\<open>ioInstance\<close>); whether the \<^verbatim>\<open>emit\<close> of the network switch
  (\<open>switchEmitFails\<close>) or of the pending transaction (\<open>emitFails\<close>) throws; and whether
  \<^verbatim>\<open>agent.switchNetwork\<close> rejects.
\<close>

record collaborators =
  eth :: ethers
  js :: builtins
  contactReadFails :: bool
  findUserFails :: bool
  createFails :: bool
  ioInstance :: bool
  switchEmitFails :: bool
  emitFails :: bool
  switchNetworkFails :: bool

text \<open>
  Everything a request can read or change: the users and the transaction rows of the
  data store, what was emitted, what \<^verbatim>\<open>console.error\<close> printed, and the reads issued to
  the chain data provider, each in order.
\<close>

record world =
  users :: "User list"
  transactions :: "Transaction list"
  emitted :: "emit list"
  console :: "string list"
  rpcLog :: "rpc_call list"

definition logCalls :: "rpc_call list \<Rightarrow> world \<Rightarrow> world" where
  "logCalls calls w = w\<lparr> rpcLog := rpcLog w @ calls \<rparr>"

definition findUser :: "world \<Rightarrow> string \<Rightarrow> User option" where
  "findUser w userAddress = find (\<lambda>u. user_address u = userAddress) (users w)"

record ToolContext =
  userAddress :: "string option"
  ctx_chainId :: "int option"
  chatId :: "string option"
  agent :: bool

text \<open>\<^verbatim>\<open>context?.chainId || 1\<close> and \<^verbatim>\<open>chatId || ''\<close>.\<close>

definition contextChainId :: "ToolContext \<Rightarrow> int" where
  "contextChainId ctx = (case ctx_chainId ctx of Some n \<Rightarrow> if n = 0 then 1 else n | None \<Rightarrow> 1)"

definition orEmpty :: "string option \<Rightarrow> string" where
  "orEmpty s = (case s of Some v \<Rightarrow> v | None \<Rightarrow> [])"

text \<open>
  What a handler returns: \<^verbatim>\<open>{ success: false, error }\<close> with the reason, or
  \<^verbatim>\<open>{ success: true, data }\<close> with the saved row the summary in \<^verbatim>\<open>data\<close> is built from.
  \<open>Caught e\<close> is the \<^verbatim>\<open>catch\<close> at the end of a handler, which reports \<^verbatim>\<open>error.message\<close>.
  \<open>InsufficientBalance balance required\<close> is the rejection of the balance check.
\<close>

datatype failure =
    NoUserAddress
  | UnknownNetwork string
  | TokenNotFoundOnNetwork string
  | SameToken
  | InsufficientBalance int int
  | DexNotSupported string
  | DexNotAvailable string
  | NoLiquidity
  | UserNotFound
  | Caught exn

datatype result = Success Transaction | Failure failure

text \<open>
  The common tail of the three handlers (transfer.ts 298-352, approve.ts 183-243,
  token-utils.ts 769-848): look the user up, create the row with status \<^verbatim>\<open>pending\<close>, then
  \<^verbatim>\<open>try { getIO().to(room).emit('pendingTransaction', ...) } catch { console.error(...) }\<close>.
  There is no statement after the \<^verbatim>\<open>create\<close> that deletes or updates a row.
\<close>

record PreparedTx =
  ptx_to :: "string option"
  ptx_value :: int
  ptx_data :: string

definition publish ::
  "collaborators \<Rightarrow> string \<Rightarrow> string \<Rightarrow> emit \<Rightarrow> world \<Rightarrow> world" where
  "publish c label room payload w =
     (if \<not> ioInstance c then w\<lparr> console := console w @ [label @ ''Socket.IO not initialized''] \<rparr>
      else if emitFails c then w\<lparr> console := console w @ [label @ ''emit''] \<rparr>
      else w\<lparr> emitted := emitted w @ [payload] \<rparr>)"

definition persistAndPublish ::
  "collaborators \<Rightarrow> string \<Rightarrow> string \<Rightarrow> int \<Rightarrow> string option \<Rightarrow> string \<Rightarrow> PreparedTx \<Rightarrow> string
     \<Rightarrow> ApprovalData option \<Rightarrow> world \<Rightarrow> result \<times> world" where
  "persistAndPublish c txType label chainId chat userAddr tx buttonText approval w =
     (if findUserFails c then (Failure (Caught (External ''db.user.findUnique'')), w)
      else
        (case findUser w userAddr of
           None \<Rightarrow> (Failure UserNotFound, w)
         | Some user \<Rightarrow>
             if createFails c then (Failure (Caught (External ''db.transaction.create'')), w)
             else
               (let savedTx = \<lparr> tx_id = length (transactions w), tx_chatId = orEmpty chat,
                      tx_userId = user_id user, tx_type = txType, tx_status = ''pending'',
                      tx_chainId = chainId, tx_to = ptx_to tx, tx_value = ptx_value tx,
                      tx_data = ptx_data tx, tx_buttonText = buttonText \<rparr>;
                    w1 = w\<lparr> transactions := transactions w @ [savedTx] \<rparr>;
                    normalizedAddress = toLowerCase userAddr;
                    w2 = publish c label (''user:'' @ normalizedAddress)
                           (PendingTransaction (''user:'' @ normalizedAddress) savedTx
                              (getExplorerUrl chainId) approval) w1
                in (Success savedTx, w2))))"

section \<open>Identifier resolution\<close>

subsection \<open>Recipients: transfer.ts, resolveRecipient\<close>

datatype origin = FromContact string | FromENS string

record Recipient =
  r_address :: string
  resolvedFrom :: "origin option"

text \<open>
  The store read is \<^verbatim>\<open>db.user.findUnique\<close> with the user's contacts whose \<^verbatim>\<open>deletedAt\<close> is
  null; \<^verbatim>\<open>Array.prototype.find\<close> takes the first contact whose lower-cased name equals the
  lower-cased input, both lower-cased by \<^verbatim>\<open>String.prototype.toLowerCase\<close> (the built-in
  \<open>lowerCase\<close>). The name-service branch logs its read. A name that resolves to
  \<^verbatim>\<open>null\<close> (or to an empty string), and a resolution that throws, fall through to the
  final \<^verbatim>\<open>throw\<close>.
\<close>

definition ensChains :: "int list" where
  "ensChains = [1, 11155111]"

definition findContact :: "builtins \<Rightarrow> world \<Rightarrow> string \<Rightarrow> string \<Rightarrow> Contact option" where
  "findContact b w userAddr recipient =
     (case findUser w userAddr of
        Some user \<Rightarrow>
          find (\<lambda>ct. lowerCase b (contact_name ct) = lowerCase b recipient)
            (filter (\<lambda>ct. deletedAt ct = None) (contacts user))
      | None \<Rightarrow> None)"

definition resolveRecipient ::
  "collaborators \<Rightarrow> string \<Rightarrow> string \<Rightarrow> int \<Rightarrow> world \<Rightarrow> (exn + Recipient) \<times> world" where
  "resolveRecipient c recipient userAddr chainId w =
     (if isAddress (eth c) recipient
      then (Inr \<lparr> r_address = recipient, resolvedFrom = None \<rparr>, w)
      else if contactReadFails c then (Inl (External ''db.user.findUnique''), w)
      else
        (case findContact (js c) w userAddr recipient of
           Some contact \<Rightarrow>
             (Inr \<lparr> r_address = contact_address contact,
                    resolvedFrom = Some (FromContact (contact_name contact)) \<rparr>, w)
         | None \<Rightarrow>
             if endsWith recipient ''.eth'' \<and> chainId \<in> set ensChains
             then
               (let prov = JsonRpcProvider (eth c) (getRpcUrl chainId);
                    w1 = logCalls [ResolveName recipient] w
                in case resolveName prov recipient of
                     Inr (Some ensAddress) \<Rightarrow>
                       if ensAddress = [] then (Inl (RecipientNotResolved recipient), w1)
                       else (Inr \<lparr> r_address = ensAddress,
                                   resolvedFrom = Some (FromENS recipient) \<rparr>, w1)
                   | Inr None \<Rightarrow> (Inl (RecipientNotResolved recipient), w1)
                   | Inl _ \<Rightarrow> (Inl (RecipientNotResolved recipient), w1))
             else (Inl (RecipientNotResolved recipient), w)))"

subsection \<open>Tokens: resolveToken of transfer.ts, approve.ts and token-utils.ts\<close>

definition TOKEN_ALIASES_transfer :: "(string \<times> string) list" where
  "TOKEN_ALIASES_transfer = [(''dollar'', ''USDC''), (''dolar'', ''USDC''), (''usd'', ''USDC''),
     (''$'', ''USDC''), (''tether'', ''USDT''), (''ether'', ''ETH''), (''bitcoin'', ''WBTC''),
     (''btc'', ''WBTC'')]"

definition TOKEN_ALIASES_approve :: "(string \<times> string) list" where
  "TOKEN_ALIASES_approve = [(''dollar'', ''USDC''), (''dolar'', ''USDC''), (''usd'', ''USDC''),
     (''$'', ''USDC''), (''tether'', ''USDT''), (''bitcoin'', ''WBTC''), (''btc'', ''WBTC'')]"

definition TOKEN_ALIASES_swap :: "(string \<times> string) list" where
  "TOKEN_ALIASES_swap = [(''dollar'', ''USDC''), (''dolar'', ''USDC''), (''usd'', ''USDC''),
     (''tether'', ''USDT''), (''bitcoin'', ''WBTC''), (''btc'', ''WBTC''), (''ether'', ''ETH''),
     (''eth'', ''ETH''), (''ethereum'', ''ETH'')]"

text \<open>
  \<^verbatim>\<open>TOKEN_ALIASES[normalizedInput] || fallback\<close>: an own entry that is a non-empty string,
  else the fallback; an inherited property is truthy and not a string, and the next
  statement calls \<^verbatim>\<open>toUpperCase\<close> on it, which throws a TypeError.
\<close>

definition aliasOr :: "(string \<times> string) list \<Rightarrow> string \<Rightarrow> string \<Rightarrow> exn + string" where
  "aliasOr aliases normalizedInput fallback =
     (case getProp aliases normalizedInput of
        Own s \<Rightarrow> Inr (if s = [] then fallback else s)
      | Inherited \<Rightarrow> Inl TypeError
      | Absent \<Rightarrow> Inr fallback)"

record TokenInfo =
  ti_address :: "string option"
  ti_symbol :: string
  ti_decimals :: int

text \<open>transfer.ts: an absent or empty token input is the native asset.\<close>

definition resolveToken_transfer ::
  "ethers \<Rightarrow> (string \<times> string) list \<Rightarrow> (string \<times> TokenConfig) list \<Rightarrow> string option \<Rightarrow> int
     \<Rightarrow> exn + TokenInfo" where
  "resolveToken_transfer e aliases tokens tokenInput chainId =
     (let native = \<lparr> ti_address = None, ti_symbol = getNativeSymbol chainId, ti_decimals = 18 \<rparr>
      in case tokenInput of
           None \<Rightarrow> Inr native
         | Some input \<Rightarrow>
             if input = [] then Inr native
             else if isAddress e input
             then Inr \<lparr> ti_address = Some input, ti_symbol = ''TOKEN'', ti_decimals = 18 \<rparr>
             else
               (let normalizedInput = trim (toLowerCase input) in
                case aliasOr aliases normalizedInput input of
                  Inl err \<Rightarrow> Inl err
                | Inr resolvedSymbol \<Rightarrow>
                    if isNativeToken resolvedSymbol chainId then Inr native
                    else
                      (case getToken tokens resolvedSymbol chainId of
                         Some token \<Rightarrow>
                           Inr \<lparr> ti_address = Some (te_address token),
                                 ti_symbol = toUpperCase resolvedSymbol,
                                 ti_decimals = te_decimals token \<rparr>
                       | None \<Rightarrow> Inl (TokenNotFound input))))"

text \<open>approve.ts: no native branch; the address is always a string.\<close>

record ApproveToken =
  at_address :: string
  at_symbol :: string
  at_decimals :: int

definition resolveToken_approve ::
  "ethers \<Rightarrow> (string \<times> string) list \<Rightarrow> (string \<times> TokenConfig) list \<Rightarrow> string \<Rightarrow> int
     \<Rightarrow> exn + ApproveToken" where
  "resolveToken_approve e aliases tokens tokenInput chainId =
     (if isAddress e tokenInput
      then Inr \<lparr> at_address = tokenInput, at_symbol = ''TOKEN'', at_decimals = 18 \<rparr>
      else
        (let normalizedInput = trim (toLowerCase tokenInput) in
         case aliasOr aliases normalizedInput tokenInput of
           Inl err \<Rightarrow> Inl err
         | Inr resolvedSymbol \<Rightarrow>
             (case getToken tokens resolvedSymbol chainId of
                Some token \<Rightarrow>
                  Inr \<lparr> at_address = te_address token,
                        at_symbol = toUpperCase resolvedSymbol,
                        at_decimals = te_decimals token \<rparr>
              | None \<Rightarrow> Inl (TokenNotFound tokenInput))))"

text \<open>
  token-utils.ts: returns \<^verbatim>\<open>null\<close> (here \<open>Inr None\<close>) instead of throwing; the fallback symbol is
  the upper-cased input; a native asset resolves to the wrapped-native address of the
  chain.
\<close>

record SwapToken =
  st_address :: string
  st_symbol :: string
  st_decimals :: int
  st_isNative :: bool

definition resolveToken_swap ::
  "ethers \<Rightarrow> (string \<times> string) list \<Rightarrow> (string \<times> TokenConfig) list \<Rightarrow> string \<Rightarrow> int
     \<Rightarrow> exn + SwapToken option" where
  "resolveToken_swap e aliases tokens tokenInput chainId =
     (if isAddress e tokenInput
      then Inr (Some \<lparr> st_address = tokenInput, st_symbol = ''TOKEN'', st_decimals = 18,
                       st_isNative = False \<rparr>)
      else
        (let normalizedInput = trim (toLowerCase tokenInput) in
         case aliasOr aliases normalizedInput (toUpperCase tokenInput) of
           Inl err \<Rightarrow> Inl err
         | Inr resolvedSymbol \<Rightarrow>
             if isNativeToken resolvedSymbol chainId
             then
               (case addressOn WRAPPED_NATIVE chainId of
                  None \<Rightarrow> Inr None
                | Some wrappedAddress \<Rightarrow>
                    Inr (Some \<lparr> st_address = wrappedAddress, st_symbol = resolvedSymbol,
                                 st_decimals = 18, st_isNative = True \<rparr>))
             else
               (case getToken tokens resolvedSymbol chainId of
                  Some token \<Rightarrow>
                    Inr (Some \<lparr> st_address = te_address token, st_symbol = resolvedSymbol,
                                 st_decimals = te_decimals token, st_isNative = False \<rparr>)
                | None \<Rightarrow> Inr None)))"

subsection \<open>Spenders: approve.ts, resolveSpender\<close>

definition PROTOCOL_ADDRESSES :: "(string \<times> (int \<times> string) list) list" where
  "PROTOCOL_ADDRESSES = [
    (''uniswap'',
      [(1, ''0x68b3465833fb72A70ecDF485E0e4C7bD8665Fc45''),
       (137, ''0x68b3465833fb72A70ecDF485E0e4C7bD8665Fc45''),
       (42161, ''0x68b3465833fb72A70ecDF485E0e4C7bD8665Fc45''),
       (10, ''0x68b3465833fb72A70ecDF485E0e4C7bD8665Fc45''),
       (8453, ''0x3fC91A3afd70395Cd496C647d5a6CC9D4B2b7FAD'')]),
    (''aave'',
      [(1, ''0x87870Bca3F3fD6335C3F4ce8392D69350B4fA4E2''),
       (137, ''0x794a61358D6845594F94dc1DB02A252b5b4814aD''),
       (42161, ''0x794a61358D6845594F94dc1DB02A252b5b4814aD''),
       (10, ''0x794a61358D6845594F94dc1DB02A252b5b4814aD''),
       (43114, ''0x794a61358D6845594F94dc1DB02A252b5b4814aD'')]),
    (''sushiswap'',
      [(1, ''0xd9e1cE17f2641f24aE83637ab66a2cca9C378B9F''),
       (137, ''0x1b02dA8Cb0d097eB8D57A175b88c7D8b47997506''),
       (42161, ''0x1b02dA8Cb0d097eB8D57A175b88c7D8b47997506'')])]"

record Spender =
  sp_address :: string
  protocol :: "string option"

text \<open>
  An inherited key of \<^verbatim>\<open>PROTOCOL_ADDRESSES\<close> yields a function or object whose
  \<^verbatim>\<open>[chainId]\<close> is undefined, so the condition is falsy as for an absent key.
\<close>

definition resolveSpender :: "ethers \<Rightarrow> string \<Rightarrow> int \<Rightarrow> exn + Spender" where
  "resolveSpender e spender chainId =
     (if isAddress e spender then Inr \<lparr> sp_address = spender, protocol = None \<rparr>
      else
        (let lowerSpender = toLowerCase spender in
         case getProp PROTOCOL_ADDRESSES lowerSpender of
           Own table \<Rightarrow>
             (case addressOn table chainId of
                Some a \<Rightarrow> Inr \<lparr> sp_address = a, protocol = Some spender \<rparr>
              | None \<Rightarrow> Inl (SpenderNotResolved spender))
         | Inherited \<Rightarrow> Inl (SpenderNotResolved spender)
         | Absent \<Rightarrow> Inl (SpenderNotResolved spender)))"

section \<open>The transfer tool: transfer.ts, transferTool.handler\<close>

definition NETWORK_NAMES :: "(string \<times> int) list" where
  "NETWORK_NAMES = [(''ethereum'', 1), (''eth'', 1), (''mainnet'', 1), (''polygon'', 137),
     (''matic'', 137), (''arbitrum'', 42161), (''arb'', 42161), (''optimism'', 10), (''op'', 10),
     (''base'', 8453), (''avalanche'', 43114), (''avax'', 43114), (''bsc'', 56), (''bnb'', 56),
     (''sepolia'', 11155111)]"

record TransferParams =
  tp_to :: string
  tp_amount :: string
  tp_token :: "string option"
  tp_network :: "string option"

text \<open>
  \<^verbatim>\<open>NETWORK_NAMES[networkLower] || parseInt(network)\<close>, then \<^verbatim>\<open>!isNaN(targetChainId)\<close>: an
  inherited property is a function or an object, which \<^verbatim>\<open>isNaN\<close> coerces to \<^verbatim>\<open>NaN\<close>.
\<close>

definition targetChainId :: "builtins \<Rightarrow> string \<Rightarrow> int option" where
  "targetChainId b network =
     (case getProp NETWORK_NAMES (toLowerCase network) of
        Own n \<Rightarrow> if n = 0 then parseInt b network else Some n
      | Inherited \<Rightarrow> None
      | Absent \<Rightarrow> parseInt b network)"

text \<open>
  Lines 169-205: the optional network switch. The \<^verbatim>\<open>networkSwitch\<close> emit sits in a
  \<^verbatim>\<open>try\<close> whose \<^verbatim>\<open>catch\<close> is empty.
\<close>

definition switchNetwork ::
  "collaborators \<Rightarrow> ToolContext \<Rightarrow> string \<Rightarrow> string option \<Rightarrow> int \<Rightarrow> world
     \<Rightarrow> (failure + int) \<times> world" where
  "switchNetwork c ctx userAddr network chainId w =
     (case network of
        None \<Rightarrow> (Inr chainId, w)
      | Some net \<Rightarrow>
          if net = [] then (Inr chainId, w)
          else
            (case targetChainId (js c) net of
               None \<Rightarrow> (Inr chainId, w)
             | Some target \<Rightarrow>
                 if target = chainId then (Inr chainId, w)
                 else
                   (case getNetwork target of
                      None \<Rightarrow> (Inl (UnknownNetwork net), w)
                    | Some networkInfo \<Rightarrow>
                        if agent ctx \<and> switchNetworkFails c
                        then (Inl (Caught (External ''agent.switchNetwork'')), w)
                        else
                          (let room = ''user:'' @ toLowerCase userAddr;
                               w1 = (if ioInstance c \<and> \<not> switchEmitFails c
                                     then w\<lparr> emitted := emitted w
                                            @ [NetworkSwitch room (net_chainId networkInfo)] \<rparr>
                                     else w)
                           in (Inr target, w1)))))"

text \<open>
  Lines 228-243 (and approve.ts 140-153): \<^verbatim>\<open>Promise.all([contract.decimals(),
  contract.symbol()])\<close> overrides the resolver's decimals and symbol; when either read
  fails the defaults stay.
\<close>

definition fetchDecimalsAndSymbol :: "provider \<Rightarrow> string \<Rightarrow> int \<Rightarrow> string \<Rightarrow> int \<times> string" where
  "fetchDecimalsAndSymbol prov token defaultDecimals defaultSymbol =
     (case decimalsAndSymbol prov token of
        Inr (d, s) \<Rightarrow> (d, s)
      | Inl _ \<Rightarrow> (defaultDecimals, defaultSymbol))"

text \<open>
  Lines 217-296: the transaction is built after the balance check. In both branches
  the balance read sits in a \<^verbatim>\<open>try\<close> whose \<^verbatim>\<open>catch\<close> lets the request continue, and the
  rejection \<^verbatim>\<open>if (balance < amountWei) return ...\<close> is inside that \<^verbatim>\<open>try\<close>. (The message of
  the rejection is built with \<^verbatim>\<open>formatUnits\<close> at the decimals \<^verbatim>\<open>parseUnits\<close> has just accepted,
  or with \<^verbatim>\<open>formatEther\<close>, so building it does not throw.) The native branch then writes
  the value with \<^verbatim>\<open>ethers.toQuantity(amountWei)\<close>. The result is the transaction and the
  token symbol for the button text.
\<close>

definition nativeTransfer ::
  "collaborators \<Rightarrow> provider \<Rightarrow> string \<Rightarrow> string \<Rightarrow> TokenInfo \<Rightarrow> string \<Rightarrow> world
     \<Rightarrow> (failure + PreparedTx \<times> string) \<times> world" where
  "nativeTransfer c prov userAddr recipientAddress tokenInfo amount w =
     (case parseEther (eth c) amount of
        Inl err \<Rightarrow> (Inl (Caught err), w)
      | Inr amountWei \<Rightarrow>
          (let w1 = logCalls [GetBalance userAddr] w;
               built =
                 (case toQuantity amountWei of
                    Inl err \<Rightarrow> (Inl (Caught err), w1)
                  | Inr quantity \<Rightarrow>
                      (Inr (\<lparr> ptx_to = Some recipientAddress, ptx_value = quantity,
                               ptx_data = ''0x'' \<rparr>, ti_symbol tokenInfo), w1))
           in case getBalance prov userAddr of
                Inr balance \<Rightarrow>
                  if balance < amountWei then (Inl (InsufficientBalance balance amountWei), w1)
                  else built
              | Inl _ \<Rightarrow> built))"

definition erc20Transfer ::
  "collaborators \<Rightarrow> provider \<Rightarrow> string \<Rightarrow> string \<Rightarrow> TokenInfo \<Rightarrow> string \<Rightarrow> string \<Rightarrow> world
     \<Rightarrow> (failure + PreparedTx \<times> string) \<times> world" where
  "erc20Transfer c prov userAddr recipientAddress tokenInfo token amount w =
     (let w1 = logCalls [DecimalsAndSymbol token] w;
          fetched = fetchDecimalsAndSymbol prov token (ti_decimals tokenInfo) (ti_symbol tokenInfo);
          tokenDecimals = fst fetched;
          tokenSymbol = snd fetched
      in case parseUnits (eth c) amount tokenDecimals of
           Inl err \<Rightarrow> (Inl (Caught err), w1)
         | Inr amountWei \<Rightarrow>
             (let w2 = logCalls [BalanceOf token userAddr] w1;
                  built =
                    (case encodeFunctionData (eth c) (Erc20Transfer recipientAddress amountWei) of
                       Inl err \<Rightarrow> (Inl (Caught err), w2)
                     | Inr transferData \<Rightarrow>
                         (Inr (\<lparr> ptx_to = Some token, ptx_value = 0,
                                  ptx_data = transferData \<rparr>, tokenSymbol), w2))
              in case balanceOf prov token userAddr of
                   Inr balance \<Rightarrow>
                     if balance < amountWei then (Inl (InsufficientBalance balance amountWei), w2)
                     else built
                 | Inl _ \<Rightarrow> built))"

text \<open>\<^verbatim>\<open>if (tokenInfo.address)\<close>: \<^verbatim>\<open>null\<close> and the empty string take the native branch.\<close>

definition prepareTransfer ::
  "collaborators \<Rightarrow> int \<Rightarrow> string \<Rightarrow> string \<Rightarrow> TokenInfo \<Rightarrow> string \<Rightarrow> world
     \<Rightarrow> (failure + PreparedTx \<times> string) \<times> world" where
  "prepareTransfer c chainId userAddr recipientAddress tokenInfo amount w =
     (let prov = JsonRpcProvider (eth c) (getRpcUrl chainId) in
      case ti_address tokenInfo of
        None \<Rightarrow> nativeTransfer c prov userAddr recipientAddress tokenInfo amount w
      | Some token \<Rightarrow>
          if token = [] then nativeTransfer c prov userAddr recipientAddress tokenInfo amount w
          else erc20Transfer c prov userAddr recipientAddress tokenInfo token amount w)"

definition transferHandler ::
  "collaborators \<Rightarrow> TransferParams \<Rightarrow> ToolContext \<Rightarrow> world \<Rightarrow> result \<times> world" where
  "transferHandler c params ctx w =
     (case userAddress ctx of
        None \<Rightarrow> (Failure NoUserAddress, w)
      | Some userAddr \<Rightarrow>
          if userAddr = [] then (Failure NoUserAddress, w)
          else
            (case switchNetwork c ctx userAddr (tp_network params) (contextChainId ctx) w of
               (Inl f, w1) \<Rightarrow> (Failure f, w1)
             | (Inr chainId, w1) \<Rightarrow>
                 (case resolveRecipient c (tp_to params) userAddr chainId w1 of
                    (Inl err, w2) \<Rightarrow> (Failure (Caught err), w2)
                  | (Inr recipient, w2) \<Rightarrow>
                      (case resolveToken_transfer (eth c) TOKEN_ALIASES_transfer TOKENS
                              (tp_token params) chainId of
                         Inl err \<Rightarrow> (Failure (Caught err), w2)
                       | Inr tokenInfo \<Rightarrow>
                           (case prepareTransfer c chainId userAddr (r_address recipient)
                                   tokenInfo (tp_amount params) w2 of
                              (Inl f, w3) \<Rightarrow> (Failure f, w3)
                            | (Inr (tx, tokenSymbol), w3) \<Rightarrow>
                                persistAndPublish c ''transfer''
                                  ''Failed to emit transaction request: '' chainId (chatId ctx)
                                  userAddr tx
                                  (''Send '' @ tp_amount params @ '' '' @ tokenSymbol)
                                  None w3)))))"

section \<open>The approval tool: approve.ts, approveTool.handler\<close>

record ApproveParams =
  ap_token :: string
  ap_spender :: string
  ap_amount :: string

text \<open>Lines 155-168: the approval amount and the amount shown.\<close>

definition approvalAmount :: "ethers \<Rightarrow> string \<Rightarrow> int \<Rightarrow> exn + int \<times> string" where
  "approvalAmount e amount tokenDecimals =
     (if toLowerCase amount = ''unlimited'' \<or> toLowerCase amount = ''max''
      then Inr (MaxUint256, ''unlimited'')
      else if amount = ''0'' \<or> toLowerCase amount = ''revoke''
      then Inr (0, ''0 (revoke)'')
      else
        (case parseUnits e amount tokenDecimals of
           Inl err \<Rightarrow> Inl err
         | Inr amountWei \<Rightarrow> Inr (amountWei, amount)))"

text \<open>Lines 196-199.\<close>

definition approveButtonText :: "string \<Rightarrow> string \<Rightarrow> string" where
  "approveButtonText displayAmount tokenSymbol =
     (if displayAmount = ''0 (revoke)'' then ''Revoke '' @ tokenSymbol @ '' approval''
      else ''Approve '' @ displayAmount @ '' '' @ tokenSymbol)"

text \<open>Lines 137-181 and 195-199: the transaction and its button text.\<close>

definition prepareApprove ::
  "collaborators \<Rightarrow> int \<Rightarrow> ApproveToken \<Rightarrow> string \<Rightarrow> string \<Rightarrow> world
     \<Rightarrow> (failure + PreparedTx \<times> string) \<times> world" where
  "prepareApprove c chainId tokenInfo spenderAddress amount w =
     (let prov = JsonRpcProvider (eth c) (getRpcUrl chainId);
          w1 = logCalls [DecimalsAndSymbol (at_address tokenInfo)] w;
          fetched = fetchDecimalsAndSymbol prov (at_address tokenInfo)
                      (at_decimals tokenInfo) (at_symbol tokenInfo);
          tokenDecimals = fst fetched;
          tokenSymbol = snd fetched
      in case approvalAmount (eth c) amount tokenDecimals of
           Inl err \<Rightarrow> (Inl (Caught err), w1)
         | Inr (amountWei, displayAmount) \<Rightarrow>
             (case encodeFunctionData (eth c) (Erc20Approve spenderAddress amountWei) of
                Inl err \<Rightarrow> (Inl (Caught err), w1)
              | Inr approveData \<Rightarrow>
                  (Inr (\<lparr> ptx_to = Some (at_address tokenInfo), ptx_value = 0,
                           ptx_data = approveData \<rparr>,
                        approveButtonText displayAmount tokenSymbol), w1)))"

definition approveHandler ::
  "collaborators \<Rightarrow> ApproveParams \<Rightarrow> ToolContext \<Rightarrow> world \<Rightarrow> result \<times> world" where
  "approveHandler c params ctx w =
     (case userAddress ctx of
        None \<Rightarrow> (Failure NoUserAddress, w)
      | Some userAddr \<Rightarrow>
          if userAddr = [] then (Failure NoUserAddress, w)
          else
            (let chainId = contextChainId ctx in
             case resolveToken_approve (eth c) TOKEN_ALIASES_approve TOKENS
                    (ap_token params) chainId of
               Inl err \<Rightarrow> (Failure (Caught err), w)
             | Inr tokenInfo \<Rightarrow>
                 (case resolveSpender (eth c) (ap_spender params) chainId of
                    Inl err \<Rightarrow> (Failure (Caught err), w)
                  | Inr spender \<Rightarrow>
                      (case prepareApprove c chainId tokenInfo (sp_address spender)
                              (ap_amount params) w of
                         (Inl f, w1) \<Rightarrow> (Failure f, w1)
                       | (Inr (tx, buttonText), w1) \<Rightarrow>
                           persistAndPublish c ''approve''
                             ''Failed to emit approval request: '' chainId (chatId ctx)
                             userAddr tx buttonText None w1))))"

section \<open>The swap tool: token-utils.ts, buildSwapTransaction and swapTool.handler\<close>

text \<open>
  Lines 532-540: the argument of \<^verbatim>\<open>exactInputSingle\<close>. The \<^verbatim>\<open>SwapQuote\<close> that reaches the
  builder has no fee field, and the builder has no fee parameter.
\<close>

definition exactInputSingleParams ::
  "SwapToken \<Rightarrow> SwapToken \<Rightarrow> int \<Rightarrow> int \<Rightarrow> string \<Rightarrow> ExactInputSingleParams" where
  "exactInputSingleParams tokenIn tokenOut amountIn minOut recipient =
     \<lparr> p_tokenIn = st_address tokenIn, p_tokenOut = st_address tokenOut,
       p_fee = FEE_TIERS_MEDIUM,
       p_recipient = (if st_isNative tokenOut then ZeroAddress else recipient),
       p_amountIn = amountIn, p_amountOutMinimum = minOut, p_sqrtPriceLimitX96 = 0 \<rparr>"

definition buildSwapTransaction ::
  "ethers \<Rightarrow> DexConfig \<Rightarrow> int \<Rightarrow> SwapToken \<Rightarrow> SwapToken \<Rightarrow> int \<Rightarrow> int \<Rightarrow> string \<Rightarrow> int
     \<Rightarrow> exn + PreparedTx" where
  "buildSwapTransaction e d chainId tokenIn tokenOut amountIn minOut recipient deadline =
     (let router = map_of (routerAddress d) chainId in
      if slug d = ''uniswap''
      then
        (case encodeFunctionData e
                (ExactInputSingle (exactInputSingleParams tokenIn tokenOut amountIn minOut recipient)) of
           Inl err \<Rightarrow> Inl err
         | Inr swapData \<Rightarrow>
             (case encodeFunctionData e (Multicall deadline [swapData]) of
                Inl err \<Rightarrow> Inl err
              | Inr multicallData \<Rightarrow>
                  (case (if st_isNative tokenIn then toQuantity amountIn else Inr 0) of
                     Inl err \<Rightarrow> Inl err
                   | Inr quantity \<Rightarrow>
                       Inr \<lparr> ptx_to = router, ptx_value = quantity,
                             ptx_data = multicallData \<rparr>)))
      else
        (let path = [st_address tokenIn, st_address tokenOut] in
         if st_isNative tokenIn
         then
           (case encodeFunctionData e (SwapExactETHForTokens minOut path recipient deadline) of
              Inl err \<Rightarrow> Inl err
            | Inr encoded \<Rightarrow>
                (case toQuantity amountIn of
                   Inl err \<Rightarrow> Inl err
                 | Inr quantity \<Rightarrow>
                     Inr \<lparr> ptx_to = router, ptx_value = quantity, ptx_data = encoded \<rparr>))
         else if st_isNative tokenOut
         then
           (case encodeFunctionData e
                   (SwapExactTokensForETH amountIn minOut path recipient deadline) of
              Inl err \<Rightarrow> Inl err
            | Inr encoded \<Rightarrow> Inr \<lparr> ptx_to = router, ptx_value = 0, ptx_data = encoded \<rparr>)
         else
           (case encodeFunctionData e
                   (SwapExactTokensForTokens amountIn minOut path recipient deadline) of
              Inl err \<Rightarrow> Inl err
            | Inr encoded \<Rightarrow> Inr \<lparr> ptx_to = router, ptx_value = 0, ptx_data = encoded \<rparr>)))"

record SwapParams =
  sw_fromToken :: string
  sw_toToken :: string
  sw_amount :: string
  sw_dex :: "string option"
  sw_slippage :: "string option"

text \<open>Lines 681-684; \<open>None\<close> is \<^verbatim>\<open>NaN\<close>.\<close>

definition slippageBps :: "builtins \<Rightarrow> string option \<Rightarrow> int option" where
  "slippageBps b slippageInput =
     (case slippageInput of
        None \<Rightarrow> Some DEFAULT_SLIPPAGE_BPS
      | Some s \<Rightarrow> if s = [] then Some DEFAULT_SLIPPAGE_BPS else roundBps b s)"

text \<open>
  Lines 688-706: the balance check. The read is not in a \<^verbatim>\<open>try\<close> of its own: when it
  fails, the handler's final \<^verbatim>\<open>catch\<close> reports the error. \<open>None\<close> lets the request go on.
\<close>

definition checkSwapBalance ::
  "provider \<Rightarrow> string \<Rightarrow> SwapToken \<Rightarrow> int \<Rightarrow> world \<Rightarrow> failure option \<times> world" where
  "checkSwapBalance prov userAddr fromTok amountIn w =
     (let w1 = logCalls [if st_isNative fromTok then GetBalance userAddr
                         else BalanceOf (st_address fromTok) userAddr] w;
          read = (if st_isNative fromTok then getBalance prov userAddr
                  else balanceOf prov (st_address fromTok) userAddr)
      in case read of
           Inl err \<Rightarrow> (Some (Caught err), w1)
         | Inr balance \<Rightarrow>
             if balance < amountIn then (Some (InsufficientBalance balance amountIn), w1)
             else (None, w1))"

text \<open>
  Lines 708-736: the ranked quotes, filtered to the requested venue after the
  aggregation. The filter compares the slug with the input as given, not lower-cased.
  An inherited key of \<^verbatim>\<open>DEX_PROTOCOLS\<close> yields a value without \<^verbatim>\<open>supportedChains\<close>, and
  \<^verbatim>\<open>.includes\<close> on it throws a TypeError.
\<close>

definition selectQuotes ::
  "collaborators \<Rightarrow> provider \<Rightarrow> int \<Rightarrow> string option \<Rightarrow> SwapToken \<Rightarrow> SwapToken \<Rightarrow> int \<Rightarrow> world
     \<Rightarrow> (failure + SwapQuote list) \<times> world" where
  "selectQuotes c prov chainId preferredDex fromTok toTok amountIn w =
     (let (ranked, calls) =
            getAllQuotes (eth c) prov chainId (st_address fromTok) (st_address toTok) amountIn
              (st_decimals toTok)
      in case preferredDex of
           None \<Rightarrow> (Inr ranked, logCalls calls w)
         | Some preferred \<Rightarrow>
             if preferred = [] then (Inr ranked, logCalls calls w)
             else
               (case getDex preferred of
                  Absent \<Rightarrow> (Inl (DexNotSupported preferred), w)
                | Inherited \<Rightarrow> (Inl (Caught TypeError), w)
                | Own d \<Rightarrow>
                    if chainId \<notin> set (supportedChains d) then (Inl (DexNotAvailable (name d)), w)
                    else (Inr (filter (\<lambda>q. slug (dex q) = preferred) ranked), logCalls calls w)))"

text \<open>
  Lines 738-802, for the best quote: the slippage bound, the deadline, the allowance read
  for a non-native input, the call data, the button text and the approval hint.
\<close>

definition finishSwap ::
  "collaborators \<Rightarrow> provider \<Rightarrow> int \<Rightarrow> string \<Rightarrow> SwapToken \<Rightarrow> SwapToken \<Rightarrow> string \<Rightarrow> int
     \<Rightarrow> int option \<Rightarrow> SwapQuote \<Rightarrow> world
     \<Rightarrow> (failure + PreparedTx \<times> string \<times> ApprovalData option) \<times> world" where
  "finishSwap c prov chainId userAddr fromTok toTok amount amountIn bps bestQuote w =
     (case amountOutMin (amountOut bestQuote) bps of
        Inl err \<Rightarrow> (Inl (Caught err), w)
      | Inr minOut \<Rightarrow>
          (let deadline = dateNow (js c) div 1000 + SWAP_DEADLINE_SECONDS;
               router = map_of (routerAddress (dex bestQuote)) chainId;
               spender = (case router of Some r \<Rightarrow> r | None \<Rightarrow> []);
               w1 = (if st_isNative fromTok then w
                     else logCalls [Allowance (st_address fromTok) userAddr spender] w);
               allowed = (if st_isNative fromTok then Inr False
                          else (case allowance prov (st_address fromTok) userAddr spender of
                                  Inl err \<Rightarrow> Inl err
                                | Inr currentAllowance \<Rightarrow> Inr (currentAllowance < amountIn)))
           in case allowed of
                Inl err \<Rightarrow> (Inl (Caught err), w1)
              | Inr needsApproval \<Rightarrow>
                  (case buildSwapTransaction (eth c) (dex bestQuote) chainId fromTok toTok
                          amountIn minOut userAddr deadline of
                     Inl err \<Rightarrow> (Inl (Caught err), w1)
                   | Inr swapTx \<Rightarrow>
                       (let shown = toFixed6 (js c) (amountOutFormatted bestQuote);
                            buttonText = ''Swap '' @ amount @ '' '' @ st_symbol fromTok @ '' for ~''
                                         @ shown @ '' '' @ st_symbol toTok;
                            approval =
                              (if needsApproval
                               then Some \<lparr> ad_token = st_address fromTok,
                                            ad_tokenSymbol = st_symbol fromTok,
                                            ad_spender = router,
                                            ad_spenderName = name (dex bestQuote),
                                            ad_amount = amountIn \<rparr>
                               else None)
                        in (Inr (swapTx, buttonText, approval), w1)))))"

text \<open>
  Lines 652-879: the body of the handler's \<^verbatim>\<open>try\<close>, for a user address that is present.
  A failure \<open>Caught e\<close> is an error thrown inside it.
\<close>

definition swapBody ::
  "collaborators \<Rightarrow> SwapParams \<Rightarrow> ToolContext \<Rightarrow> string \<Rightarrow> world \<Rightarrow> result \<times> world" where
  "swapBody c params ctx userAddr w =
     (let chainId = contextChainId ctx in
      case resolveToken_swap (eth c) TOKEN_ALIASES_swap TOKENS (sw_fromToken params) chainId of
        Inl err \<Rightarrow> (Failure (Caught err), w)
      | Inr fromResolved \<Rightarrow>
      (case resolveToken_swap (eth c) TOKEN_ALIASES_swap TOKENS (sw_toToken params) chainId of
        Inl err \<Rightarrow> (Failure (Caught err), w)
      | Inr toResolved \<Rightarrow>
      (case fromResolved of
        None \<Rightarrow> (Failure (TokenNotFoundOnNetwork (sw_fromToken params)), w)
      | Some fromTok \<Rightarrow>
      (case toResolved of
        None \<Rightarrow> (Failure (TokenNotFoundOnNetwork (sw_toToken params)), w)
      | Some toTok \<Rightarrow>
          if toLowerCase (st_address fromTok) = toLowerCase (st_address toTok)
          then (Failure SameToken, w)
          else
      (case parseUnits (eth c) (sw_amount params) (st_decimals fromTok) of
        Inl err \<Rightarrow> (Failure (Caught err), w)
      | Inr amountIn \<Rightarrow>
      (let bps = slippageBps (js c) (sw_slippage params);
           prov = JsonRpcProvider (eth c) (getRpcUrl chainId)
       in case checkSwapBalance prov userAddr fromTok amountIn w of
            (Some f, w1) \<Rightarrow> (Failure f, w1)
          | (None, w1) \<Rightarrow>
      (case selectQuotes c prov chainId (sw_dex params) fromTok toTok amountIn w1 of
        (Inl f, w2) \<Rightarrow> (Failure f, w2)
      | (Inr [], w2) \<Rightarrow> (Failure NoLiquidity, w2)
      | (Inr (bestQuote # others), w2) \<Rightarrow>
      (case finishSwap c prov chainId userAddr fromTok toTok (sw_amount params) amountIn
              bps bestQuote w2 of
        (Inl f, w3) \<Rightarrow> (Failure f, w3)
      | (Inr (swapTx, buttonText, approval), w3) \<Rightarrow>
          persistAndPublish c ''swap'' ''Failed to emit swap request: '' chainId
            (chatId ctx) userAddr swapTx buttonText approval w3))))))))"

text \<open>
  The handler: the test of the user address, the \<^verbatim>\<open>try\<close>, and its \<^verbatim>\<open>catch\<close> (lines 880-886),
  which prints \<^verbatim>\<open>console.error('Swap error:', error)\<close> before it reports the error. The
  line is recorded by its label; the error printed after it is the one reported.
\<close>

definition swapHandler ::
  "collaborators \<Rightarrow> SwapParams \<Rightarrow> ToolContext \<Rightarrow> world \<Rightarrow> result \<times> world" where
  "swapHandler c params ctx w =
     (case userAddress ctx of
        None \<Rightarrow> (Failure NoUserAddress, w)
      | Some userAddr \<Rightarrow>
          if userAddr = [] then (Failure NoUserAddress, w)
          else
            (case swapBody c params ctx userAddr w of
               (Failure (Caught err), w') \<Rightarrow>
                 (Failure (Caught err), w'\<lparr> console := console w' @ [''Swap error:''] \<rparr>)
             | (r, w') \<Rightarrow> (r, w')))"
section \<open>Notions used in the statements\<close>

text \<open>A list of quotes is descending when no quote is followed by a larger one.\<close>

definition descending :: "SwapQuote list \<Rightarrow> bool" where
  "descending qs = sorted_wrt (\<lambda>a b. amountOut a \<ge> amountOut b) qs"

text \<open>
  The ranking as the specification words it: descending by \<open>amountOut\<close>, quotes of equal
  \<open>amountOut\<close> in the order in which their venues were queried (a stable sort).
\<close>

definition stableDescending :: "SwapQuote list \<Rightarrow> SwapQuote list" where
  "stableDescending qs = sort_key (\<lambda>q. - amountOut q) qs"

text \<open>The rejection of a balance check, whatever amounts it reports.\<close>

definition isInsufficientBalance :: "failure \<Rightarrow> bool" where
  "isInsufficientBalance f = (case f of InsufficientBalance b r \<Rightarrow> True | _ \<Rightarrow> False)"

text \<open>A handler's outcome that is the rejection of a balance check.\<close>

definition rejected :: "result \<times> world \<Rightarrow> bool" where
  "rejected out = (case fst out of Failure f \<Rightarrow> isInsufficientBalance f | Success row \<Rightarrow> False)"

text \<open>A publish that cannot succeed: the socket server is missing or \<^verbatim>\<open>emit\<close> throws.\<close>

definition publishFails :: "collaborators \<Rightarrow> bool" where
  "publishFails c = (\<not> ioInstance c \<or> emitFails c)"

text \<open>The pending transactions that were published, in order.\<close>

definition isPending :: "emit \<Rightarrow> bool" where
  "isPending e = (case e of PendingTransaction room row url approval \<Rightarrow> True | _ \<Rightarrow> False)"

definition published :: "world \<Rightarrow> emit list" where
  "published w = filter isPending (emitted w)"

text \<open>
  What a stage that only reads leaves as it was: the users, the transaction rows and
  the console.
\<close>

definition storeKept :: "world \<Rightarrow> world \<Rightarrow> bool" where
  "storeKept w w' =
     (users w' = users w \<and> transactions w' = transactions w \<and> console w' = console w)"

text \<open>
  A publish failure that is logged and swallowed, for a request that started in the world
  \<open>w\<close> and prepared the transaction \<open>tx\<close>: the handler returns success with a row; the table is
  the table of \<open>w\<close> followed by that row, which has status \<^verbatim>\<open>pending\<close> and carries \<open>tx\<close>; no pending
  transaction was published; and the console is the console of \<open>w\<close> followed by one line.
\<close>

definition swallowed :: "world \<Rightarrow> PreparedTx \<Rightarrow> result \<times> world \<Rightarrow> bool" where
  "swallowed w tx out =
     (case out of
        (Success row, w') \<Rightarrow>
          transactions w' = transactions w @ [row] \<and> tx_status row = ''pending''
          \<and> tx_to row = ptx_to tx \<and> tx_value row = ptx_value tx \<and> tx_data row = ptx_data tx
          \<and> published w' = published w
          \<and> length (console w') = Suc (length (console w))
          \<and> take (length (console w)) (console w') = console w
      | (Failure f, w') \<Rightarrow> False)"
section \<open>Concrete collaborators for the worked examples\<close>

text \<open>
  Test doubles, used only where a theorem is run on a concrete request. \<open>failingProvider\<close>
  rejects every read. \<open>spyEthers\<close> accepts a 42-character string that starts with
  \<^verbatim>\<open>0x\<close> as an address, parses the amount \<^verbatim>\<open>1\<close> only, and encodes an \<^verbatim>\<open>exactInputSingle\<close>
  call as a string that shows its fee and an \<^verbatim>\<open>approve\<close> call as one that shows whether
  its amount is the maximum, zero or something else.
\<close>

definition failingProvider :: provider where
  "failingProvider = \<lparr>
     getBalance = (\<lambda>holder. Inl (External ''getBalance'')),
     balanceOf = (\<lambda>token holder. Inl (External ''balanceOf'')),
     allowance = (\<lambda>token owner spender. Inl (External ''allowance'')),
     decimalsAndSymbol = (\<lambda>token. Inl (External ''decimals'')),
     quoteExactInputSingle = (\<lambda>quoter tokenIn tokenOut amountIn fee. Inl (External ''quote'')),
     getAmountsOut = (\<lambda>router amountIn path. Inl (External ''getAmountsOut'')),
     resolveName = (\<lambda>ensName. Inl (External ''resolveName'')) \<rparr>"

text \<open>
  On chain 1: Uniswap quotes 5 at every tier, SushiSwap (second venue) quotes 7, Curve
  (third venue) quotes 5, PancakeSwap fails.
\<close>

definition tieProvider :: provider where
  "tieProvider = failingProvider \<lparr>
     quoteExactInputSingle := (\<lambda>quoter tokenIn tokenOut amountIn fee. Inr 5),
     getAmountsOut := (\<lambda>router amountIn path.
        if router = ''0xd9e1cE17f2641f24aE83637ab66a2cca9C378B9F'' then Inr [amountIn, 7]
        else if router = ''0x99a58482BD75cbab83b27EC03CA68fF489b5788f'' then Inr [amountIn, 5]
        else Inl (External ''getAmountsOut'')) \<rparr>"

text \<open>
  The holder owns 2 ETH; the Uniswap quoter reverts at the 0.3% tier and quotes 2000 at
  the 0.05% tier and 9000 at the 1% tier; every other venue fails.
\<close>

definition lowTierProvider :: provider where
  "lowTierProvider = failingProvider \<lparr>
     getBalance := (\<lambda>holder. Inr (2 * 10 ^ 18)),
     quoteExactInputSingle := (\<lambda>quoter tokenIn tokenOut amountIn fee.
        if fee = 500 then Inr 2000 else if fee = 10000 then Inr 9000
        else Inl (External ''quote'')) \<rparr>"

definition spyEthers :: "provider \<Rightarrow> ethers" where
  "spyEthers prov = \<lparr>
     isAddress = (\<lambda>s. length s = 42 \<and> take 2 s = ''0x''),
     parseUnits = (\<lambda>s d. if s = ''1'' then Inr (10 ^ nat d) else Inl (External ''parseUnits'')),
     formatUnits = (\<lambda>v d. ''formatted''),
     encodeFunctionData = (\<lambda>call.
        case call of
          ExactInputSingle p \<Rightarrow>
            Inr (if p_fee p = 3000 then ''fee=3000'' else if p_fee p = 500 then ''fee=500''
                 else ''fee=other'')
        | Multicall deadline calls \<Rightarrow> Inr (''multicall:'' @ concat calls)
        | Erc20Approve spender amountWei \<Rightarrow>
            Inr (if amountWei = MaxUint256 then ''approve:max''
                 else if amountWei = 0 then ''approve:0'' else ''approve:other'')
        | _ \<Rightarrow> Inr ''0xdata''),
     JsonRpcProvider = (\<lambda>url. prov) \<rparr>"

definition demoBuiltins :: builtins where
  "demoBuiltins = \<lparr> toFixed6 = (\<lambda>s. s), roundBps = (\<lambda>s. if s = ''1'' then Some 100 else None),
     parseInt = (\<lambda>s. None), dateNow = 1700000000000, lowerCase = toLowerCase \<rparr>"

definition alice :: string where
  "alice = ''0x1111111111111111111111111111111111111111''"

definition bob :: string where
  "bob = ''0x2222222222222222222222222222222222222222''"

definition demoWorld :: world where
  "demoWorld = \<lparr> users = [\<lparr> user_id = ''u1'', user_address = alice,
       contacts = [\<lparr> contact_name = ''Bob'', contact_address = bob, deletedAt = None \<rparr>] \<rparr>],
     transactions = [], emitted = [], console = [], rpcLog = [] \<rparr>"

definition demoCollaborators :: "provider \<Rightarrow> collaborators" where
  "demoCollaborators prov = \<lparr> eth = spyEthers prov, js = demoBuiltins,
     contactReadFails = False, findUserFails = False, createFails = False, ioInstance = True,
     switchEmitFails = False, emitFails = False, switchNetworkFails = False \<rparr>"

definition aliceContext :: ToolContext where
  "aliceContext = \<lparr> userAddress = Some alice, ctx_chainId = Some 1, chatId = Some ''chat1'',
     agent = False \<rparr>"

definition WETH1 :: string where
  "WETH1 = ''0xC02aaA39b223FE8D0A0e5C4F27eAD9083C756Cc2''"

definition USDC1 :: string where
  "USDC1 = ''0xA0b86991c6218b36c1d19D4a2e9Eb0cE3606eB48''"

definition uniswapQuoter1 :: string where
  "uniswapQuoter1 = ''0x61fFE014bA17989E743c5F6cB21bF9697530B21e''"

definition ethToUsdc :: SwapParams where
  "ethToUsdc = \<lparr> sw_fromToken = ''ETH'', sw_toToken = ''USDC'', sw_amount = ''1'',
     sw_dex = None, sw_slippage = None \<rparr>"

text \<open>A name service that knows one name; the holder owns 5 units of every token.\<close>

definition carol :: string where
  "carol = ''0x3333333333333333333333333333333333333333''"

definition ensProvider :: provider where
  "ensProvider = failingProvider \<lparr>
     getBalance := (\<lambda>holder. Inr 5),
     balanceOf := (\<lambda>token holder. Inr 5),
     resolveName := (\<lambda>ensName. if ensName = ''carol.eth'' then Inr (Some carol) else Inr None) \<rparr>"

text \<open>Tables that try to redirect an address: as alias keys and as a token symbol.\<close>

definition hostileAliases :: "(string \<times> string) list" where
  "hostileAliases = [(toLowerCase USDC1, ''WBTC''), (USDC1, ''ETH'')]"

definition hostileTokens :: "(string \<times> TokenConfig) list" where
  "hostileTokens = [(toUpperCase USDC1,
      \<lparr> tc_symbol = ''FAKE'', tc_name = ''Fake'', tc_decimals = 0, addresses = [(1, WETH1)] \<rparr>)]"

definition ethToWeth :: SwapParams where
  "ethToWeth = \<lparr> sw_fromToken = ''ETH'', sw_toToken = ''weth'', sw_amount = ''1'',
     sw_dex = None, sw_slippage = None \<rparr>"

text \<open>A holder who owns exactly 1 unit (10^18 wei) of the native asset and of every token.\<close>

definition exactProvider :: provider where
  "exactProvider = failingProvider \<lparr>
     getBalance := (\<lambda>holder. Inr (10 ^ 18)),
     balanceOf := (\<lambda>token holder. Inr (10 ^ 18)) \<rparr>"

definition transferTo :: "string \<Rightarrow> string option \<Rightarrow> TransferParams" where
  "transferTo recipient token =
     \<lparr> tp_to = recipient, tp_amount = ''1'', tp_token = token, tp_network = None \<rparr>"

definition approveUsdc :: "string \<Rightarrow> ApproveParams" where
  "approveUsdc amount = \<lparr> ap_token = ''USDC'', ap_spender = ''uniswap'', ap_amount = amount \<rparr>"

text \<open>The collaborators of the examples with the socket server missing.\<close>

definition offline :: "provider \<Rightarrow> collaborators" where
  "offline prov = (demoCollaborators prov) \<lparr> ioInstance := False \<rparr>"

text \<open>The collaborators of the examples with an \<^verbatim>\<open>emit\<close> that throws.\<close>

definition emitThrows :: "provider \<Rightarrow> collaborators" where
  "emitThrows prov = (demoCollaborators prov) \<lparr> emitFails := True \<rparr>"



text \<open>
  The scenarios of the specification. \<open>scenarioEthers\<close> parses \<^verbatim>\<open>100\<close> at 6 decimals and
  \<^verbatim>\<open>0.02\<close> at 18, and encodes an \<^verbatim>\<open>exactInputSingle\<close> call as a string that shows whether its
  minimum output is 49750000000000000. Scenario A: the holder owns 1000 USDC, Uniswap
  quotes 0.05 ETH and SushiSwap 0.048 ETH for 100 USDC. Scenario B: the holder owns
  0.01 ETH and sends 0.02 ETH.
\<close>

definition scenarioEthers :: "provider \<Rightarrow> ethers" where
  "scenarioEthers prov = (spyEthers prov) \<lparr>
     parseUnits := (\<lambda>s d. if s = ''100'' \<and> d = 6 then Inr (10 ^ 8)
                           else if s = ''0.02'' \<and> d = 18 then Inr (2 * 10 ^ 16)
                           else Inl (External ''parseUnits'')),
     encodeFunctionData := (\<lambda>call.
        case call of
          ExactInputSingle p \<Rightarrow>
            Inr (if p_amountOutMinimum p = 49750000000000000 then ''min=49750000000000000''
                 else ''min=other'')
        | Multicall deadline calls \<Rightarrow> Inr (''multicall:'' @ concat calls)
        | _ \<Rightarrow> Inr ''0xdata'') \<rparr>"

definition scenario :: "provider \<Rightarrow> collaborators" where
  "scenario prov = (demoCollaborators prov) \<lparr> eth := scenarioEthers prov \<rparr>"

definition scenarioAProvider :: provider where
  "scenarioAProvider = failingProvider \<lparr>
     balanceOf := (\<lambda>token holder. Inr (10 ^ 9)),
     allowance := (\<lambda>token owner spender. Inr 0),
     quoteExactInputSingle := (\<lambda>quoter tokenIn tokenOut amountIn fee. Inr (5 * 10 ^ 16)),
     getAmountsOut := (\<lambda>router amountIn path.
        if router = ''0xd9e1cE17f2641f24aE83637ab66a2cca9C378B9F'' then Inr [amountIn, 48 * 10 ^ 15]
        else Inl (External ''getAmountsOut'')) \<rparr>"

definition usdcToEth :: SwapParams where
  "usdcToEth = \<lparr> sw_fromToken = ''USDC'', sw_toToken = ''ETH'', sw_amount = ''100'',
     sw_dex = None, sw_slippage = None \<rparr>"

definition scenarioBProvider :: provider where
  "scenarioBProvider = failingProvider \<lparr> getBalance := (\<lambda>holder. Inr (10 ^ 16)) \<rparr>"

definition sendTwoHundredths :: TransferParams where
  "sendTwoHundredths =
     \<lparr> tp_to = bob, tp_amount = ''0.02'', tp_token = None, tp_network = None \<rparr>"
section \<open>The engine's sort on quotes\<close>

lemma runExtend_le: "runExtend cmp d p xs \<le> length xs"
  by (induction xs arbitrary: p) (auto simp: Let_def)

lemma run_strict:
  "sorted_wrt (\<lambda>a b. amountOut a > amountOut b)
     (p # take (runExtend compareQuotes False p rest) rest)"
  by (induction rest arbitrary: p) (fastforce simp: Let_def compareQuotes_def)+

lemma run_weak:
  "sorted_wrt (\<lambda>a b. amountOut a \<le> amountOut b)
     (p # take (runExtend compareQuotes True p rest) rest)"
  by (induction rest arbitrary: p) (fastforce simp: Let_def compareQuotes_def)+

lemma countAndMakeRun_length:
  "countAndMakeRun cmp xs = (n, ys) \<Longrightarrow> n \<le> length xs"
  using runExtend_le [of cmp]
  by (auto simp: countAndMakeRun_def Let_def split: list.splits) 

lemma countAndMakeRun_shape:
  "countAndMakeRun cmp xs = (n, ys) \<Longrightarrow> ys = xs \<or> ys = rev (take n xs) @ drop n xs"
  by (auto simp: countAndMakeRun_def Let_def split: list.splits if_splits)

lemma countAndMakeRun_mset:
  assumes "countAndMakeRun cmp xs = (n, ys)"
  shows "mset ys = mset xs"
proof -
  have "mset (rev (take n xs) @ drop n xs) = mset xs"
    by (metis append_take_drop_id mset_append mset_rev)
  with countAndMakeRun_shape [OF assms] show ?thesis by auto
qed

lemma countAndMakeRun_descending:
  assumes "countAndMakeRun compareQuotes xs = (n, ys)"
  shows "descending (take n ys)"
proof (cases xs)
  case Nil
  with assms show ?thesis by (simp add: countAndMakeRun_def descending_def)
next
  case (Cons a as)
  show ?thesis
  proof (cases as)
    case Nil
    with Cons assms show ?thesis by (auto simp: countAndMakeRun_def descending_def)
  next
    case (Cons b rest)
    define d where "d = (compareQuotes b a < 0)"
    define k where "k = runExtend compareQuotes d b rest"
    have n: "n = 2 + k" and ys: "ys = (if d then rev (take n xs) @ drop n xs else xs)"
      using assms \<open>xs = a # as\<close> Cons
      by (auto simp: countAndMakeRun_def Let_def d_def k_def)
    have tk: "take n xs = a # b # take k rest"
      using \<open>xs = a # as\<close> Cons n by simp
    have len: "n \<le> length xs" using assms by (rule countAndMakeRun_length)
    show ?thesis
    proof (cases d)
      case True
      have ab: "amountOut a \<le> amountOut b"
        using True by (auto simp: d_def compareQuotes_def split: if_splits)
      have "sorted_wrt (\<lambda>x y. amountOut x \<le> amountOut y) (b # take k rest)"
        using run_weak [of b rest] True by (simp add: k_def)
      then have "sorted_wrt (\<lambda>x y. amountOut x \<le> amountOut y) (take n xs)"
        using ab tk by fastforce
      then have "sorted_wrt (\<lambda>x y. amountOut x \<ge> amountOut y) (rev (take n xs))"
        by (simp add: sorted_wrt_rev)
      moreover have "take n ys = rev (take n xs)"
        using ys True len by simp
      ultimately show ?thesis by (simp add: descending_def)
    next
      case False
      have ab: "amountOut a > amountOut b"
        using False by (auto simp: d_def compareQuotes_def split: if_splits)
      have "sorted_wrt (\<lambda>x y. amountOut x > amountOut y) (b # take k rest)"
        using run_strict [of b rest] False by (simp add: k_def)
      then have "sorted_wrt (\<lambda>x y. amountOut x > amountOut y) (take n xs)"
        using ab tk by fastforce
      then have "sorted_wrt (\<lambda>x y. amountOut x \<ge> amountOut y) (take n xs)"
        by (rule sorted_wrt_mono_rel [rotated]) simp
      then show ?thesis using ys False by (simp add: descending_def)
    qed
  qed
qed

lemma binarySearch_bounds:
  "left \<le> right \<Longrightarrow>
   left \<le> binarySearch cmp p xs left right \<and> binarySearch cmp p xs left right \<le> right"
proof (induction cmp p xs left right rule: binarySearch.induct)
  case (1 cmp pivot xs left right)
  show ?case
  proof (cases "left < right")
    case False
    then show ?thesis using 1(3) by (simp add: binarySearch.simps)
  next
    case True
    define mid where "mid = left + (right - left) div 2"
    have mid: "left \<le> mid" "mid < right" using True by (auto simp: mid_def)
    show ?thesis
    proof (cases "cmp pivot (xs ! mid) < 0")
      case lt: True
      have eq: "binarySearch cmp pivot xs left right = binarySearch cmp pivot xs left mid"
        using True lt by (subst binarySearch.simps) (simp add: mid_def Let_def)
      show ?thesis unfolding eq using 1(1) [OF True mid_def lt] mid by simp
    next
      case ge: False
      have eq: "binarySearch cmp pivot xs left right = binarySearch cmp pivot xs (mid + 1) right"
        using True ge by (subst binarySearch.simps) (simp add: mid_def Let_def)
      show ?thesis unfolding eq using 1(2) [OF True mid_def ge] mid by simp
    qed
  qed
qed

lemma binarySearch_split:
  assumes "descending xs" "right \<le> length xs" "left \<le> right"
    "\<forall>i<left. amountOut (xs ! i) > amountOut p"
    "\<forall>i. right \<le> i \<and> i < length xs \<longrightarrow> amountOut (xs ! i) \<le> amountOut p"
  shows "(\<forall>i < binarySearch compareQuotes p xs left right. amountOut (xs ! i) > amountOut p)
     \<and> (\<forall>i. binarySearch compareQuotes p xs left right \<le> i \<and> i < length xs \<longrightarrow> amountOut (xs ! i) \<le> amountOut p)"
  using assms
proof (induction compareQuotes p xs left right rule: binarySearch.induct)
  case (1 pivot xs left right)
  show ?case
  proof (cases "left < right")
    case False
    then show ?thesis using 1(3-) by (simp add: binarySearch.simps)
  next
    case True
    define mid where "mid = left + (right - left) div 2"
    have mid: "left \<le> mid" "mid < right" using True by (auto simp: mid_def)
    have sorted: "\<And>i j. i \<le> j \<Longrightarrow> j < length xs \<Longrightarrow> amountOut (xs ! j) \<le> amountOut (xs ! i)"
      using 1(3) unfolding descending_def
      by (metis le_eq_less_or_eq order.refl sorted_wrt_iff_nth_less)
    show ?thesis
    proof (cases "compareQuotes pivot (xs ! mid) < 0")
      case lt: True
      then have le: "amountOut (xs ! mid) \<le> amountOut pivot"
        by (auto simp: compareQuotes_def split: if_splits)
      have eq: "binarySearch compareQuotes pivot xs left right = binarySearch compareQuotes pivot xs left mid"
        using True lt by (subst binarySearch.simps) (simp add: mid_def Let_def)
      have upper: "\<forall>i. mid \<le> i \<and> i < length xs \<longrightarrow> amountOut (xs ! i) \<le> amountOut pivot"
        using sorted le by (meson order_trans)
      have "mid \<le> length xs" using mid 1(4) by simp
      then show ?thesis unfolding eq
        by (rule 1(1) [OF True mid_def lt 1(3)]) (use mid 1(6) upper in blast)+
    next
      case ge: False
      then have gt: "amountOut (xs ! mid) > amountOut pivot"
        by (auto simp: compareQuotes_def split: if_splits)
      have eq: "binarySearch compareQuotes pivot xs left right = binarySearch compareQuotes pivot xs (mid + 1) right"
        using True ge by (subst binarySearch.simps) (simp add: mid_def Let_def)
      have lower: "\<forall>i<mid + 1. amountOut (xs ! i) > amountOut pivot"
      proof (intro allI impI)
        fix i assume "i < mid + 1"
        then have "i \<le> mid" by simp
        moreover have "mid < length xs" using mid 1(4) by simp
        ultimately have "amountOut (xs ! mid) \<le> amountOut (xs ! i)" using sorted by blast
        then show "amountOut (xs ! i) > amountOut pivot" using gt by simp
      qed
      have "mid + 1 \<le> right" using mid by simp
      with 1(4) show ?thesis unfolding eq
        by (intro 1(2) [OF True mid_def ge 1(3)]) (use lower 1(7) in blast)+
    qed
  qed
qed

lemma insert_descending:
  assumes "descending xs"
  shows "descending (let l = binarySearch compareQuotes p xs 0 (length xs) in take l xs @ p # drop l xs)"
proof -
  define l where "l = binarySearch compareQuotes p xs 0 (length xs)"
  have b: "l \<le> length xs" using binarySearch_bounds [of 0 "length xs" compareQuotes p xs] by (simp add: l_def)
  have sp: "(\<forall>i < l. amountOut (xs ! i) > amountOut p) \<and> (\<forall>i. l \<le> i \<and> i < length xs \<longrightarrow> amountOut (xs ! i) \<le> amountOut p)"
    unfolding l_def by (rule binarySearch_split [OF assms]) simp_all
  have 1: "\<forall>x \<in> set (take l xs). amountOut x \<ge> amountOut p"
    using sp b by (fastforce simp: in_set_conv_nth)
  have 2: "\<forall>x \<in> set (drop l xs). amountOut x \<le> amountOut p"
    using sp b by (fastforce simp: in_set_conv_nth)
  have 3: "descending (take l xs @ drop l xs)" using assms by simp
  then have "descending (take l xs @ p # drop l xs)"
    using 1 2 unfolding descending_def by (fastforce simp: sorted_wrt_append)
  then show ?thesis by (simp add: l_def Let_def)
qed

lemma binaryInsertionSort_descending:
  "descending placed \<Longrightarrow> descending (binaryInsertionSort compareQuotes placed rest)"
proof (induction rest arbitrary: placed)
  case Nil then show ?case by simp
next
  case (Cons p rest)
  from insert_descending [OF Cons.prems, of p] show ?case
    by (simp add: Let_def Cons.IH)
qed

lemma binaryInsertionSort_mset:
  "mset (binaryInsertionSort cmp placed rest) = mset placed + mset rest"
proof (induction rest arbitrary: placed)
  case Nil then show ?case by simp
next
  case (Cons p rest)
  have "mset (take l placed @ p # drop l placed) = add_mset p (mset placed)" for l
    by (metis append_take_drop_id mset_append union_mset_add_mset_right mset.simps(2))
  then show ?case by (simp add: Let_def Cons.IH)
qed

lemma arraySort_mset: "mset (arraySort cmp xs) = mset xs"
proof (cases "length xs < 2")
  case True then show ?thesis by (simp add: arraySort_def)
next
  case False
  obtain n ys where c: "countAndMakeRun cmp xs = (n, ys)" by force
  have "mset (take n ys) + mset (drop n ys) = mset ys"
    by (metis append_take_drop_id mset_append)
  then show ?thesis using False c countAndMakeRun_mset [OF c]
    by (simp add: arraySort_def binaryInsertionSort_mset)
qed

lemma arraySort_descending: "descending (arraySort compareQuotes xs)"
proof (cases "length xs < 2")
  case True
  then have "xs = [] \<or> (\<exists>a. xs = [a])" by (cases xs) (auto simp: less_Suc_eq_0_disj numeral_2_eq_2)
  then show ?thesis using True by (auto simp add: arraySort_def descending_def)
next
  case False
  obtain n ys where c: "countAndMakeRun compareQuotes xs = (n, ys)" by force
  show ?thesis using False c countAndMakeRun_descending [OF c]
    by (simp add: arraySort_def binaryInsertionSort_descending)
qed

lemma binarySearch_position:
  fixes p xs
  assumes "descending xs"
  defines "l \<equiv> binarySearch compareQuotes p xs 0 (length xs)"
  shows "l \<le> length xs"
    and "\<forall>x \<in> set (take l xs). amountOut x > amountOut p"
    and "\<forall>x \<in> set (drop l xs). amountOut x \<le> amountOut p"
proof -
  show b: "l \<le> length xs"
    using binarySearch_bounds [of 0 "length xs" compareQuotes p xs] by (simp add: l_def)
  have sp: "(\<forall>i < l. amountOut (xs ! i) > amountOut p)
      \<and> (\<forall>i. l \<le> i \<and> i < length xs \<longrightarrow> amountOut (xs ! i) \<le> amountOut p)"
    unfolding l_def by (rule binarySearch_split [OF assms(1)]) simp_all
  show "\<forall>x \<in> set (take l xs). amountOut x > amountOut p"
    using sp b by (fastforce simp: in_set_conv_nth)
  show "\<forall>x \<in> set (drop l xs). amountOut x \<le> amountOut p"
    using sp b by (fastforce simp: in_set_conv_nth)
qed

lemma strict_filter_rev:
  "sorted_wrt (\<lambda>a b. amountOut a > amountOut b) qs \<Longrightarrow>
   filter (\<lambda>q. amountOut q = v) qs = rev (filter (\<lambda>q. amountOut q = v) qs)"
proof -
  assume s: "sorted_wrt (\<lambda>a b. amountOut a > amountOut b) qs"
  have "filter (\<lambda>q. amountOut q = v) qs = [] \<or> (\<exists>x. filter (\<lambda>q. amountOut q = v) qs = [x])"
    using s
  proof (induction qs)
    case Nil then show ?case by simp
  next
    case (Cons a qs)
    show ?case
    proof (cases "amountOut a = v")
      case True
      with Cons.prems have "\<forall>q \<in> set qs. amountOut q \<noteq> v" by auto
      then have "filter (\<lambda>q. amountOut q = v) qs = []" by (simp add: filter_empty_conv)
      with True show ?thesis by simp
    next
      case False
      with Cons show ?thesis by simp
    qed
  qed
  then show ?thesis by auto
qed

lemma countAndMakeRun_cases:
  assumes "countAndMakeRun compareQuotes xs = (n, ys)"
  shows "n \<le> length xs \<and>
     ((ys = xs \<and> sorted_wrt (\<lambda>a b. amountOut a > amountOut b) (take n xs))
      \<or> ys = rev (take n xs) @ drop n xs)"
proof (cases xs)
  case Nil
  with assms show ?thesis by (simp add: countAndMakeRun_def)
next
  case (Cons a as)
  show ?thesis
  proof (cases as)
    case Nil
    with Cons assms show ?thesis by (auto simp: countAndMakeRun_def)
  next
    case (Cons b rest)
    define d where "d = (compareQuotes b a < 0)"
    define k where "k = runExtend compareQuotes d b rest"
    have n: "n = 2 + k" and ys: "ys = (if d then rev (take n xs) @ drop n xs else xs)"
      using assms \<open>xs = a # as\<close> Cons
      by (auto simp: countAndMakeRun_def Let_def d_def k_def)
    have tk: "take n xs = a # b # take k rest"
      using \<open>xs = a # as\<close> Cons n by simp
    have len: "n \<le> length xs" using assms by (rule countAndMakeRun_length)
    show ?thesis
    proof (cases d)
      case True
      with ys len show ?thesis by simp
    next
      case False
      have ab: "amountOut a > amountOut b"
        using False by (auto simp: d_def compareQuotes_def split: if_splits)
      have "sorted_wrt (\<lambda>x y. amountOut x > amountOut y) (b # take k rest)"
        using run_strict [of b rest] False by (simp add: k_def)
      then have "sorted_wrt (\<lambda>x y. amountOut x > amountOut y) (take n xs)"
        using ab tk by fastforce
      with ys False len show ?thesis by simp
    qed
  qed
qed

lemma countAndMakeRun_ties:
  assumes "countAndMakeRun compareQuotes xs = (n, ys)"
  shows "filter (\<lambda>q. amountOut q = v) (take n ys) = rev (filter (\<lambda>q. amountOut q = v) (take n xs))
     \<and> drop n ys = drop n xs"
  using countAndMakeRun_cases [OF assms] strict_filter_rev [of "take n xs" v]
  by (auto simp: rev_filter)

lemma insert_ties:
  fixes p placed
  assumes "descending placed"
  defines "l \<equiv> binarySearch compareQuotes p placed 0 (length placed)"
  shows "filter (\<lambda>q. amountOut q = v) (take l placed @ p # drop l placed)
           = filter (\<lambda>q. amountOut q = v) [p] @ filter (\<lambda>q. amountOut q = v) placed"
proof -
  note pos = binarySearch_position [OF assms(1), of p, folded l_def]
  have split: "filter (\<lambda>q. amountOut q = v) placed
      = filter (\<lambda>q. amountOut q = v) (take l placed) @ filter (\<lambda>q. amountOut q = v) (drop l placed)"
    by (metis append_take_drop_id filter_append)
  show ?thesis
  proof (cases "amountOut p = v")
    case True
    with pos(2) have "\<forall>x \<in> set (take l placed). amountOut x \<noteq> v" by auto
    then have "filter (\<lambda>q. amountOut q = v) (take l placed) = []" by (simp add: filter_empty_conv)
    with True split show ?thesis by simp
  next
    case False
    with split show ?thesis by simp
  qed
qed

lemma binaryInsertionSort_ties:
  "descending placed \<Longrightarrow>
   filter (\<lambda>q. amountOut q = v) (binaryInsertionSort compareQuotes placed rest)
     = rev (filter (\<lambda>q. amountOut q = v) rest) @ filter (\<lambda>q. amountOut q = v) placed"
proof (induction rest arbitrary: placed)
  case Nil then show ?case by simp
next
  case (Cons p rest)
  let ?placed' = "let l = binarySearch compareQuotes p placed 0 (length placed)
                  in take l placed @ p # drop l placed"
  have d: "descending ?placed'" using insert_descending [OF Cons.prems] .
  have "filter (\<lambda>q. amountOut q = v) (binaryInsertionSort compareQuotes placed (p # rest))
      = filter (\<lambda>q. amountOut q = v) (binaryInsertionSort compareQuotes ?placed' rest)"
    by (simp add: Let_def)
  also have "\<dots> = rev (filter (\<lambda>q. amountOut q = v) rest) @ filter (\<lambda>q. amountOut q = v) ?placed'"
    using Cons.IH [OF d] .
  also have "filter (\<lambda>q. amountOut q = v) ?placed'
      = filter (\<lambda>q. amountOut q = v) [p] @ filter (\<lambda>q. amountOut q = v) placed"
    using insert_ties [OF Cons.prems, of v p] by (simp add: Let_def)
  finally show ?case by simp
qed

lemma arraySort_ties:
  "filter (\<lambda>q. amountOut q = v) (arraySort compareQuotes xs) = rev (filter (\<lambda>q. amountOut q = v) xs)"
proof (cases "length xs < 2")
  case True
  then have "xs = [] \<or> (\<exists>a. xs = [a])" by (cases xs) (auto simp: less_Suc_eq_0_disj numeral_2_eq_2)
  then show ?thesis using True by (auto simp add: arraySort_def)
next
  case False
  obtain n ys where c: "countAndMakeRun compareQuotes xs = (n, ys)" by force
  note t = countAndMakeRun_ties [OF c, of v]
  have "filter (\<lambda>q. amountOut q = v) (arraySort compareQuotes xs)
      = rev (filter (\<lambda>q. amountOut q = v) (drop n ys)) @ filter (\<lambda>q. amountOut q = v) (take n ys)"
    using False c countAndMakeRun_descending [OF c]
    by (simp add: arraySort_def binaryInsertionSort_ties)
  also have "\<dots> = rev (filter (\<lambda>q. amountOut q = v) (take n xs) @ filter (\<lambda>q. amountOut q = v) (drop n xs))"
    using t by simp
  also have "filter (\<lambda>q. amountOut q = v) (take n xs) @ filter (\<lambda>q. amountOut q = v) (drop n xs)
      = filter (\<lambda>q. amountOut q = v) xs"
    by (metis append_take_drop_id filter_append)
  finally show ?thesis .
qed

text \<open>
  With this comparator the engine's sort is the reverse of the stable ascending sort:
  descending by \<open>amountOut\<close>, and quotes of equal \<open>amountOut\<close> in the reverse of their
  order in the input.
\<close>

lemma arraySort_reverses_ties:
  "arraySort compareQuotes xs = rev (sort_key amountOut xs)"
proof -
  have "sort_key amountOut xs = rev (arraySort compareQuotes xs)"
  proof (rule properties_for_sort_key)
    show "mset (rev (arraySort compareQuotes xs)) = mset xs" by (simp add: arraySort_mset)
    show "filter (\<lambda>x. amountOut k = amountOut x) (rev (arraySort compareQuotes xs))
        = filter (\<lambda>x. amountOut k = amountOut x) xs" for k
    proof -
      have eq: "(\<lambda>x. amountOut k = amountOut x) = (\<lambda>q. amountOut q = amountOut k)" by auto
      show ?thesis unfolding eq by (simp add: rev_filter [symmetric] arraySort_ties)
    qed
    have "sorted_wrt (\<lambda>a b. amountOut a \<le> amountOut b) (rev (arraySort compareQuotes xs))"
      using arraySort_descending [of xs] by (simp add: descending_def sorted_wrt_rev)
    then show "sorted (map amountOut (rev (arraySort compareQuotes xs)))"
      by (simp add: sorted_map)
  qed
  then show ?thesis by simp
qed

text \<open>On equal amounts the comparator answers "first argument first" both ways round.\<close>

lemma compareQuotes_ties:
  "amountOut a = amountOut b \<Longrightarrow> compareQuotes a b = -1 \<and> compareQuotes b a = -1"
  by (simp add: compareQuotes_def)


section \<open>Quote aggregation and call data: the claims\<close>

lemma pushQuote_cases:
  "pushQuote e dec d amount =
     (if viable amount
      then [\<lparr> dex = d, amountOut = the amount, amountOutFormatted = formatUnits e (the amount) dec \<rparr>]
      else [])"
  by (cases amount) (simp_all add: pushQuote_def viable_def)

lemma viable_Some: "viable a \<longleftrightarrow> (\<exists>v. a = Some v \<and> 0 < v)"
  by (cases a) (auto simp: viable_def)

lemma pushQuote_positive: "q \<in> set (pushQuote e dec d amount) \<Longrightarrow> 0 < amountOut q \<and> dex q = d"
  by (auto simp: pushQuote_cases viable_Some split: if_splits)

lemma collectQuotes_concat:
  "fst (collectQuotes e prov chainId tokenIn tokenOut amountIn dec ds) =
     concat (map (\<lambda>d. pushQuote e dec d (fst (quoteVenue prov chainId tokenIn tokenOut amountIn d))) ds)"
  by (induction ds) (auto simp: Let_def split: prod.splits)

lemma collectQuotes_positive:
  "q \<in> set (fst (collectQuotes e prov chainId tokenIn tokenOut amountIn dec ds)) \<Longrightarrow> 0 < amountOut q"
  by (auto simp: collectQuotes_concat dest: pushQuote_positive)

lemma getAllQuotes_fst:
  "fst (getAllQuotes e prov chainId tokenIn tokenOut amountIn dec) =
     arraySort compareQuotes
       (fst (collectQuotes e prov chainId tokenIn tokenOut amountIn dec (getDexesForChain chainId)))"
  by (simp add: getAllQuotes_def Let_def split: prod.splits)

lemma descending_head:
  "descending (best # others) \<Longrightarrow> q \<in> set (best # others) \<Longrightarrow> amountOut q \<le> amountOut best"
  by (auto simp: descending_def)

text \<open>
  Claim C1, as amended. \<open>getAllQuotes\<close> returns exactly the viable quotes it collected
  (every one with a positive \<open>amountOut\<close>), in descending order of \<open>amountOut\<close>, and when
  there is at least one viable quote the first quote of the list is at least as large as
  every viable quote. The amended claim says nothing about the order of quotes of equal
  \<open>amountOut\<close>.
\<close>

theorem getAllQuotes_ranked:
  fixes e prov chainId tokenIn tokenOut amountIn dec
  defines "collected \<equiv>
     fst (collectQuotes e prov chainId tokenIn tokenOut amountIn dec (getDexesForChain chainId))"
  defines "ranked \<equiv> fst (getAllQuotes e prov chainId tokenIn tokenOut amountIn dec)"
  shows "descending ranked
     \<and> mset ranked = mset collected
     \<and> (\<forall>q \<in> set ranked. 0 < amountOut q)
     \<and> (collected \<noteq> [] \<longrightarrow>
          ranked \<noteq> [] \<and> (\<forall>q \<in> set collected. amountOut q \<le> amountOut (hd ranked)))"
proof -
  have r: "ranked = arraySort compareQuotes collected"
    by (simp add: ranked_def collected_def getAllQuotes_fst)
  have d: "descending ranked" by (simp add: r arraySort_descending)
  have m: "mset ranked = mset collected" by (simp add: r arraySort_mset)
  then have s: "set ranked = set collected" by (rule mset_eq_setD)
  have p: "\<forall>q \<in> set ranked. 0 < amountOut q"
    unfolding s collected_def by (blast intro: collectQuotes_positive)
  have h: "ranked \<noteq> [] \<and> (\<forall>q \<in> set collected. amountOut q \<le> amountOut (hd ranked))"
    if "collected \<noteq> []"
  proof -
    from that s have "ranked \<noteq> []" by auto
    then obtain best others where bo: "ranked = best # others" by (cases ranked) auto
    with d s show ?thesis by (auto dest: descending_head)
  qed
  from d m p h show ?thesis by blast
qed

theorem getAllQuotes_ranked_witness:
  "fst (collectQuotes (spyEthers tieProvider) tieProvider 1 WETH1 USDC1 100 6 (getDexesForChain 1)) \<noteq> []
   \<and> descending (fst (getAllQuotes (spyEthers tieProvider) tieProvider 1 WETH1 USDC1 100 6))
   \<and> map amountOut (fst (getAllQuotes (spyEthers tieProvider) tieProvider 1 WETH1 USDC1 100 6)) = [7, 5, 5]
   \<and> amountOut (hd (fst (getAllQuotes (spyEthers tieProvider) tieProvider 1 WETH1 USDC1 100 6))) = 7"
proof -
  have 1: "fst (collectQuotes (spyEthers tieProvider) tieProvider 1 WETH1 USDC1 100 6 (getDexesForChain 1)) \<noteq> []"
    by code_simp
  have 2: "map amountOut (fst (getAllQuotes (spyEthers tieProvider) tieProvider 1 WETH1 USDC1 100 6)) = [7, 5, 5]"
    by code_simp
  have 3: "amountOut (hd (fst (getAllQuotes (spyEthers tieProvider) tieProvider 1 WETH1 USDC1 100 6))) = 7"
    by code_simp
  from getAllQuotes_ranked [of "spyEthers tieProvider" tieProvider 1 WETH1 USDC1 100 6] 1 2 3
  show ?thesis by blast
qed

text \<open>
  Claim C1 as stated fails on the order of ties: with Uniswap (first venue) and Curve
  (third venue) both quoting 5 and SushiSwap quoting 7 on chain 1, the stable ranking is
  SushiSwap, Uniswap, Curve, and \<open>getAllQuotes\<close> returns SushiSwap, Curve, Uniswap.
\<close>

theorem ties_counterexample:
  "fst (getAllQuotes (spyEthers tieProvider) tieProvider 1 WETH1 USDC1 100 6)
     \<noteq> stableDescending
          (fst (collectQuotes (spyEthers tieProvider) tieProvider 1 WETH1 USDC1 100 6 (getDexesForChain 1)))
   \<and> map (slug \<circ> dex) (fst (getAllQuotes (spyEthers tieProvider) tieProvider 1 WETH1 USDC1 100 6))
       = [''sushiswap'', ''curve'', ''uniswap'']
   \<and> map (slug \<circ> dex) (stableDescending
          (fst (collectQuotes (spyEthers tieProvider) tieProvider 1 WETH1 USDC1 100 6 (getDexesForChain 1))))
       = [''sushiswap'', ''uniswap'', ''curve'']"
proof -
  have a: "map (slug \<circ> dex) (fst (getAllQuotes (spyEthers tieProvider) tieProvider 1 WETH1 USDC1 100 6))
       = [''sushiswap'', ''curve'', ''uniswap'']" by code_simp
  have b: "map (slug \<circ> dex) (stableDescending
          (fst (collectQuotes (spyEthers tieProvider) tieProvider 1 WETH1 USDC1 100 6 (getDexesForChain 1))))
       = [''sushiswap'', ''uniswap'', ''curve'']" by code_simp
  have "[''sushiswap'', ''curve'', ''uniswap''] \<noteq> [''sushiswap'', ''uniswap'', ''curve'']" by simp
  with a b show ?thesis by metis
qed

lemma quoteFeeTiers_at:
  "i < length fees \<Longrightarrow> viable (quote (fees ! i)) \<Longrightarrow> \<forall>j<i. \<not> viable (quote (fees ! j)) \<Longrightarrow>
   quoteFeeTiers quote fees current = (quote (fees ! i), take (Suc i) fees)"
proof (induction fees arbitrary: i current)
  case Nil then show ?case by simp
next
  case (Cons fee fees)
  show ?case
  proof (cases i)
    case 0
    with Cons.prems show ?thesis by (simp add: Let_def)
  next
    case (Suc k)
    have nv: "\<not> viable (quote fee)" using Cons.prems(3) Suc by auto
    have "quoteFeeTiers quote fees (quote fee) = (quote (fees ! k), take (Suc k) fees)"
      using Cons.prems Suc by (intro Cons.IH) auto
    with nv Suc show ?thesis by (simp add: Let_def)
  qed
qed

lemma quoteFeeTiers_none:
  "\<forall>fee \<in> set fees. \<not> viable (quote fee) \<Longrightarrow> \<not> viable current \<Longrightarrow>
   \<not> viable (fst (quoteFeeTiers quote fees current)) \<and> snd (quoteFeeTiers quote fees current) = fees"
proof (induction fees arbitrary: current)
  case Nil then show ?case by simp
next
  case (Cons fee fees)
  have nv: "\<not> viable (quote fee)" using Cons.prems(1) by simp
  have "\<not> viable (fst (quoteFeeTiers quote fees (quote fee)))
      \<and> snd (quoteFeeTiers quote fees (quote fee)) = fees"
    using Cons.prems(1) nv by (intro Cons.IH) auto
  with nv show ?case by (auto simp: Let_def split: prod.splits)
qed

text \<open>
  Claim C4. For a venue that takes the Uniswap V3 branch (slug \<^verbatim>\<open>uniswap\<close> and a quoter
  address on the chain), the tiers are tried in the fixed order 3000, 500, 10000. If
  tier number \<open>i\<close> is the first whose quote is positive, the venue's quote is that
  amount and exactly the tiers up to and including \<open>i\<close> were queried; if no tier gives a
  positive amount, all three were queried and the venue contributes no quote.
\<close>

theorem feeTiers_first_viable:
  fixes prov quoter tokenIn tokenOut amountIn
  defines "quote \<equiv> getUniswapV3Quote prov quoter tokenIn tokenOut amountIn"
  defines "asCall \<equiv> QuoteExactInputSingle quoter tokenIn tokenOut amountIn"
  assumes v3: "slug d = ''uniswap''" "quoterOn d chainId = Some quoter"
  shows "feeTierOrder = [3000, 500, 10000]
    \<and> (\<forall>i. i < length feeTierOrder \<and> viable (quote (feeTierOrder ! i))
             \<and> (\<forall>j<i. \<not> viable (quote (feeTierOrder ! j))) \<longrightarrow>
          (\<exists>v. quote (feeTierOrder ! i) = Some v \<and> 0 < v
             \<and> quoteVenue prov chainId tokenIn tokenOut amountIn d
                 = (Some v, map asCall (take (Suc i) feeTierOrder))
             \<and> pushQuote e dec d (fst (quoteVenue prov chainId tokenIn tokenOut amountIn d))
                 = [\<lparr> dex = d, amountOut = v, amountOutFormatted = formatUnits e v dec \<rparr>]))
    \<and> ((\<forall>fee \<in> set feeTierOrder. \<not> viable (quote fee)) \<longrightarrow>
          pushQuote e dec d (fst (quoteVenue prov chainId tokenIn tokenOut amountIn d)) = []
          \<and> snd (quoteVenue prov chainId tokenIn tokenOut amountIn d) = map asCall feeTierOrder)"
proof -
  have order: "feeTierOrder = [3000, 500, 10000]"
    by (simp add: feeTierOrder_def FEE_TIERS_MEDIUM_def FEE_TIERS_LOW_def FEE_TIERS_HIGH_def)
  have venue: "quoteVenue prov chainId tokenIn tokenOut amountIn d =
      (fst (quoteFeeTiers quote feeTierOrder None),
       map asCall (snd (quoteFeeTiers quote feeTierOrder None)))"
    using v3 by (simp add: quoteVenue_def quote_def asCall_def split: prod.splits)
  have first: "\<exists>v. quote (feeTierOrder ! i) = Some v \<and> 0 < v
             \<and> quoteVenue prov chainId tokenIn tokenOut amountIn d
                 = (Some v, map asCall (take (Suc i) feeTierOrder))
             \<and> pushQuote e dec d (fst (quoteVenue prov chainId tokenIn tokenOut amountIn d))
                 = [\<lparr> dex = d, amountOut = v, amountOutFormatted = formatUnits e v dec \<rparr>]"
    if h: "i < length feeTierOrder" "viable (quote (feeTierOrder ! i))"
          "\<forall>j<i. \<not> viable (quote (feeTierOrder ! j))" for i
  proof -
    from h(2) obtain v where v: "quote (feeTierOrder ! i) = Some v" "0 < v"
      by (auto simp: viable_Some)
    have "quoteFeeTiers quote feeTierOrder None = (Some v, take (Suc i) feeTierOrder)"
      using quoteFeeTiers_at [OF h, of None] v by simp
    with v h(2) show ?thesis by (simp add: venue pushQuote_cases)
  qed
  have none: "pushQuote e dec d (fst (quoteVenue prov chainId tokenIn tokenOut amountIn d)) = []
          \<and> snd (quoteVenue prov chainId tokenIn tokenOut amountIn d) = map asCall feeTierOrder"
    if "\<forall>fee \<in> set feeTierOrder. \<not> viable (quote fee)"
    using quoteFeeTiers_none [OF that, of None] by (simp add: venue pushQuote_cases viable_def)
  from order first none show ?thesis by blast
qed

theorem feeTiers_first_viable_witness:
  "quoteVenue lowTierProvider 1 WETH1 USDC1 100 UNISWAP
     = (Some 2000, map (QuoteExactInputSingle uniswapQuoter1 WETH1 USDC1 100) [3000, 500])
   \<and> pushQuote (spyEthers lowTierProvider) 6 UNISWAP (fst (quoteVenue lowTierProvider 1 WETH1 USDC1 100 UNISWAP))
     = [\<lparr> dex = UNISWAP, amountOut = 2000, amountOutFormatted = ''formatted'' \<rparr>]"
proof -
  have s: "slug UNISWAP = ''uniswap''" by (simp add: UNISWAP_def)
  have q: "quoterOn UNISWAP 1 = Some uniswapQuoter1" by code_simp
  have o: "feeTierOrder = [3000, 500, 10000]" using feeTiers_first_viable [OF s q] by blast
  have l: "(1::nat) < length feeTierOrder" by (simp add: o)
  have v1: "viable (getUniswapV3Quote lowTierProvider uniswapQuoter1 WETH1 USDC1 100 (feeTierOrder ! 1))"
    by code_simp
  have v0: "\<forall>j<1::nat. \<not> viable (getUniswapV3Quote lowTierProvider uniswapQuoter1 WETH1 USDC1 100 (feeTierOrder ! j))"
  proof -
    have "\<not> viable (getUniswapV3Quote lowTierProvider uniswapQuoter1 WETH1 USDC1 100 (feeTierOrder ! 0))"
      by code_simp
    then show ?thesis by simp
  qed
  have val: "getUniswapV3Quote lowTierProvider uniswapQuoter1 WETH1 USDC1 100 (feeTierOrder ! 1) = Some 2000"
    by code_simp
  have fmt: "formatUnits (spyEthers lowTierProvider) 2000 6 = ''formatted''" by (simp add: spyEthers_def)
  from feeTiers_first_viable [OF s q, of lowTierProvider WETH1 USDC1 100 "spyEthers lowTierProvider" 6] l v1 v0
  obtain v where "getUniswapV3Quote lowTierProvider uniswapQuoter1 WETH1 USDC1 100 (feeTierOrder ! 1) = Some v"
    and "quoteVenue lowTierProvider 1 WETH1 USDC1 100 UNISWAP
                 = (Some v, map (QuoteExactInputSingle uniswapQuoter1 WETH1 USDC1 100) (take (Suc 1) feeTierOrder))"
    and "pushQuote (spyEthers lowTierProvider) 6 UNISWAP (fst (quoteVenue lowTierProvider 1 WETH1 USDC1 100 UNISWAP))
                 = [\<lparr> dex = UNISWAP, amountOut = v, amountOutFormatted = formatUnits (spyEthers lowTierProvider) v 6 \<rparr>]"
    by blast
  with val fmt show ?thesis unfolding o by simp
qed


text \<open>The builder's fee does not depend on any of its arguments.\<close>

lemma exactInputSingle_fee_fixed:
  "p_fee (exactInputSingleParams tokenIn tokenOut amountIn minOut recipient) = FEE_TIERS_MEDIUM"
  by (simp add: exactInputSingleParams_def)

text \<open>
  Claim C3 fails on the code: the builder always encodes the 0.3% tier. With a quoter
  that reverts at the 0.3% tier and quotes at the 0.05% tier, the venue's quote is the
  one found at fee 500 and the saved transaction still carries fee 3000.
\<close>

theorem discovered_tier_not_encoded:
  "quoteVenue lowTierProvider 1 WETH1 USDC1 (10 ^ 18) UNISWAP
     = (Some 2000, [QuoteExactInputSingle uniswapQuoter1 WETH1 USDC1 (10 ^ 18) 3000,
                    QuoteExactInputSingle uniswapQuoter1 WETH1 USDC1 (10 ^ 18) 500])
   \<and> map tx_data (transactions (snd
         (swapHandler (demoCollaborators lowTierProvider) ethToUsdc aliceContext demoWorld)))
     = [''multicall:fee=3000'']"
proof -
  have a: "quoteVenue lowTierProvider 1 WETH1 USDC1 (10 ^ 18) UNISWAP
     = (Some 2000, [QuoteExactInputSingle uniswapQuoter1 WETH1 USDC1 (10 ^ 18) 3000,
                    QuoteExactInputSingle uniswapQuoter1 WETH1 USDC1 (10 ^ 18) 500])"
    by code_simp
  have b: "map tx_data (transactions (snd
         (swapHandler (demoCollaborators lowTierProvider) ethToUsdc aliceContext demoWorld)))
     = [''multicall:fee=3000'']"
    by code_simp
  from a b show ?thesis by simp
qed

section \<open>Identifier resolution: the claims\<close>






text \<open>
  Claim C9. A non-empty token input that \<^verbatim>\<open>ethers.isAddress\<close> accepts is returned unchanged
  as the resolved address by the resolvers of the transfer, approval and swap tools,
  whatever the alias table and the token table hold.
\<close>

theorem address_passthrough:
  assumes "isAddress e tokenInput" and "tokenInput \<noteq> []"
  shows "resolveToken_transfer e aliases tokens (Some tokenInput) chainId
           = Inr \<lparr> ti_address = Some tokenInput, ti_symbol = ''TOKEN'', ti_decimals = 18 \<rparr>
     \<and> resolveToken_approve e aliases tokens tokenInput chainId
           = Inr \<lparr> at_address = tokenInput, at_symbol = ''TOKEN'', at_decimals = 18 \<rparr>
     \<and> resolveToken_swap e aliases tokens tokenInput chainId
           = Inr (Some \<lparr> st_address = tokenInput, st_symbol = ''TOKEN'', st_decimals = 18,
                          st_isNative = False \<rparr>)"
  using assms
  by (simp add: resolveToken_transfer_def resolveToken_approve_def resolveToken_swap_def)

theorem address_passthrough_witness:
  "isAddress (spyEthers failingProvider) USDC1 \<and> USDC1 \<noteq> []
   \<and> resolveToken_transfer (spyEthers failingProvider) hostileAliases hostileTokens (Some USDC1) 1
       = Inr \<lparr> ti_address = Some USDC1, ti_symbol = ''TOKEN'', ti_decimals = 18 \<rparr>
   \<and> resolveToken_swap (spyEthers failingProvider) hostileAliases hostileTokens USDC1 1
       = Inr (Some \<lparr> st_address = USDC1, st_symbol = ''TOKEN'', st_decimals = 18,
                      st_isNative = False \<rparr>)"
proof -
  have a: "isAddress (spyEthers failingProvider) USDC1" by code_simp
  have b: "USDC1 \<noteq> []" by (simp add: USDC1_def)
  from address_passthrough [OF a b, of hostileAliases hostileTokens 1] a b show ?thesis by simp
qed

text \<open>A native symbol resolves, in the swap tool, to the wrapped-native address of the chain.\<close>

lemma native_resolves_to_wrapped:
  assumes "\<not> isAddress e tokenInput"
    and "aliasOr aliases (trim (toLowerCase tokenInput)) (toUpperCase tokenInput) = Inr resolvedSymbol"
    and "isNativeToken resolvedSymbol chainId"
    and "addressOn WRAPPED_NATIVE chainId = Some wrappedAddress"
  shows "resolveToken_swap e aliases tokens tokenInput chainId
           = Inr (Some \<lparr> st_address = wrappedAddress, st_symbol = resolvedSymbol,
                          st_decimals = 18, st_isNative = True \<rparr>)"
  using assms by (simp add: resolveToken_swap_def)

text \<open>
  Claim C10. When both token inputs of a swap resolve and the two addresses are equal up
  to case, the handler fails and the world is exactly as before: no balance read, no quote
  call, no row, nothing emitted, nothing printed. The failure is the same-token error (or
  the missing-wallet error, when the context has no user address). The worked example is ETH
  against its wrapped form on chain 1.
\<close>

theorem same_token_rejected:
  assumes "resolveToken_swap (eth c) TOKEN_ALIASES_swap TOKENS (sw_fromToken params)
             (contextChainId ctx) = Inr (Some fromTok)"
    and "resolveToken_swap (eth c) TOKEN_ALIASES_swap TOKENS (sw_toToken params)
             (contextChainId ctx) = Inr (Some toTok)"
    and "toLowerCase (st_address fromTok) = toLowerCase (st_address toTok)"
  shows "swapHandler c params ctx w =
           (Failure (case userAddress ctx of
                       None \<Rightarrow> NoUserAddress
                     | Some userAddr \<Rightarrow> if userAddr = [] then NoUserAddress else SameToken), w)"
  using assms by (simp add: swapHandler_def swapBody_def split: option.splits)

theorem same_token_rejected_witness:
  "resolveToken_swap (eth (demoCollaborators lowTierProvider)) TOKEN_ALIASES_swap TOKENS ''ETH'' 1
     = Inr (Some \<lparr> st_address = WETH1, st_symbol = ''ETH'', st_decimals = 18, st_isNative = True \<rparr>)
   \<and> resolveToken_swap (eth (demoCollaborators lowTierProvider)) TOKEN_ALIASES_swap TOKENS ''weth'' 1
     = Inr (Some \<lparr> st_address = WETH1, st_symbol = ''WETH'', st_decimals = 18, st_isNative = False \<rparr>)
   \<and> swapHandler (demoCollaborators lowTierProvider) ethToWeth aliceContext demoWorld
     = (Failure SameToken, demoWorld)"
proof -
  have f: "resolveToken_swap (eth (demoCollaborators lowTierProvider)) TOKEN_ALIASES_swap TOKENS
             (sw_fromToken ethToWeth) (contextChainId aliceContext)
     = Inr (Some \<lparr> st_address = WETH1, st_symbol = ''ETH'', st_decimals = 18, st_isNative = True \<rparr>)"
    by code_simp
  have t: "resolveToken_swap (eth (demoCollaborators lowTierProvider)) TOKEN_ALIASES_swap TOKENS
             (sw_toToken ethToWeth) (contextChainId aliceContext)
     = Inr (Some \<lparr> st_address = WETH1, st_symbol = ''WETH'', st_decimals = 18, st_isNative = False \<rparr>)"
    by code_simp
  have s: "toLowerCase (st_address \<lparr> st_address = WETH1, st_symbol = ''ETH'', st_decimals = 18, st_isNative = True \<rparr>)
      = toLowerCase (st_address \<lparr> st_address = WETH1, st_symbol = ''WETH'', st_decimals = 18, st_isNative = False \<rparr>)"
    by simp
  have u: "userAddress aliceContext = Some alice" "alice \<noteq> []"
    by (simp_all add: aliceContext_def alice_def)
  have p: "sw_fromToken ethToWeth = ''ETH''" "sw_toToken ethToWeth = ''weth''" "contextChainId aliceContext = 1"
    by (simp_all add: ethToWeth_def aliceContext_def contextChainId_def)
  from same_token_rejected [OF f t s, of demoWorld] u f t show ?thesis by (simp add: p)
qed

section \<open>The approval amount: the claim\<close>

lemma strIncludes_prefix: "strIncludes (part @ rest) part"
  unfolding strIncludes_def by (rule bexI [of _ 0]) simp_all

lemma zero_lower: "toLowerCase ''0'' \<noteq> ''unlimited'' \<and> toLowerCase ''0'' \<noteq> ''max''"
  by (simp add: toLowerCase_def)

text \<open>
  Claim C8. An amount that is \<^verbatim>\<open>unlimited\<close> or \<^verbatim>\<open>max\<close> up to case gives the amount
  \<open>2^256 - 1\<close>; the amount \<^verbatim>\<open>0\<close>, or \<^verbatim>\<open>revoke\<close> up to case, gives zero and a button text
  that contains \<^verbatim>\<open>Revoke\<close>; every other amount is parsed with \<^verbatim>\<open>parseUnits\<close> and the token's
  decimals. In a preparation that succeeds, the amount so computed, with the decimals read
  from the contract (or the resolver's when that read fails), is the one encoded in the
  \<^verbatim>\<open>approve\<close> call, and the button text is built from the amount shown.
\<close>

theorem approval_amount_forms:
  fixes c chainId tokenInfo
  defines "fetched \<equiv> fetchDecimalsAndSymbol (JsonRpcProvider (eth c) (getRpcUrl chainId))
                        (at_address tokenInfo) (at_decimals tokenInfo) (at_symbol tokenInfo)"
  shows
  "(toLowerCase amount = ''unlimited'' \<or> toLowerCase amount = ''max'' \<longrightarrow>
      approvalAmount e amount tokenDecimals = Inr (2 ^ 256 - 1, ''unlimited''))
   \<and> (amount = ''0'' \<or> toLowerCase amount = ''revoke'' \<longrightarrow>
      approvalAmount e amount tokenDecimals = Inr (0, ''0 (revoke)'')
      \<and> strIncludes (approveButtonText ''0 (revoke)'' tokenSymbol) ''Revoke'')
   \<and> (toLowerCase amount \<noteq> ''unlimited'' \<and> toLowerCase amount \<noteq> ''max''
        \<and> amount \<noteq> ''0'' \<and> toLowerCase amount \<noteq> ''revoke'' \<longrightarrow>
      approvalAmount e amount tokenDecimals =
        (case parseUnits e amount tokenDecimals of
           Inl err \<Rightarrow> Inl err
         | Inr amountWei \<Rightarrow> Inr (amountWei, amount)))
   \<and> (\<forall>tx buttonText w'.
        prepareApprove c chainId tokenInfo spenderAddress amount w = (Inr (tx, buttonText), w') \<longrightarrow>
        (\<exists>amountWei displayAmount.
           approvalAmount (eth c) amount (fst fetched) = Inr (amountWei, displayAmount)
           \<and> encodeFunctionData (eth c) (Erc20Approve spenderAddress amountWei) = Inr (ptx_data tx)
           \<and> buttonText = approveButtonText displayAmount (snd fetched)))"
proof -
  have 1: "approvalAmount e amount tokenDecimals = Inr (2 ^ 256 - 1, ''unlimited'')"
    if "toLowerCase amount = ''unlimited'' \<or> toLowerCase amount = ''max''"
    using that by (auto simp: approvalAmount_def MaxUint256_def)
  have 2: "approvalAmount e amount tokenDecimals = Inr (0, ''0 (revoke)'')"
    if "amount = ''0'' \<or> toLowerCase amount = ''revoke''"
    using that zero_lower by (auto simp: approvalAmount_def)
  have 3: "strIncludes (approveButtonText ''0 (revoke)'' tokenSymbol) ''Revoke''"
    using strIncludes_prefix [of "''Revoke''" "'' '' @ tokenSymbol @ '' approval''"]
    by (simp add: approveButtonText_def)
  have 4: "approvalAmount e amount tokenDecimals =
        (case parseUnits e amount tokenDecimals of
           Inl err \<Rightarrow> Inl err
         | Inr amountWei \<Rightarrow> Inr (amountWei, amount))"
    if "toLowerCase amount \<noteq> ''unlimited'' \<and> toLowerCase amount \<noteq> ''max''
        \<and> amount \<noteq> ''0'' \<and> toLowerCase amount \<noteq> ''revoke''"
    using that by (simp add: approvalAmount_def)
  have 5: "\<exists>amountWei displayAmount.
           approvalAmount (eth c) amount (fst fetched) = Inr (amountWei, displayAmount)
           \<and> encodeFunctionData (eth c) (Erc20Approve spenderAddress amountWei) = Inr (ptx_data tx)
           \<and> buttonText = approveButtonText displayAmount (snd fetched)"
    if "prepareApprove c chainId tokenInfo spenderAddress amount w = (Inr (tx, buttonText), w')"
    for tx buttonText w'
    using that unfolding prepareApprove_def fetched_def Let_def
    by (auto split: sum.splits prod.splits)
  from 1 2 3 4 5 show ?thesis by blast
qed

theorem approval_amount_forms_witness:
  "approvalAmount (spyEthers failingProvider) ''Unlimited'' 6 = Inr (2 ^ 256 - 1, ''unlimited'')
   \<and> approvalAmount (spyEthers failingProvider) ''0'' 6 = Inr (0, ''0 (revoke)'')
   \<and> strIncludes (approveButtonText ''0 (revoke)'' ''USDC'') ''Revoke''
   \<and> approvalAmount (spyEthers failingProvider) ''1'' 6 = Inr (1000000, ''1'')
   \<and> map (\<lambda>t. (tx_data t, tx_buttonText t)) (transactions (snd
         (approveHandler (demoCollaborators failingProvider) (approveUsdc ''Unlimited'')
            aliceContext demoWorld)))
       = [(''approve:max'', ''Approve unlimited USDC'')]
   \<and> map (\<lambda>t. (tx_data t, tx_buttonText t)) (transactions (snd
         (approveHandler (demoCollaborators failingProvider) (approveUsdc ''0'')
            aliceContext demoWorld)))
       = [(''approve:0'', ''Revoke USDC approval'')]"
proof -
  let ?e = "spyEthers failingProvider"
  have u: "toLowerCase ''Unlimited'' = ''unlimited''" by code_simp
  have o: "toLowerCase ''1'' \<noteq> ''unlimited'' \<and> toLowerCase ''1'' \<noteq> ''max''
        \<and> ''1'' \<noteq> ''0'' \<and> toLowerCase ''1'' \<noteq> ''revoke''" by code_simp
  have p: "parseUnits ?e ''1'' 6 = Inr 1000000" by code_simp
  have 1: "approvalAmount ?e ''Unlimited'' 6 = Inr (2 ^ 256 - 1, ''unlimited'')"
    using approval_amount_forms [of "''Unlimited''" ?e 6] u by blast
  have 2: "approvalAmount ?e ''0'' 6 = Inr (0, ''0 (revoke)'')
      \<and> strIncludes (approveButtonText ''0 (revoke)'' ''USDC'') ''Revoke''"
    using approval_amount_forms [of "''0''" ?e 6 "''USDC''"] by blast
  have 3: "approvalAmount ?e ''1'' 6 = Inr (1000000, ''1'')"
    using approval_amount_forms [of "''1''" ?e 6] o p by simp
  have 4: "map (\<lambda>t. (tx_data t, tx_buttonText t)) (transactions (snd
         (approveHandler (demoCollaborators failingProvider) (approveUsdc ''Unlimited'')
            aliceContext demoWorld)))
       = [(''approve:max'', ''Approve unlimited USDC'')]" by code_simp
  have 5: "map (\<lambda>t. (tx_data t, tx_buttonText t)) (transactions (snd
         (approveHandler (demoCollaborators failingProvider) (approveUsdc ''0'')
            aliceContext demoWorld)))
       = [(''approve:0'', ''Revoke USDC approval'')]" by code_simp
  from 1 2 3 4 5 show ?thesis by blast
qed

section \<open>The three handlers: stage by stage\<close>

subsection \<open>What a stage leaves as it was\<close>

lemma storeKept_refl [simp]: "storeKept w w"
  by (simp add: storeKept_def)

lemma storeKept_trans: "storeKept w w1 \<Longrightarrow> storeKept w1 w2 \<Longrightarrow> storeKept w w2"
  by (simp add: storeKept_def)

lemma storeKept_logCalls [simp]: "storeKept w (logCalls calls w)"
  by (simp add: storeKept_def logCalls_def)

lemma emitted_logCalls [simp]: "emitted (logCalls calls w) = emitted w"
  by (simp add: logCalls_def)

lemma transactions_logCalls [simp]: "transactions (logCalls calls w) = transactions w"
  by (simp add: logCalls_def)

lemma findUser_kept: "storeKept w w' \<Longrightarrow> findUser w' userAddr = findUser w userAddr"
  by (simp add: storeKept_def findUser_def)

lemma switchNetwork_kept:
  "switchNetwork c ctx userAddr network chainId w = (r, w') \<Longrightarrow>
   storeKept w w' \<and> published w' = published w"
  by (auto simp: switchNetwork_def storeKept_def published_def isPending_def Let_def
           split: option.splits if_splits)

lemma resolveRecipient_kept:
  "resolveRecipient c recipient userAddr chainId w = (r, w') \<Longrightarrow>
   storeKept w w' \<and> published w' = published w"
  by (auto simp: published_def resolveRecipient_def Let_def split: option.splits if_splits sum.splits)

lemma nativeTransfer_kept:
  "nativeTransfer c prov userAddr recipientAddress tokenInfo amount w = (r, w') \<Longrightarrow>
   storeKept w w' \<and> published w' = published w"
  by (auto simp: published_def nativeTransfer_def Let_def split: sum.splits if_splits)

lemma erc20Transfer_kept:
  "erc20Transfer c prov userAddr recipientAddress tokenInfo token amount w = (r, w') \<Longrightarrow>
   storeKept w w' \<and> published w' = published w"
  by (auto simp: published_def erc20Transfer_def Let_def storeKept_def logCalls_def
           split: sum.splits if_splits)

lemma prepareTransfer_kept:
  "prepareTransfer c chainId userAddr recipientAddress tokenInfo amount w = (r, w') \<Longrightarrow>
   storeKept w w' \<and> published w' = published w"
  by (auto simp: published_def prepareTransfer_def Let_def split: option.splits if_splits
           dest: nativeTransfer_kept erc20Transfer_kept)

lemma prepareApprove_kept:
  "prepareApprove c chainId tokenInfo spenderAddress amount w = (r, w') \<Longrightarrow>
   storeKept w w' \<and> published w' = published w"
  by (auto simp: published_def prepareApprove_def Let_def split: sum.splits prod.splits)

lemma checkSwapBalance_kept:
  "checkSwapBalance prov userAddr fromTok amountIn w = (r, w') \<Longrightarrow>
   storeKept w w' \<and> published w' = published w"
  by (auto simp: published_def checkSwapBalance_def Let_def split: sum.splits if_splits)

lemma selectQuotes_kept:
  "selectQuotes c prov chainId preferredDex fromTok toTok amountIn w = (r, w') \<Longrightarrow>
   storeKept w w' \<and> published w' = published w"
  by (auto simp: published_def selectQuotes_def Let_def
           split: prod.splits option.splits if_splits property.splits)

lemma finishSwap_kept:
  "finishSwap c prov chainId userAddr fromTok toTok amount amountIn bps bestQuote w = (r, w') \<Longrightarrow>
   storeKept w w' \<and> published w' = published w"
  by (auto simp: published_def finishSwap_def Let_def split: option.splits sum.splits if_splits)

subsection \<open>The balance checks\<close>

lemma nativeTransfer_check:
  assumes "parseEther (eth c) amount = Inr amountWei" and "getBalance prov userAddr = Inr balance"
  shows "nativeTransfer c prov userAddr recipientAddress tokenInfo amount w =
           (if balance < amountWei then Inl (InsufficientBalance balance amountWei)
            else (case toQuantity amountWei of
                    Inl err \<Rightarrow> Inl (Caught err)
                  | Inr quantity \<Rightarrow>
                      Inr (\<lparr> ptx_to = Some recipientAddress, ptx_value = quantity,
                             ptx_data = ''0x'' \<rparr>, ti_symbol tokenInfo)),
            logCalls [GetBalance userAddr] w)"
  using assms by (simp add: nativeTransfer_def Let_def split: sum.splits)

lemma nativeTransfer_rejects:
  assumes "nativeTransfer c prov userAddr recipientAddress tokenInfo amount w
             = (Inl (InsufficientBalance held required), w')"
  shows "parseEther (eth c) amount = Inr required \<and> getBalance prov userAddr = Inr held
     \<and> held < required"
  using assms by (auto simp: nativeTransfer_def Let_def split: sum.splits if_splits)

lemma erc20Transfer_check:
  assumes "parseUnits (eth c) amount
             (fst (fetchDecimalsAndSymbol prov token (ti_decimals tokenInfo) (ti_symbol tokenInfo)))
           = Inr amountWei"
    and "balanceOf prov token userAddr = Inr balance"
  shows "erc20Transfer c prov userAddr recipientAddress tokenInfo token amount w =
           (if balance < amountWei then Inl (InsufficientBalance balance amountWei)
            else (case encodeFunctionData (eth c) (Erc20Transfer recipientAddress amountWei) of
                    Inl err \<Rightarrow> Inl (Caught err)
                  | Inr transferData \<Rightarrow>
                      Inr (\<lparr> ptx_to = Some token, ptx_value = 0, ptx_data = transferData \<rparr>,
                           snd (fetchDecimalsAndSymbol prov token (ti_decimals tokenInfo)
                                  (ti_symbol tokenInfo)))),
            logCalls [BalanceOf token userAddr] (logCalls [DecimalsAndSymbol token] w))"
  using assms by (simp add: erc20Transfer_def Let_def split: sum.splits)

lemma erc20Transfer_rejects:
  assumes "erc20Transfer c prov userAddr recipientAddress tokenInfo token amount w
             = (Inl (InsufficientBalance held required), w')"
  shows "parseUnits (eth c) amount
           (fst (fetchDecimalsAndSymbol prov token (ti_decimals tokenInfo) (ti_symbol tokenInfo)))
         = Inr required
     \<and> balanceOf prov token userAddr = Inr held \<and> held < required"
  using assms by (auto simp: erc20Transfer_def Let_def split: sum.splits if_splits)

lemma checkSwapBalance_check:
  assumes "(if st_isNative fromTok then getBalance prov userAddr
            else balanceOf prov (st_address fromTok) userAddr) = Inr balance"
  shows "checkSwapBalance prov userAddr fromTok amountIn w =
           (if balance < amountIn then Some (InsufficientBalance balance amountIn) else None,
            logCalls [if st_isNative fromTok then GetBalance userAddr
                      else BalanceOf (st_address fromTok) userAddr] w)"
  using assms by (simp add: checkSwapBalance_def Let_def)

lemma checkSwapBalance_rejects:
  assumes "checkSwapBalance prov userAddr fromTok amountIn w
             = (Some (InsufficientBalance held required), w')"
  shows "required = amountIn
     \<and> (if st_isNative fromTok then getBalance prov userAddr
         else balanceOf prov (st_address fromTok) userAddr) = Inr held
     \<and> held < required"
  using assms by (auto simp: checkSwapBalance_def Let_def split: sum.splits if_splits)

lemma switchNetwork_no_reject:
  "switchNetwork c ctx userAddr network chainId w = (Inl f, w') \<Longrightarrow> \<not> isInsufficientBalance f"
  by (auto simp: switchNetwork_def isInsufficientBalance_def Let_def split: option.splits if_splits)

lemma selectQuotes_no_reject:
  "selectQuotes c prov chainId preferredDex fromTok toTok amountIn w = (Inl f, w') \<Longrightarrow>
   \<not> isInsufficientBalance f"
  by (auto simp: selectQuotes_def Let_def isInsufficientBalance_def
           split: prod.splits option.splits if_splits property.splits)

lemma finishSwap_no_reject:
  "finishSwap c prov chainId userAddr fromTok toTok amount amountIn bps bestQuote w = (Inl f, w') \<Longrightarrow>
   \<not> isInsufficientBalance f"
  by (auto simp: finishSwap_def Let_def isInsufficientBalance_def
           split: option.splits sum.splits if_splits)

lemma persistAndPublish_no_reject:
  "persistAndPublish c txType label chainId chat userAddr tx buttonText approval w = (Failure f, w')
   \<Longrightarrow> \<not> isInsufficientBalance f"
  by (auto simp: persistAndPublish_def Let_def isInsufficientBalance_def
           split: option.splits if_splits)

lemma rejection [simp]: "isInsufficientBalance (InsufficientBalance held required)"
  by (simp add: isInsufficientBalance_def)

subsection \<open>The common tail\<close>

lemma persistAndPublish_unpublished:
  fixes c w userAddr user chat txType chainId tx buttonText
  assumes "\<not> findUserFails c" and "findUser w userAddr = Some user" and "\<not> createFails c"
    and "publishFails c"
  defines "row \<equiv> \<lparr> tx_id = length (transactions w), tx_chatId = orEmpty chat,
                     tx_userId = user_id user, tx_type = txType, tx_status = ''pending'',
                     tx_chainId = chainId, tx_to = ptx_to tx, tx_value = ptx_value tx,
                     tx_data = ptx_data tx, tx_buttonText = buttonText \<rparr>"
  shows "\<exists>line. persistAndPublish c txType label chainId chat userAddr tx buttonText approval w
           = (Success row, w\<lparr> transactions := transactions w @ [row],
                               console := console w @ [line] \<rparr>)"
  using assms(1-4)
  by (auto simp: persistAndPublish_def publish_def publishFails_def Let_def row_def)

lemma persistAndPublish_row:
  assumes "persistAndPublish c txType label chainId chat userAddr tx buttonText approval w
             = (Success row, w')"
  shows "tx_to row = ptx_to tx \<and> tx_value row = ptx_value tx \<and> tx_data row = ptx_data tx
     \<and> tx_status row = ''pending'' \<and> transactions w' = transactions w @ [row]"
  using assms
  by (auto simp: persistAndPublish_def publish_def Let_def split: option.splits if_splits)

subsection \<open>The handlers as compositions of their stages\<close>

lemma transferHandler_reached:
  assumes "userAddress ctx = Some userAddr" and "userAddr \<noteq> []"
    and "switchNetwork c ctx userAddr (tp_network params) (contextChainId ctx) w = (Inr chainId, w1)"
    and "resolveRecipient c (tp_to params) userAddr chainId w1 = (Inr recipient, w2)"
    and "resolveToken_transfer (eth c) TOKEN_ALIASES_transfer TOKENS (tp_token params) chainId
           = Inr tokenInfo"
  shows "transferHandler c params ctx w =
           (case prepareTransfer c chainId userAddr (r_address recipient) tokenInfo
                   (tp_amount params) w2 of
              (Inl f, w3) \<Rightarrow> (Failure f, w3)
            | (Inr (tx, tokenSymbol), w3) \<Rightarrow>
                persistAndPublish c ''transfer'' ''Failed to emit transaction request: '' chainId
                  (chatId ctx) userAddr tx (''Send '' @ tp_amount params @ '' '' @ tokenSymbol)
                  None w3)"
  using assms by (simp add: transferHandler_def)

lemma transferHandler_rejected:
  assumes "transferHandler c params ctx w = (Failure (InsufficientBalance held required), w')"
  shows "\<exists>userAddr chainId w1 recipient w2 tokenInfo.
           userAddress ctx = Some userAddr \<and> userAddr \<noteq> []
           \<and> switchNetwork c ctx userAddr (tp_network params) (contextChainId ctx) w
                = (Inr chainId, w1)
           \<and> resolveRecipient c (tp_to params) userAddr chainId w1 = (Inr recipient, w2)
           \<and> resolveToken_transfer (eth c) TOKEN_ALIASES_transfer TOKENS (tp_token params) chainId
                = Inr tokenInfo
           \<and> prepareTransfer c chainId userAddr (r_address recipient) tokenInfo
                (tp_amount params) w2 = (Inl (InsufficientBalance held required), w')"
  using assms unfolding transferHandler_def
  by (auto split: option.splits if_splits prod.splits sum.splits
           dest: switchNetwork_no_reject persistAndPublish_no_reject)

lemma swapBody_reached:
  assumes "resolveToken_swap (eth c) TOKEN_ALIASES_swap TOKENS (sw_fromToken params)
             (contextChainId ctx) = Inr (Some fromTok)"
    and "resolveToken_swap (eth c) TOKEN_ALIASES_swap TOKENS (sw_toToken params)
             (contextChainId ctx) = Inr (Some toTok)"
    and "toLowerCase (st_address fromTok) \<noteq> toLowerCase (st_address toTok)"
    and "parseUnits (eth c) (sw_amount params) (st_decimals fromTok) = Inr amountIn"
  shows "swapBody c params ctx userAddr w =
           (case checkSwapBalance (JsonRpcProvider (eth c) (getRpcUrl (contextChainId ctx)))
                   userAddr fromTok amountIn w of
              (Some f, w1) \<Rightarrow> (Failure f, w1)
            | (None, w1) \<Rightarrow>
                (case selectQuotes c (JsonRpcProvider (eth c) (getRpcUrl (contextChainId ctx)))
                        (contextChainId ctx) (sw_dex params) fromTok toTok amountIn w1 of
                   (Inl f, w2) \<Rightarrow> (Failure f, w2)
                 | (Inr [], w2) \<Rightarrow> (Failure NoLiquidity, w2)
                 | (Inr (bestQuote # others), w2) \<Rightarrow>
                     (case finishSwap c (JsonRpcProvider (eth c) (getRpcUrl (contextChainId ctx)))
                             (contextChainId ctx) userAddr fromTok toTok (sw_amount params)
                             amountIn (slippageBps (js c) (sw_slippage params)) bestQuote w2 of
                        (Inl f, w3) \<Rightarrow> (Failure f, w3)
                      | (Inr (swapTx, buttonText, approval), w3) \<Rightarrow>
                          persistAndPublish c ''swap'' ''Failed to emit swap request: ''
                            (contextChainId ctx) (chatId ctx) userAddr swapTx buttonText
                            approval w3)))"
  using assms by (simp add: swapBody_def Let_def)

lemma swapHandler_body:
  assumes "userAddress ctx = Some userAddr" and "userAddr \<noteq> []"
  shows "swapHandler c params ctx w =
           (case swapBody c params ctx userAddr w of
              (Failure (Caught err), w') \<Rightarrow>
                (Failure (Caught err), w'\<lparr> console := console w' @ [''Swap error:''] \<rparr>)
            | (r, w') \<Rightarrow> (r, w'))"
  using assms by (simp add: swapHandler_def)

lemma swapHandler_passes:
  assumes "userAddress ctx = Some userAddr" and "userAddr \<noteq> []"
    and "swapBody c params ctx userAddr w = (r, w')" and "\<forall>err. r \<noteq> Failure (Caught err)"
  shows "swapHandler c params ctx w = (r, w')"
  using assms by (auto simp: swapHandler_def split: result.splits failure.splits)

lemma swapHandler_from_body:
  assumes "swapHandler c params ctx w = (r, w')" and "\<forall>err. r \<noteq> Failure (Caught err)"
    and "r \<noteq> Failure NoUserAddress"
  shows "\<exists>userAddr. userAddress ctx = Some userAddr \<and> userAddr \<noteq> []
            \<and> swapBody c params ctx userAddr w = (r, w')"
  using assms
  by (auto simp: swapHandler_def split: option.splits if_splits prod.splits result.splits
                 failure.splits)

lemma swapBody_rejected:
  assumes "swapBody c params ctx userAddr w = (Failure (InsufficientBalance held required), w')"
  shows "\<exists>fromTok toTok amountIn.
           resolveToken_swap (eth c) TOKEN_ALIASES_swap TOKENS (sw_fromToken params)
             (contextChainId ctx) = Inr (Some fromTok)
           \<and> resolveToken_swap (eth c) TOKEN_ALIASES_swap TOKENS (sw_toToken params)
             (contextChainId ctx) = Inr (Some toTok)
           \<and> toLowerCase (st_address fromTok) \<noteq> toLowerCase (st_address toTok)
           \<and> parseUnits (eth c) (sw_amount params) (st_decimals fromTok) = Inr amountIn
           \<and> checkSwapBalance (JsonRpcProvider (eth c) (getRpcUrl (contextChainId ctx)))
                userAddr fromTok amountIn w = (Some (InsufficientBalance held required), w')"
  using assms unfolding swapBody_def Let_def
  by (auto split: option.splits if_splits prod.splits sum.splits list.splits
           dest: selectQuotes_no_reject finishSwap_no_reject persistAndPublish_no_reject)

lemma approveHandler_reached:
  assumes "userAddress ctx = Some userAddr" and "userAddr \<noteq> []"
    and "resolveToken_approve (eth c) TOKEN_ALIASES_approve TOKENS (ap_token params)
           (contextChainId ctx) = Inr tokenInfo"
    and "resolveSpender (eth c) (ap_spender params) (contextChainId ctx) = Inr spender"
  shows "approveHandler c params ctx w =
           (case prepareApprove c (contextChainId ctx) tokenInfo (sp_address spender)
                   (ap_amount params) w of
              (Inl f, w1) \<Rightarrow> (Failure f, w1)
            | (Inr (tx, buttonText), w1) \<Rightarrow>
                persistAndPublish c ''approve'' ''Failed to emit approval request: ''
                  (contextChainId ctx) (chatId ctx) userAddr tx buttonText None w1)"
  using assms by (simp add: approveHandler_def Let_def)

lemma swallowed_tail:
  assumes "storeKept w wp \<and> published wp = published w"
    and "\<not> findUserFails c" and "findUser w userAddr = Some user" and "\<not> createFails c"
    and "publishFails c"
  shows "swallowed w tx
           (persistAndPublish c txType label chainId chat userAddr tx buttonText approval wp)"
proof -
  from assms(1) have "storeKept w wp" by simp
  with assms(3) have u: "findUser wp userAddr = Some user" by (simp add: findUser_kept)
  from persistAndPublish_unpublished [OF assms(2) u assms(4,5)]
  obtain line where
    "persistAndPublish c txType label chainId chat userAddr tx buttonText approval wp
       = (Success \<lparr> tx_id = length (transactions wp), tx_chatId = orEmpty chat,
                     tx_userId = user_id user, tx_type = txType, tx_status = ''pending'',
                     tx_chainId = chainId, tx_to = ptx_to tx, tx_value = ptx_value tx,
                     tx_data = ptx_data tx, tx_buttonText = buttonText \<rparr>,
          wp\<lparr> transactions := transactions wp
                  @ [\<lparr> tx_id = length (transactions wp), tx_chatId = orEmpty chat,
                       tx_userId = user_id user, tx_type = txType, tx_status = ''pending'',
                       tx_chainId = chainId, tx_to = ptx_to tx, tx_value = ptx_value tx,
                       tx_data = ptx_data tx, tx_buttonText = buttonText \<rparr>],
              console := console wp @ [line] \<rparr>)"
    by blast
  with assms(1) show ?thesis
    by (simp add: swallowed_def storeKept_def published_def)
qed

lemma paired: "fst p = a \<Longrightarrow> p = (a, snd p)"
  by (cases p) simp

lemma prepareTransfer_native:
  assumes "ti_address tokenInfo = None \<or> ti_address tokenInfo = Some []"
  shows "prepareTransfer c chainId userAddr recipientAddress tokenInfo amount w =
           nativeTransfer c (JsonRpcProvider (eth c) (getRpcUrl chainId)) userAddr
             recipientAddress tokenInfo amount w"
  using assms by (auto simp: prepareTransfer_def Let_def)

lemma prepareTransfer_erc20:
  assumes "ti_address tokenInfo = Some token" and "token \<noteq> []"
  shows "prepareTransfer c chainId userAddr recipientAddress tokenInfo amount w =
           erc20Transfer c (JsonRpcProvider (eth c) (getRpcUrl chainId)) userAddr
             recipientAddress tokenInfo token amount w"
  using assms by (simp add: prepareTransfer_def Let_def)

lemma prepareTransfer_rejects:
  assumes "prepareTransfer c chainId userAddr recipientAddress tokenInfo amount w
             = (Inl (InsufficientBalance held required), w')"
  shows "((ti_address tokenInfo = None \<or> ti_address tokenInfo = Some [])
          \<and> parseEther (eth c) amount = Inr required
          \<and> getBalance (JsonRpcProvider (eth c) (getRpcUrl chainId)) userAddr = Inr held)
       \<or> (\<exists>token. ti_address tokenInfo = Some token \<and> token \<noteq> []
             \<and> parseUnits (eth c) amount
                 (fst (fetchDecimalsAndSymbol (JsonRpcProvider (eth c) (getRpcUrl chainId)) token
                         (ti_decimals tokenInfo) (ti_symbol tokenInfo))) = Inr required
             \<and> balanceOf (JsonRpcProvider (eth c) (getRpcUrl chainId)) token userAddr = Inr held)"
    and "held < required"
proof -
  consider (native) "ti_address tokenInfo = None \<or> ti_address tokenInfo = Some []"
    | (erc20) token where "ti_address tokenInfo = Some token" "token \<noteq> []"
    by (cases "ti_address tokenInfo") auto
  then have "(((ti_address tokenInfo = None \<or> ti_address tokenInfo = Some [])
          \<and> parseEther (eth c) amount = Inr required
          \<and> getBalance (JsonRpcProvider (eth c) (getRpcUrl chainId)) userAddr = Inr held)
       \<or> (\<exists>token. ti_address tokenInfo = Some token \<and> token \<noteq> []
             \<and> parseUnits (eth c) amount
                 (fst (fetchDecimalsAndSymbol (JsonRpcProvider (eth c) (getRpcUrl chainId)) token
                         (ti_decimals tokenInfo) (ti_symbol tokenInfo))) = Inr required
             \<and> balanceOf (JsonRpcProvider (eth c) (getRpcUrl chainId)) token userAddr = Inr held))
       \<and> held < required"
  proof cases
    case native
    from assms [unfolded prepareTransfer_native [OF native]]
    have "parseEther (eth c) amount = Inr required
        \<and> getBalance (JsonRpcProvider (eth c) (getRpcUrl chainId)) userAddr = Inr held
        \<and> held < required"
      by (rule nativeTransfer_rejects)
    with native show ?thesis by blast
  next
    case erc20
    from assms [unfolded prepareTransfer_erc20 [OF erc20]]
    have "parseUnits (eth c) amount
                 (fst (fetchDecimalsAndSymbol (JsonRpcProvider (eth c) (getRpcUrl chainId)) token
                         (ti_decimals tokenInfo) (ti_symbol tokenInfo))) = Inr required
        \<and> balanceOf (JsonRpcProvider (eth c) (getRpcUrl chainId)) token userAddr = Inr held
        \<and> held < required"
      by (rule erc20Transfer_rejects)
    with erc20 show ?thesis by blast
  qed
  then show "((ti_address tokenInfo = None \<or> ti_address tokenInfo = Some [])
          \<and> parseEther (eth c) amount = Inr required
          \<and> getBalance (JsonRpcProvider (eth c) (getRpcUrl chainId)) userAddr = Inr held)
       \<or> (\<exists>token. ti_address tokenInfo = Some token \<and> token \<noteq> []
             \<and> parseUnits (eth c) amount
                 (fst (fetchDecimalsAndSymbol (JsonRpcProvider (eth c) (getRpcUrl chainId)) token
                         (ti_decimals tokenInfo) (ti_symbol tokenInfo))) = Inr required
             \<and> balanceOf (JsonRpcProvider (eth c) (getRpcUrl chainId)) token userAddr = Inr held)"
    and "held < required" by blast+
qed

lemma persist_not_rejected:
  "\<not> rejected (persistAndPublish c txType label chainId chat userAddr tx buttonText approval w)"
proof -
  obtain r w' where p: "persistAndPublish c txType label chainId chat userAddr tx buttonText approval w = (r, w')"
    by force
  show ?thesis
    unfolding p using persistAndPublish_no_reject [of c txType label chainId chat userAddr tx buttonText approval w _ w']
    by (cases r) (auto simp: rejected_def p)
qed

lemma rejected_simps [simp]:
  "rejected (Failure (InsufficientBalance held required), w')"
  "\<not> rejected (Failure (Caught err), w')"
  "\<not> rejected (Failure NoLiquidity, w')"
  "\<not> rejected (Success row, w')"
  by (simp_all add: rejected_def isInsufficientBalance_def)

lemma transfer_passed:
  assumes "userAddress ctx = Some userAddr" and "userAddr \<noteq> []"
    and "switchNetwork c ctx userAddr (tp_network params) (contextChainId ctx) w = (Inr chainId, w1)"
    and "resolveRecipient c (tp_to params) userAddr chainId w1 = (Inr recipient, w2)"
    and "resolveToken_transfer (eth c) TOKEN_ALIASES_transfer TOKENS (tp_token params) chainId
           = Inr tokenInfo"
    and "prepareTransfer c chainId userAddr (r_address recipient) tokenInfo (tp_amount params) w2
           = (p, w3)"
    and "\<forall>held required. p \<noteq> Inl (InsufficientBalance held required)"
  shows "\<not> rejected (transferHandler c params ctx w)"
proof (cases p)
  case (Inl f)
  with assms(7) have "\<not> isInsufficientBalance f"
    by (cases f) (auto simp: isInsufficientBalance_def)
  with Inl show ?thesis
    by (simp add: transferHandler_reached [OF assms(1-5)] assms(6) rejected_def)
next
  case (Inr b)
  then show ?thesis
    by (cases b) (simp add: transferHandler_reached [OF assms(1-5)] assms(6) persist_not_rejected)
qed

lemma swap_passed:
  assumes "userAddress ctx = Some userAddr" and "userAddr \<noteq> []"
    and "resolveToken_swap (eth c) TOKEN_ALIASES_swap TOKENS (sw_fromToken params)
           (contextChainId ctx) = Inr (Some fromTok)"
    and "resolveToken_swap (eth c) TOKEN_ALIASES_swap TOKENS (sw_toToken params)
           (contextChainId ctx) = Inr (Some toTok)"
    and "toLowerCase (st_address fromTok) \<noteq> toLowerCase (st_address toTok)"
    and "parseUnits (eth c) (sw_amount params) (st_decimals fromTok) = Inr amountIn"
    and "checkSwapBalance (JsonRpcProvider (eth c) (getRpcUrl (contextChainId ctx))) userAddr
           fromTok amountIn w = (None, w1)"
  shows "\<not> rejected (swapHandler c params ctx w)"
proof
  assume r: "rejected (swapHandler c params ctx w)"
  obtain out w' where h: "swapHandler c params ctx w = (out, w')" by force
  with r obtain held required where f: "out = Failure (InsufficientBalance held required)"
    by (cases out; cases "case out of Failure f \<Rightarrow> f")
       (auto simp: rejected_def isInsufficientBalance_def split: failure.splits)
  from swapHandler_from_body [OF h [unfolded f]]
  have "swapBody c params ctx userAddr w = (Failure (InsufficientBalance held required), w')"
    using assms(1) by auto
  from swapBody_rejected [OF this] assms(3,4,6,7) show False by auto
qed

subsection \<open>The slippage bound\<close>

lemma nearestDouble_exact: "\<bar>x\<bar> \<le> 2 ^ 53 \<Longrightarrow> nearestDouble x = Some x"
  by (simp add: nearestDouble_def)

lemma bigintDiv_nonneg: "0 \<le> a \<Longrightarrow> 0 < b \<Longrightarrow> bigintDiv a b = a div b"
  by (cases "a = 0") (simp_all add: bigintDiv_def)

lemma amountOutMin_exact:
  assumes "0 \<le> bestAmountOut" and "0 \<le> bps" and "bps < 10000"
  shows "amountOutMin bestAmountOut (Some bps) = Inr ((bestAmountOut * (10000 - bps)) div 10000)"
proof -
  from assms have "\<bar>10000 - bps\<bar> \<le> 2 ^ 53" by simp
  then have d: "nearestDouble (10000 - bps) = Some (10000 - bps)" by (rule nearestDouble_exact)
  from assms have "0 \<le> bestAmountOut * (10000 - bps)" by simp
  then show ?thesis by (simp add: amountOutMin_def d bigintDiv_nonneg)
qed

lemma getAllQuotes_positive:
  assumes "q \<in> set (fst (getAllQuotes e prov chainId tokenIn tokenOut amountIn dec))"
  shows "0 < amountOut q"
proof -
  have "set (fst (getAllQuotes e prov chainId tokenIn tokenOut amountIn dec))
      = set (fst (collectQuotes e prov chainId tokenIn tokenOut amountIn dec
                    (getDexesForChain chainId)))"
    unfolding getAllQuotes_fst by (rule mset_eq_setD) (rule arraySort_mset)
  with assms show ?thesis by (auto dest: collectQuotes_positive)
qed

lemma selectQuotes_positive:
  assumes "selectQuotes c prov chainId preferredDex fromTok toTok amountIn w = (Inr qs, w')"
    and "q \<in> set qs"
  shows "0 < amountOut q"
proof -
  from assms have "q \<in> set (fst (getAllQuotes (eth c) prov chainId (st_address fromTok)
                                    (st_address toTok) amountIn (st_decimals toTok)))"
    by (auto simp: selectQuotes_def Let_def
             split: prod.splits option.splits if_splits property.splits)
  then show ?thesis by (rule getAllQuotes_positive)
qed

lemma finishSwap_built:
  assumes "finishSwap c prov chainId userAddr fromTok toTok amount amountIn bps bestQuote w
             = (Inr (swapTx, buttonText, approval), w')"
    and "amountOutMin (amountOut bestQuote) bps = Inr minOut"
  shows "buildSwapTransaction (eth c) (dex bestQuote) chainId fromTok toTok amountIn minOut
           userAddr (dateNow (js c) div 1000 + SWAP_DEADLINE_SECONDS) = Inr swapTx"
  using assms
  by (auto simp: finishSwap_def Let_def split: sum.splits if_splits)
section \<open>A publish that fails after the row is saved\<close>

text \<open>
  Claim C7. Take a request of a connected user who is in the data store, handled while
  the publish cannot succeed (the socket server is missing, or \<^verbatim>\<open>emit\<close> throws) and the
  store accepts the read of the user and the write of the row. If the transfer, the
  approval or the swap was prepared (every stage before the row is saved returned its
  result), the handler returns success: the table is the table before the request followed
  by one new row with status \<^verbatim>\<open>pending\<close> that carries the prepared transaction, so nothing is
  rolled back; no pending transaction was published; and exactly one line was printed.
\<close>

theorem publish_failure_swallowed:
  fixes c :: collaborators and ctx :: ToolContext and w :: world
    and transfer :: TransferParams and approve :: ApproveParams and swap :: SwapParams
  assumes "publishFails c" and "\<not> findUserFails c" and "\<not> createFails c"
    and "userAddress ctx = Some userAddr" and "userAddr \<noteq> []"
    and "findUser w userAddr = Some user"
  shows
  "(switchNetwork c ctx userAddr (tp_network transfer) (contextChainId ctx) w = (Inr chainId, w1)
      \<and> resolveRecipient c (tp_to transfer) userAddr chainId w1 = (Inr recipient, w2)
      \<and> resolveToken_transfer (eth c) TOKEN_ALIASES_transfer TOKENS (tp_token transfer) chainId
           = Inr tokenInfo
      \<and> prepareTransfer c chainId userAddr (r_address recipient) tokenInfo (tp_amount transfer) w2
           = (Inr (transferTx, tokenSymbol), w3)
      \<longrightarrow> swallowed w transferTx (transferHandler c transfer ctx w))
   \<and> (resolveToken_approve (eth c) TOKEN_ALIASES_approve TOKENS (ap_token approve)
           (contextChainId ctx) = Inr approveToken
      \<and> resolveSpender (eth c) (ap_spender approve) (contextChainId ctx) = Inr spender
      \<and> prepareApprove c (contextChainId ctx) approveToken (sp_address spender)
           (ap_amount approve) w = (Inr (approveTx, approveText), a1)
      \<longrightarrow> swallowed w approveTx (approveHandler c approve ctx w))
   \<and> (resolveToken_swap (eth c) TOKEN_ALIASES_swap TOKENS (sw_fromToken swap)
           (contextChainId ctx) = Inr (Some fromTok)
      \<and> resolveToken_swap (eth c) TOKEN_ALIASES_swap TOKENS (sw_toToken swap)
           (contextChainId ctx) = Inr (Some toTok)
      \<and> toLowerCase (st_address fromTok) \<noteq> toLowerCase (st_address toTok)
      \<and> parseUnits (eth c) (sw_amount swap) (st_decimals fromTok) = Inr amountIn
      \<and> checkSwapBalance (JsonRpcProvider (eth c) (getRpcUrl (contextChainId ctx))) userAddr
           fromTok amountIn w = (None, s1)
      \<and> selectQuotes c (JsonRpcProvider (eth c) (getRpcUrl (contextChainId ctx)))
           (contextChainId ctx) (sw_dex swap) fromTok toTok amountIn s1
           = (Inr (bestQuote # others), s2)
      \<and> finishSwap c (JsonRpcProvider (eth c) (getRpcUrl (contextChainId ctx)))
           (contextChainId ctx) userAddr fromTok toTok (sw_amount swap) amountIn
           (slippageBps (js c) (sw_slippage swap)) bestQuote s2
           = (Inr (swapTx, swapText, approval), s3)
      \<longrightarrow> swallowed w swapTx (swapHandler c swap ctx w))"
proof -
  note tail = swallowed_tail [OF _ assms(2) assms(6) assms(3) assms(1)]
  have t: "swallowed w transferTx (transferHandler c transfer ctx w)"
    if 1: "switchNetwork c ctx userAddr (tp_network transfer) (contextChainId ctx) w
             = (Inr chainId, w1)"
      and 2: "resolveRecipient c (tp_to transfer) userAddr chainId w1 = (Inr recipient, w2)"
      and 3: "resolveToken_transfer (eth c) TOKEN_ALIASES_transfer TOKENS (tp_token transfer)
                chainId = Inr tokenInfo"
      and 4: "prepareTransfer c chainId userAddr (r_address recipient) tokenInfo
                (tp_amount transfer) w2 = (Inr (transferTx, tokenSymbol), w3)"
  proof -
    have k: "storeKept w w3 \<and> published w3 = published w"
      using switchNetwork_kept [OF 1] resolveRecipient_kept [OF 2] prepareTransfer_kept [OF 4]
      by (auto intro: storeKept_trans)
    show ?thesis
      using tail [OF k] by (simp add: transferHandler_reached [OF assms(4,5) 1 2 3] 4)
  qed
  have a: "swallowed w approveTx (approveHandler c approve ctx w)"
    if 1: "resolveToken_approve (eth c) TOKEN_ALIASES_approve TOKENS (ap_token approve)
             (contextChainId ctx) = Inr approveToken"
      and 2: "resolveSpender (eth c) (ap_spender approve) (contextChainId ctx) = Inr spender"
      and 3: "prepareApprove c (contextChainId ctx) approveToken (sp_address spender)
                (ap_amount approve) w = (Inr (approveTx, approveText), a1)"
  proof -
    have k: "storeKept w a1 \<and> published a1 = published w"
      using prepareApprove_kept [OF 3] .
    show ?thesis
      using tail [OF k] by (simp add: approveHandler_reached [OF assms(4,5) 1 2] 3)
  qed
  have s: "swallowed w swapTx (swapHandler c swap ctx w)"
    if 1: "resolveToken_swap (eth c) TOKEN_ALIASES_swap TOKENS (sw_fromToken swap)
             (contextChainId ctx) = Inr (Some fromTok)"
      and 2: "resolveToken_swap (eth c) TOKEN_ALIASES_swap TOKENS (sw_toToken swap)
                (contextChainId ctx) = Inr (Some toTok)"
      and 3: "toLowerCase (st_address fromTok) \<noteq> toLowerCase (st_address toTok)"
      and 4: "parseUnits (eth c) (sw_amount swap) (st_decimals fromTok) = Inr amountIn"
      and 5: "checkSwapBalance (JsonRpcProvider (eth c) (getRpcUrl (contextChainId ctx))) userAddr
                fromTok amountIn w = (None, s1)"
      and 6: "selectQuotes c (JsonRpcProvider (eth c) (getRpcUrl (contextChainId ctx)))
                (contextChainId ctx) (sw_dex swap) fromTok toTok amountIn s1
                = (Inr (bestQuote # others), s2)"
      and 7: "finishSwap c (JsonRpcProvider (eth c) (getRpcUrl (contextChainId ctx)))
                (contextChainId ctx) userAddr fromTok toTok (sw_amount swap) amountIn
                (slippageBps (js c) (sw_slippage swap)) bestQuote s2
                = (Inr (swapTx, swapText, approval), s3)"
  proof -
    have k: "storeKept w s3 \<and> published s3 = published w"
      using checkSwapBalance_kept [OF 5] selectQuotes_kept [OF 6] finishSwap_kept [OF 7]
      by (auto intro: storeKept_trans)
    let ?out = "persistAndPublish c ''swap'' ''Failed to emit swap request: ''
                  (contextChainId ctx) (chatId ctx) userAddr swapTx swapText approval s3"
    have body: "swapBody c swap ctx userAddr w = ?out"
      by (simp add: swapBody_reached [OF 1 2 3 4] 5 6 7)
    have sw: "swallowed w swapTx ?out" by (rule tail [OF k])
    then obtain row w' where out: "?out = (Success row, w')"
      by (cases ?out) (auto simp: swallowed_def split: result.splits)
    have "swapHandler c swap ctx w = (Success row, w')"
      using swapHandler_passes [OF assms(4,5) body [unfolded out]] by simp
    with sw out show ?thesis by simp
  qed
  from t a s show ?thesis by blast
qed

text \<open>
  A transfer and a swap with the socket server missing, and an approval with an \<^verbatim>\<open>emit\<close>
  that throws.
\<close>

theorem publish_failure_swallowed_witness:
  "publishFails (offline lowTierProvider) \<and> publishFails (emitThrows lowTierProvider)
   \<and> swallowed demoWorld \<lparr> ptx_to = Some bob, ptx_value = 10 ^ 18, ptx_data = ''0x'' \<rparr>
        (transferHandler (offline lowTierProvider) (transferTo bob None) aliceContext demoWorld)
   \<and> map tx_status (transactions (snd
         (transferHandler (offline lowTierProvider) (transferTo bob None) aliceContext demoWorld)))
       = [''pending'']
   \<and> console (snd
         (transferHandler (offline lowTierProvider) (transferTo bob None) aliceContext demoWorld))
       = [''Failed to emit transaction request: Socket.IO not initialized'']
   \<and> swallowed demoWorld \<lparr> ptx_to = Some USDC1, ptx_value = 0, ptx_data = ''approve:max'' \<rparr>
        (approveHandler (emitThrows lowTierProvider) (approveUsdc ''max'') aliceContext demoWorld)
   \<and> console (snd
         (approveHandler (emitThrows lowTierProvider) (approveUsdc ''max'') aliceContext demoWorld))
       = [''Failed to emit approval request: emit'']
   \<and> swallowed demoWorld
        \<lparr> ptx_to = Some ''0x68b3465833fb72A70ecDF485E0e4C7bD8665Fc45'', ptx_value = 10 ^ 18,
          ptx_data = ''multicall:fee=3000'' \<rparr>
        (swapHandler (offline lowTierProvider) ethToUsdc aliceContext demoWorld)
   \<and> console (snd (swapHandler (offline lowTierProvider) ethToUsdc aliceContext demoWorld))
       = [''Failed to emit swap request: Socket.IO not initialized'']"
proof -
  let ?off = "offline lowTierProvider"
  let ?thr = "emitThrows lowTierProvider"
  let ?user = "\<lparr> user_id = ''u1'', user_address = alice,
                 contacts = [\<lparr> contact_name = ''Bob'', contact_address = bob, deletedAt = None \<rparr>] \<rparr>"
  let ?eth = "\<lparr> ti_address = None, ti_symbol = ''ETH'', ti_decimals = 18 \<rparr>"
  let ?ttx = "\<lparr> ptx_to = Some bob, ptx_value = 10 ^ 18, ptx_data = ''0x'' \<rparr>"
  let ?usdc = "\<lparr> at_address = USDC1, at_symbol = ''USDC'', at_decimals = 6 \<rparr>"
  let ?sp = "\<lparr> sp_address = ''0x68b3465833fb72A70ecDF485E0e4C7bD8665Fc45'',
               protocol = Some ''uniswap'' \<rparr>"
  let ?atx = "\<lparr> ptx_to = Some USDC1, ptx_value = 0, ptx_data = ''approve:max'' \<rparr>"
  let ?from = "\<lparr> st_address = WETH1, st_symbol = ''ETH'', st_decimals = 18, st_isNative = True \<rparr>"
  let ?to = "\<lparr> st_address = USDC1, st_symbol = ''USDC'', st_decimals = 6, st_isNative = False \<rparr>"
  let ?best = "\<lparr> dex = UNISWAP, amountOut = 2000, amountOutFormatted = ''formatted'' \<rparr>"
  let ?stx = "\<lparr> ptx_to = Some ''0x68b3465833fb72A70ecDF485E0e4C7bD8665Fc45'', ptx_value = 10 ^ 18,
                ptx_data = ''multicall:fee=3000'' \<rparr>"
  have off: "publishFails ?off" "\<not> findUserFails ?off" "\<not> createFails ?off" by code_simp+
  have thr: "publishFails ?thr" "\<not> findUserFails ?thr" "\<not> createFails ?thr" by code_simp+
  have ua: "userAddress aliceContext = Some alice" "alice \<noteq> []"
    by (simp_all add: aliceContext_def alice_def)
  have fu: "findUser demoWorld alice = Some ?user" by code_simp
  have chain: "contextChainId aliceContext = 1" by code_simp

  have t1: "switchNetwork ?off aliceContext alice (tp_network (transferTo bob None))
              (contextChainId aliceContext) demoWorld = (Inr 1, demoWorld)" by code_simp
  have t2: "resolveRecipient ?off (tp_to (transferTo bob None)) alice 1 demoWorld
              = (Inr \<lparr> r_address = bob, resolvedFrom = None \<rparr>, demoWorld)" by code_simp
  have t3: "resolveToken_transfer (eth ?off) TOKEN_ALIASES_transfer TOKENS
              (tp_token (transferTo bob None)) 1 = Inr ?eth" by code_simp
  have t4: "fst (prepareTransfer ?off 1 alice (r_address \<lparr> r_address = bob, resolvedFrom = None \<rparr>)
                   ?eth (tp_amount (transferTo bob None)) demoWorld) = Inr (?ttx, ''ETH'')"
    by code_simp
  note t = publish_failure_swallowed [OF off ua fu, THEN conjunct1, THEN mp,
             OF conjI [OF t1 conjI [OF t2 conjI [OF t3 paired [OF t4]]]]]
  have tc: "console (snd (transferHandler ?off (transferTo bob None) aliceContext demoWorld))
       = [''Failed to emit transaction request: Socket.IO not initialized'']" by code_simp
  have ts: "map tx_status (transactions (snd
         (transferHandler ?off (transferTo bob None) aliceContext demoWorld))) = [''pending'']"
    by code_simp

  have a1: "resolveToken_approve (eth ?thr) TOKEN_ALIASES_approve TOKENS
              (ap_token (approveUsdc ''max'')) (contextChainId aliceContext) = Inr ?usdc"
    by code_simp
  have a2: "resolveSpender (eth ?thr) (ap_spender (approveUsdc ''max''))
              (contextChainId aliceContext) = Inr ?sp" by code_simp
  have a3: "fst (prepareApprove ?thr (contextChainId aliceContext) ?usdc (sp_address ?sp)
                   (ap_amount (approveUsdc ''max'')) demoWorld)
              = Inr (?atx, ''Approve unlimited USDC'')" by code_simp
  note a = publish_failure_swallowed [OF thr ua fu, THEN conjunct2, THEN conjunct1, THEN mp,
             OF conjI [OF a1 conjI [OF a2 paired [OF a3]]]]
  have ac: "console (snd (approveHandler ?thr (approveUsdc ''max'') aliceContext demoWorld))
       = [''Failed to emit approval request: emit'']" by code_simp

  let ?prov = "JsonRpcProvider (eth ?off) (getRpcUrl (contextChainId aliceContext))"
  let ?s1 = "snd (checkSwapBalance ?prov alice ?from (10 ^ 18) demoWorld)"
  let ?s2 = "snd (selectQuotes ?off ?prov (contextChainId aliceContext) (sw_dex ethToUsdc)
                    ?from ?to (10 ^ 18) ?s1)"
  have s1: "resolveToken_swap (eth ?off) TOKEN_ALIASES_swap TOKENS (sw_fromToken ethToUsdc)
              (contextChainId aliceContext) = Inr (Some ?from)" by code_simp
  have s2: "resolveToken_swap (eth ?off) TOKEN_ALIASES_swap TOKENS (sw_toToken ethToUsdc)
              (contextChainId aliceContext) = Inr (Some ?to)" by code_simp
  have s3: "toLowerCase (st_address ?from) \<noteq> toLowerCase (st_address ?to)" by code_simp
  have s4: "parseUnits (eth ?off) (sw_amount ethToUsdc) (st_decimals ?from) = Inr (10 ^ 18)"
    by code_simp
  have s5: "fst (checkSwapBalance ?prov alice ?from (10 ^ 18) demoWorld) = None" by code_simp
  have s6: "fst (selectQuotes ?off ?prov (contextChainId aliceContext) (sw_dex ethToUsdc)
                   ?from ?to (10 ^ 18) ?s1) = Inr (?best # [])" by code_simp
  have s7: "fst (finishSwap ?off ?prov (contextChainId aliceContext) alice ?from ?to
                   (sw_amount ethToUsdc) (10 ^ 18) (slippageBps (js ?off) (sw_slippage ethToUsdc))
                   ?best ?s2) = Inr (?stx, ''Swap 1 ETH for ~formatted USDC'', None)"
    by code_simp
  note s = publish_failure_swallowed [OF off ua fu, THEN conjunct2, THEN conjunct2, THEN mp,
             OF conjI [OF s1 conjI [OF s2 conjI [OF s3 conjI [OF s4 conjI [OF paired [OF s5]
                conjI [OF paired [OF s6] paired [OF s7]]]]]]]]
  have sc: "console (snd (swapHandler ?off ethToUsdc aliceContext demoWorld))
       = [''Failed to emit swap request: Socket.IO not initialized'']" by code_simp
  from off(1) thr(1) t ts tc a ac s sc show ?thesis by blast
qed
section \<open>The balance check before a transfer and before a swap\<close>

text \<open>
  Claim C6, for a connected user. Transfer: when the network switch, the recipient and
  the token resolve, the amount parses and the balance read returns (the native balance
  for the native asset, \<^verbatim>\<open>balanceOf\<close> for a token, whose amount is parsed with the decimals
  fetched from the contract), the handler returns the insufficient-balance error with
  that balance and that amount if the balance is below the amount, and then the
  transaction table is as before the request; if the balance equals or exceeds the amount
  the handler does not return that error. Swap: the same, for the input token, once both
  tokens resolve to different addresses and the amount parses. Conversely, whenever the
  transfer or the swap handler returns the insufficient-balance error, the reported
  balance is the balance that was read, the reported requirement is the amount that was
  parsed, the balance is below it, and the transaction table is unchanged.
\<close>

theorem balance_check_rejects_only_below:
  fixes c :: collaborators and ctx :: ToolContext and w :: world
    and transfer :: TransferParams and swap :: SwapParams
  assumes "userAddress ctx = Some userAddr" and "userAddr \<noteq> []"
  shows
  "(switchNetwork c ctx userAddr (tp_network transfer) (contextChainId ctx) w = (Inr chainId, w1)
      \<and> resolveRecipient c (tp_to transfer) userAddr chainId w1 = (Inr recipient, w2)
      \<and> resolveToken_transfer (eth c) TOKEN_ALIASES_transfer TOKENS (tp_token transfer) chainId
           = Inr tokenInfo
      \<longrightarrow>
        ((ti_address tokenInfo = None \<or> ti_address tokenInfo = Some [])
           \<and> parseEther (eth c) (tp_amount transfer) = Inr amountWei
           \<and> getBalance (JsonRpcProvider (eth c) (getRpcUrl chainId)) userAddr = Inr balance
         \<longrightarrow>
           (if balance < amountWei
            then transferHandler c transfer ctx w
                   = (Failure (InsufficientBalance balance amountWei),
                      logCalls [GetBalance userAddr] w2)
                 \<and> transactions (logCalls [GetBalance userAddr] w2) = transactions w
            else \<not> rejected (transferHandler c transfer ctx w)))
        \<and> (ti_address tokenInfo = Some token \<and> token \<noteq> []
           \<and> parseUnits (eth c) (tp_amount transfer)
                (fst (fetchDecimalsAndSymbol (JsonRpcProvider (eth c) (getRpcUrl chainId)) token
                        (ti_decimals tokenInfo) (ti_symbol tokenInfo))) = Inr tokenWei
           \<and> balanceOf (JsonRpcProvider (eth c) (getRpcUrl chainId)) token userAddr
                = Inr tokenBalance
         \<longrightarrow>
           (if tokenBalance < tokenWei
            then transferHandler c transfer ctx w
                   = (Failure (InsufficientBalance tokenBalance tokenWei),
                      logCalls [BalanceOf token userAddr] (logCalls [DecimalsAndSymbol token] w2))
                 \<and> transactions (logCalls [BalanceOf token userAddr]
                                   (logCalls [DecimalsAndSymbol token] w2)) = transactions w
            else \<not> rejected (transferHandler c transfer ctx w))))
   \<and> (resolveToken_swap (eth c) TOKEN_ALIASES_swap TOKENS (sw_fromToken swap)
           (contextChainId ctx) = Inr (Some fromTok)
      \<and> resolveToken_swap (eth c) TOKEN_ALIASES_swap TOKENS (sw_toToken swap)
           (contextChainId ctx) = Inr (Some toTok)
      \<and> toLowerCase (st_address fromTok) \<noteq> toLowerCase (st_address toTok)
      \<and> parseUnits (eth c) (sw_amount swap) (st_decimals fromTok) = Inr amountIn
      \<and> (if st_isNative fromTok
          then getBalance (JsonRpcProvider (eth c) (getRpcUrl (contextChainId ctx))) userAddr
          else balanceOf (JsonRpcProvider (eth c) (getRpcUrl (contextChainId ctx)))
                 (st_address fromTok) userAddr) = Inr swapBalance
      \<longrightarrow>
        (if swapBalance < amountIn
         then swapHandler c swap ctx w
                = (Failure (InsufficientBalance swapBalance amountIn),
                   logCalls [if st_isNative fromTok then GetBalance userAddr
                             else BalanceOf (st_address fromTok) userAddr] w)
         else \<not> rejected (swapHandler c swap ctx w)))
   \<and> (\<forall>held required w'.
         transferHandler c transfer ctx w = (Failure (InsufficientBalance held required), w')
         \<longrightarrow>
         held < required \<and> transactions w' = transactions w
         \<and> (\<exists>chain v1 payee v2 info.
               switchNetwork c ctx userAddr (tp_network transfer) (contextChainId ctx) w
                 = (Inr chain, v1)
               \<and> resolveRecipient c (tp_to transfer) userAddr chain v1 = (Inr payee, v2)
               \<and> resolveToken_transfer (eth c) TOKEN_ALIASES_transfer TOKENS (tp_token transfer)
                    chain = Inr info
               \<and> (((ti_address info = None \<or> ti_address info = Some [])
                    \<and> parseEther (eth c) (tp_amount transfer) = Inr required
                    \<and> getBalance (JsonRpcProvider (eth c) (getRpcUrl chain)) userAddr = Inr held)
                  \<or> (\<exists>erc20. ti_address info = Some erc20 \<and> erc20 \<noteq> []
                        \<and> parseUnits (eth c) (tp_amount transfer)
                            (fst (fetchDecimalsAndSymbol
                                    (JsonRpcProvider (eth c) (getRpcUrl chain)) erc20
                                    (ti_decimals info) (ti_symbol info))) = Inr required
                        \<and> balanceOf (JsonRpcProvider (eth c) (getRpcUrl chain)) erc20 userAddr
                             = Inr held))))
   \<and> (\<forall>held required w'.
         swapHandler c swap ctx w = (Failure (InsufficientBalance held required), w')
         \<longrightarrow>
         held < required \<and> transactions w' = transactions w
         \<and> (\<exists>sold bought.
               resolveToken_swap (eth c) TOKEN_ALIASES_swap TOKENS (sw_fromToken swap)
                 (contextChainId ctx) = Inr (Some sold)
               \<and> resolveToken_swap (eth c) TOKEN_ALIASES_swap TOKENS (sw_toToken swap)
                    (contextChainId ctx) = Inr (Some bought)
               \<and> parseUnits (eth c) (sw_amount swap) (st_decimals sold) = Inr required
               \<and> (if st_isNative sold
                   then getBalance (JsonRpcProvider (eth c) (getRpcUrl (contextChainId ctx)))
                          userAddr
                   else balanceOf (JsonRpcProvider (eth c) (getRpcUrl (contextChainId ctx)))
                          (st_address sold) userAddr) = Inr held))"
proof -
  let ?prov = "JsonRpcProvider (eth c) (getRpcUrl chainId)"
  have native:
    "if balance < amountWei
     then transferHandler c transfer ctx w
            = (Failure (InsufficientBalance balance amountWei), logCalls [GetBalance userAddr] w2)
          \<and> transactions (logCalls [GetBalance userAddr] w2) = transactions w
     else \<not> rejected (transferHandler c transfer ctx w)"
    if 1: "switchNetwork c ctx userAddr (tp_network transfer) (contextChainId ctx) w
             = (Inr chainId, w1)"
      and 2: "resolveRecipient c (tp_to transfer) userAddr chainId w1 = (Inr recipient, w2)"
      and 3: "resolveToken_transfer (eth c) TOKEN_ALIASES_transfer TOKENS (tp_token transfer)
                chainId = Inr tokenInfo"
      and 4: "ti_address tokenInfo = None \<or> ti_address tokenInfo = Some []"
      and 5: "parseEther (eth c) (tp_amount transfer) = Inr amountWei"
      and 6: "getBalance ?prov userAddr = Inr balance"
  proof -
    note reached = transferHandler_reached [OF assms 1 2 3]
    note prep = prepareTransfer_native [OF 4, of c chainId userAddr "r_address recipient"
                  "tp_amount transfer" w2]
    note check = nativeTransfer_check [OF 5 6, of "r_address recipient" tokenInfo w2]
    have k: "transactions w2 = transactions w"
      using switchNetwork_kept [OF 1] resolveRecipient_kept [OF 2] by (simp add: storeKept_def)
    show ?thesis
    proof (cases "balance < amountWei")
      case True
      then show ?thesis by (simp add: reached prep check k)
    next
      case False
      have "\<not> rejected (transferHandler c transfer ctx w)"
      proof (rule transfer_passed [OF assms 1 2 3])
        show "prepareTransfer c chainId userAddr (r_address recipient) tokenInfo
                (tp_amount transfer) w2
              = (fst (prepareTransfer c chainId userAddr (r_address recipient) tokenInfo
                        (tp_amount transfer) w2),
                 snd (prepareTransfer c chainId userAddr (r_address recipient) tokenInfo
                        (tp_amount transfer) w2))" by simp
        show "\<forall>held required. fst (prepareTransfer c chainId userAddr (r_address recipient)
                tokenInfo (tp_amount transfer) w2) \<noteq> Inl (InsufficientBalance held required)"
          using False by (simp add: prep check split: sum.splits)
      qed
      with False show ?thesis by simp
    qed
  qed
  have erc20:
    "if tokenBalance < tokenWei
     then transferHandler c transfer ctx w
            = (Failure (InsufficientBalance tokenBalance tokenWei),
               logCalls [BalanceOf token userAddr] (logCalls [DecimalsAndSymbol token] w2))
          \<and> transactions (logCalls [BalanceOf token userAddr]
                            (logCalls [DecimalsAndSymbol token] w2)) = transactions w
     else \<not> rejected (transferHandler c transfer ctx w)"
    if 1: "switchNetwork c ctx userAddr (tp_network transfer) (contextChainId ctx) w
             = (Inr chainId, w1)"
      and 2: "resolveRecipient c (tp_to transfer) userAddr chainId w1 = (Inr recipient, w2)"
      and 3: "resolveToken_transfer (eth c) TOKEN_ALIASES_transfer TOKENS (tp_token transfer)
                chainId = Inr tokenInfo"
      and 4: "ti_address tokenInfo = Some token" "token \<noteq> []"
      and 5: "parseUnits (eth c) (tp_amount transfer)
                (fst (fetchDecimalsAndSymbol ?prov token (ti_decimals tokenInfo)
                        (ti_symbol tokenInfo))) = Inr tokenWei"
      and 6: "balanceOf ?prov token userAddr = Inr tokenBalance"
  proof -
    note reached = transferHandler_reached [OF assms 1 2 3]
    note prep = prepareTransfer_erc20 [OF 4, of c chainId userAddr "r_address recipient"
                  "tp_amount transfer" w2]
    note check = erc20Transfer_check [OF 5 6, of "r_address recipient" w2]
    have k: "transactions w2 = transactions w"
      using switchNetwork_kept [OF 1] resolveRecipient_kept [OF 2] by (simp add: storeKept_def)
    show ?thesis
    proof (cases "tokenBalance < tokenWei")
      case True
      then show ?thesis by (simp add: reached prep check k)
    next
      case False
      have "\<not> rejected (transferHandler c transfer ctx w)"
      proof (rule transfer_passed [OF assms 1 2 3])
        show "prepareTransfer c chainId userAddr (r_address recipient) tokenInfo
                (tp_amount transfer) w2
              = (fst (prepareTransfer c chainId userAddr (r_address recipient) tokenInfo
                        (tp_amount transfer) w2),
                 snd (prepareTransfer c chainId userAddr (r_address recipient) tokenInfo
                        (tp_amount transfer) w2))" by simp
        show "\<forall>held required. fst (prepareTransfer c chainId userAddr (r_address recipient)
                tokenInfo (tp_amount transfer) w2) \<noteq> Inl (InsufficientBalance held required)"
          using False by (simp add: prep check split: sum.splits)
      qed
      with False show ?thesis by simp
    qed
  qed
  let ?sprov = "JsonRpcProvider (eth c) (getRpcUrl (contextChainId ctx))"
  have swapped:
    "if swapBalance < amountIn
     then swapHandler c swap ctx w
            = (Failure (InsufficientBalance swapBalance amountIn),
               logCalls [if st_isNative fromTok then GetBalance userAddr
                         else BalanceOf (st_address fromTok) userAddr] w)
     else \<not> rejected (swapHandler c swap ctx w)"
    if 1: "resolveToken_swap (eth c) TOKEN_ALIASES_swap TOKENS (sw_fromToken swap)
             (contextChainId ctx) = Inr (Some fromTok)"
      and 2: "resolveToken_swap (eth c) TOKEN_ALIASES_swap TOKENS (sw_toToken swap)
                (contextChainId ctx) = Inr (Some toTok)"
      and 3: "toLowerCase (st_address fromTok) \<noteq> toLowerCase (st_address toTok)"
      and 4: "parseUnits (eth c) (sw_amount swap) (st_decimals fromTok) = Inr amountIn"
      and 5: "(if st_isNative fromTok then getBalance ?sprov userAddr
               else balanceOf ?sprov (st_address fromTok) userAddr) = Inr swapBalance"
  proof -
    note body = swapBody_reached [OF 1 2 3 4, of userAddr w]
    note check = checkSwapBalance_check [OF 5, of amountIn w]
    show ?thesis
    proof (cases "swapBalance < amountIn")
      case True
      have "swapBody c swap ctx userAddr w
              = (Failure (InsufficientBalance swapBalance amountIn),
                 logCalls [if st_isNative fromTok then GetBalance userAddr
                           else BalanceOf (st_address fromTok) userAddr] w)"
        using True by (simp add: body check)
      from swapHandler_passes [OF assms this] True show ?thesis by simp
    next
      case False
      from False have "checkSwapBalance ?sprov userAddr fromTok amountIn w
          = (None, logCalls [if st_isNative fromTok then GetBalance userAddr
                             else BalanceOf (st_address fromTok) userAddr] w)"
        by (simp add: check)
      from swap_passed [OF assms 1 2 3 4 this] False show ?thesis by simp
    qed
  qed
  have tback:
    "held < required \<and> transactions w' = transactions w
     \<and> (\<exists>chain v1 payee v2 info.
           switchNetwork c ctx userAddr (tp_network transfer) (contextChainId ctx) w
             = (Inr chain, v1)
           \<and> resolveRecipient c (tp_to transfer) userAddr chain v1 = (Inr payee, v2)
           \<and> resolveToken_transfer (eth c) TOKEN_ALIASES_transfer TOKENS (tp_token transfer)
                chain = Inr info
           \<and> (((ti_address info = None \<or> ti_address info = Some [])
                \<and> parseEther (eth c) (tp_amount transfer) = Inr required
                \<and> getBalance (JsonRpcProvider (eth c) (getRpcUrl chain)) userAddr = Inr held)
              \<or> (\<exists>erc20. ti_address info = Some erc20 \<and> erc20 \<noteq> []
                    \<and> parseUnits (eth c) (tp_amount transfer)
                        (fst (fetchDecimalsAndSymbol
                                (JsonRpcProvider (eth c) (getRpcUrl chain)) erc20
                                (ti_decimals info) (ti_symbol info))) = Inr required
                    \<and> balanceOf (JsonRpcProvider (eth c) (getRpcUrl chain)) erc20 userAddr
                         = Inr held)))"
    if h: "transferHandler c transfer ctx w = (Failure (InsufficientBalance held required), w')"
    for held required w'
  proof -
    from transferHandler_rejected [OF h] assms(1)
    obtain chain v1 payee v2 info where
      1: "switchNetwork c ctx userAddr (tp_network transfer) (contextChainId ctx) w
            = (Inr chain, v1)"
      and 2: "resolveRecipient c (tp_to transfer) userAddr chain v1 = (Inr payee, v2)"
      and 3: "resolveToken_transfer (eth c) TOKEN_ALIASES_transfer TOKENS (tp_token transfer)
                chain = Inr info"
      and 4: "prepareTransfer c chain userAddr (r_address payee) info (tp_amount transfer) v2
                = (Inl (InsufficientBalance held required), w')"
      by auto
    have k: "transactions w' = transactions w"
      using switchNetwork_kept [OF 1] resolveRecipient_kept [OF 2] prepareTransfer_kept [OF 4]
      by (simp add: storeKept_def)
    from prepareTransfer_rejects [OF 4] 1 2 3 k show ?thesis by blast
  qed
  have sback:
    "held < required \<and> transactions w' = transactions w
     \<and> (\<exists>sold bought.
           resolveToken_swap (eth c) TOKEN_ALIASES_swap TOKENS (sw_fromToken swap)
             (contextChainId ctx) = Inr (Some sold)
           \<and> resolveToken_swap (eth c) TOKEN_ALIASES_swap TOKENS (sw_toToken swap)
                (contextChainId ctx) = Inr (Some bought)
           \<and> parseUnits (eth c) (sw_amount swap) (st_decimals sold) = Inr required
           \<and> (if st_isNative sold then getBalance ?sprov userAddr
               else balanceOf ?sprov (st_address sold) userAddr) = Inr held)"
    if h: "swapHandler c swap ctx w = (Failure (InsufficientBalance held required), w')"
    for held required w'
  proof -
    from swapHandler_from_body [OF h] assms(1)
    have b: "swapBody c swap ctx userAddr w = (Failure (InsufficientBalance held required), w')"
      by auto
    from swapBody_rejected [OF b] obtain sold bought amount where
      1: "resolveToken_swap (eth c) TOKEN_ALIASES_swap TOKENS (sw_fromToken swap)
            (contextChainId ctx) = Inr (Some sold)"
      and 2: "resolveToken_swap (eth c) TOKEN_ALIASES_swap TOKENS (sw_toToken swap)
                (contextChainId ctx) = Inr (Some bought)"
      and 4: "parseUnits (eth c) (sw_amount swap) (st_decimals sold) = Inr amount"
      and 5: "checkSwapBalance ?sprov userAddr sold amount w
                = (Some (InsufficientBalance held required), w')"
      by auto
    have k: "transactions w' = transactions w"
      using checkSwapBalance_kept [OF 5] by (simp add: storeKept_def)
    from checkSwapBalance_rejects [OF 5] 1 2 4 k show ?thesis by blast
  qed
  from native erc20 swapped tback sback show ?thesis by blast
qed

text \<open>
  Scenario B of the specification (a holder of 0.01 ETH sends 0.02 ETH), a holder who owns
  exactly the amount, a token transfer and a swap by a holder of 5 units, and a swap by a
  holder who owns exactly the amount.
\<close>

theorem balance_check_rejects_only_below_witness:
  "transferHandler (scenario scenarioBProvider) sendTwoHundredths aliceContext demoWorld
     = (Failure (InsufficientBalance (10 ^ 16) (2 * 10 ^ 16)), logCalls [GetBalance alice] demoWorld)
   \<and> transactions (logCalls [GetBalance alice] demoWorld) = transactions demoWorld
   \<and> \<not> rejected (transferHandler (demoCollaborators exactProvider) (transferTo bob None)
                    aliceContext demoWorld)
   \<and> transferHandler (demoCollaborators ensProvider) (transferTo bob (Some ''USDC''))
        aliceContext demoWorld
     = (Failure (InsufficientBalance 5 (10 ^ 6)),
        logCalls [BalanceOf USDC1 alice] (logCalls [DecimalsAndSymbol USDC1] demoWorld))
   \<and> swapHandler (demoCollaborators ensProvider) ethToUsdc aliceContext demoWorld
     = (Failure (InsufficientBalance 5 (10 ^ 18)), logCalls [GetBalance alice] demoWorld)
   \<and> \<not> rejected (swapHandler (demoCollaborators exactProvider) ethToUsdc aliceContext demoWorld)"
proof -
  let ?b = "scenario scenarioBProvider"
  let ?x = "demoCollaborators exactProvider"
  let ?e = "demoCollaborators ensProvider"
  let ?eth = "\<lparr> ti_address = None, ti_symbol = ''ETH'', ti_decimals = 18 \<rparr>"
  let ?usdc = "\<lparr> ti_address = Some USDC1, ti_symbol = ''USDC'', ti_decimals = 6 \<rparr>"
  let ?bob = "\<lparr> r_address = bob, resolvedFrom = None \<rparr>"
  let ?from = "\<lparr> st_address = WETH1, st_symbol = ''ETH'', st_decimals = 18, st_isNative = True \<rparr>"
  let ?to = "\<lparr> st_address = USDC1, st_symbol = ''USDC'', st_decimals = 6, st_isNative = False \<rparr>"
  have ua: "userAddress aliceContext = Some alice" "alice \<noteq> []"
    by (simp_all add: aliceContext_def alice_def)
  have native: "ti_address ?eth = None \<or> ti_address ?eth = Some []" by simp
  have erc20: "ti_address ?usdc = Some USDC1" "USDC1 \<noteq> []" by (simp_all add: USDC1_def)

  have b1: "switchNetwork ?b aliceContext alice (tp_network sendTwoHundredths)
              (contextChainId aliceContext) demoWorld = (Inr 1, demoWorld)" by code_simp
  have b2: "resolveRecipient ?b (tp_to sendTwoHundredths) alice 1 demoWorld = (Inr ?bob, demoWorld)"
    by code_simp
  have b3: "resolveToken_transfer (eth ?b) TOKEN_ALIASES_transfer TOKENS
              (tp_token sendTwoHundredths) 1 = Inr ?eth" by code_simp
  have b4: "parseEther (eth ?b) (tp_amount sendTwoHundredths) = Inr (2 * 10 ^ 16)" by code_simp
  have b5: "getBalance (JsonRpcProvider (eth ?b) (getRpcUrl 1)) alice = Inr (10 ^ 16)" by code_simp
  note scenarioB = balance_check_rejects_only_below [OF ua, THEN conjunct1, THEN mp,
      OF conjI [OF b1 conjI [OF b2 b3]], THEN conjunct1, THEN mp,
      OF conjI [OF native conjI [OF b4 b5]]]
  have b0: "transferHandler ?b sendTwoHundredths aliceContext demoWorld
     = (Failure (InsufficientBalance (10 ^ 16) (2 * 10 ^ 16)), logCalls [GetBalance alice] demoWorld)"
    using scenarioB by simp
  note reported = balance_check_rejects_only_below [OF ua, THEN conjunct2, THEN conjunct2,
      THEN conjunct1, rule_format, OF b0]
  have b: "transferHandler ?b sendTwoHundredths aliceContext demoWorld
     = (Failure (InsufficientBalance (10 ^ 16) (2 * 10 ^ 16)), logCalls [GetBalance alice] demoWorld)
   \<and> transactions (logCalls [GetBalance alice] demoWorld) = transactions demoWorld"
    using b0 reported by blast

  have x1: "switchNetwork ?x aliceContext alice (tp_network (transferTo bob None))
              (contextChainId aliceContext) demoWorld = (Inr 1, demoWorld)" by code_simp
  have x2: "resolveRecipient ?x (tp_to (transferTo bob None)) alice 1 demoWorld
              = (Inr ?bob, demoWorld)" by code_simp
  have x3: "resolveToken_transfer (eth ?x) TOKEN_ALIASES_transfer TOKENS
              (tp_token (transferTo bob None)) 1 = Inr ?eth" by code_simp
  have x4: "parseEther (eth ?x) (tp_amount (transferTo bob None)) = Inr (10 ^ 18)" by code_simp
  have x5: "getBalance (JsonRpcProvider (eth ?x) (getRpcUrl 1)) alice = Inr (10 ^ 18)" by code_simp
  note equal = balance_check_rejects_only_below [OF ua, THEN conjunct1, THEN mp,
      OF conjI [OF x1 conjI [OF x2 x3]], THEN conjunct1, THEN mp,
      OF conjI [OF native conjI [OF x4 x5]]]
  have x: "\<not> rejected (transferHandler ?x (transferTo bob None) aliceContext demoWorld)"
    using equal by simp

  have e1: "switchNetwork ?e aliceContext alice (tp_network (transferTo bob (Some ''USDC'')))
              (contextChainId aliceContext) demoWorld = (Inr 1, demoWorld)" by code_simp
  have e2: "resolveRecipient ?e (tp_to (transferTo bob (Some ''USDC''))) alice 1 demoWorld
              = (Inr ?bob, demoWorld)" by code_simp
  have e3: "resolveToken_transfer (eth ?e) TOKEN_ALIASES_transfer TOKENS
              (tp_token (transferTo bob (Some ''USDC''))) 1 = Inr ?usdc" by code_simp
  have e4: "parseUnits (eth ?e) (tp_amount (transferTo bob (Some ''USDC'')))
              (fst (fetchDecimalsAndSymbol (JsonRpcProvider (eth ?e) (getRpcUrl 1)) USDC1
                      (ti_decimals ?usdc) (ti_symbol ?usdc))) = Inr (10 ^ 6)" by code_simp
  have e5: "balanceOf (JsonRpcProvider (eth ?e) (getRpcUrl 1)) USDC1 alice = Inr 5" by code_simp
  note token = balance_check_rejects_only_below [OF ua, THEN conjunct1, THEN mp,
      OF conjI [OF e1 conjI [OF e2 e3]], THEN conjunct2, THEN mp,
      OF conjI [OF erc20(1) conjI [OF erc20(2) conjI [OF e4 e5]]]]
  have e: "transferHandler ?e (transferTo bob (Some ''USDC'')) aliceContext demoWorld
     = (Failure (InsufficientBalance 5 (10 ^ 6)),
        logCalls [BalanceOf USDC1 alice] (logCalls [DecimalsAndSymbol USDC1] demoWorld))"
    using token by simp

  have s1: "resolveToken_swap (eth ?e) TOKEN_ALIASES_swap TOKENS (sw_fromToken ethToUsdc)
              (contextChainId aliceContext) = Inr (Some ?from)" by code_simp
  have s2: "resolveToken_swap (eth ?e) TOKEN_ALIASES_swap TOKENS (sw_toToken ethToUsdc)
              (contextChainId aliceContext) = Inr (Some ?to)" by code_simp
  have s3: "toLowerCase (st_address ?from) \<noteq> toLowerCase (st_address ?to)" by code_simp
  have s4: "parseUnits (eth ?e) (sw_amount ethToUsdc) (st_decimals ?from) = Inr (10 ^ 18)"
    by code_simp
  have s5: "(if st_isNative ?from
             then getBalance (JsonRpcProvider (eth ?e) (getRpcUrl (contextChainId aliceContext))) alice
             else balanceOf (JsonRpcProvider (eth ?e) (getRpcUrl (contextChainId aliceContext)))
                    (st_address ?from) alice) = Inr 5" by code_simp
  note short = balance_check_rejects_only_below [OF ua, THEN conjunct2, THEN conjunct1, THEN mp,
      OF conjI [OF s1 conjI [OF s2 conjI [OF s3 conjI [OF s4 s5]]]]]
  have s: "swapHandler ?e ethToUsdc aliceContext demoWorld
     = (Failure (InsufficientBalance 5 (10 ^ 18)), logCalls [GetBalance alice] demoWorld)"
    using short by simp

  have y1: "resolveToken_swap (eth ?x) TOKEN_ALIASES_swap TOKENS (sw_fromToken ethToUsdc)
              (contextChainId aliceContext) = Inr (Some ?from)" by code_simp
  have y2: "resolveToken_swap (eth ?x) TOKEN_ALIASES_swap TOKENS (sw_toToken ethToUsdc)
              (contextChainId aliceContext) = Inr (Some ?to)" by code_simp
  have y4: "parseUnits (eth ?x) (sw_amount ethToUsdc) (st_decimals ?from) = Inr (10 ^ 18)"
    by code_simp
  have y5: "(if st_isNative ?from
             then getBalance (JsonRpcProvider (eth ?x) (getRpcUrl (contextChainId aliceContext))) alice
             else balanceOf (JsonRpcProvider (eth ?x) (getRpcUrl (contextChainId aliceContext)))
                    (st_address ?from) alice) = Inr (10 ^ 18)" by code_simp
  note enough = balance_check_rejects_only_below [OF ua, THEN conjunct2, THEN conjunct1, THEN mp,
      OF conjI [OF y1 conjI [OF y2 conjI [OF s3 conjI [OF y4 y5]]]]]
  have y: "\<not> rejected (swapHandler ?x ethToUsdc aliceContext demoWorld)"
    using enough by simp
  from b x e s y show ?thesis by blast
qed
section \<open>The minimum output of a prepared swap\<close>

text \<open>
  Claim C2. Take a swap request of a connected user that reaches the quotes: both tokens
  resolve to different addresses, the amount parses, the balance check passes and the
  selected quotes are not empty, the best quote being the first. Let the slippage
  tolerance be \<open>bps\<close> basis points, from 0 to 9999. Then the minimum output the handler
  computes is \<open>amountOut * (10000 - bps) div 10000\<close> for the best quote's \<open>amountOut\<close>, where
  \<open>div\<close> is the flooring division of integers: it is the largest integer whose product with
  10000 does not exceed \<open>amountOut * (10000 - bps)\<close>, so it is never rounded up. And whenever
  the handler returns success, the saved transaction is the one \<open>buildSwapTransaction\<close>
  builds with that minimum.
\<close>

theorem prepared_swap_minimum_is_floor:
  fixes c :: collaborators and ctx :: ToolContext and w :: world and swap :: SwapParams
  defines "chainId \<equiv> contextChainId ctx"
  defines "prov \<equiv> JsonRpcProvider (eth c) (getRpcUrl (contextChainId ctx))"
  assumes "userAddress ctx = Some userAddr" and "userAddr \<noteq> []"
    and "resolveToken_swap (eth c) TOKEN_ALIASES_swap TOKENS (sw_fromToken swap) chainId
           = Inr (Some fromTok)"
    and "resolveToken_swap (eth c) TOKEN_ALIASES_swap TOKENS (sw_toToken swap) chainId
           = Inr (Some toTok)"
    and "toLowerCase (st_address fromTok) \<noteq> toLowerCase (st_address toTok)"
    and "parseUnits (eth c) (sw_amount swap) (st_decimals fromTok) = Inr amountIn"
    and "checkSwapBalance prov userAddr fromTok amountIn w = (None, w1)"
    and "selectQuotes c prov chainId (sw_dex swap) fromTok toTok amountIn w1
           = (Inr (bestQuote # others), w2)"
    and "slippageBps (js c) (sw_slippage swap) = Some bps" and "0 \<le> bps" and "bps < 10000"
  defines "minOut \<equiv> (amountOut bestQuote * (10000 - bps)) div 10000"
  shows "amountOutMin (amountOut bestQuote) (slippageBps (js c) (sw_slippage swap)) = Inr minOut
     \<and> minOut * 10000 \<le> amountOut bestQuote * (10000 - bps)
     \<and> amountOut bestQuote * (10000 - bps) < (minOut + 1) * 10000
     \<and> (\<forall>row w'. swapHandler c swap ctx w = (Success row, w') \<longrightarrow>
          (\<exists>swapTx. buildSwapTransaction (eth c) (dex bestQuote) chainId fromTok toTok amountIn
                       minOut userAddr (dateNow (js c) div 1000 + SWAP_DEADLINE_SECONDS)
                     = Inr swapTx
                   \<and> tx_to row = ptx_to swapTx \<and> tx_value row = ptx_value swapTx
                   \<and> tx_data row = ptx_data swapTx))"
proof -
  have pos: "0 < amountOut bestQuote"
    using selectQuotes_positive [OF assms(10)] by simp
  have m: "amountOutMin (amountOut bestQuote) (slippageBps (js c) (sw_slippage swap)) = Inr minOut"
    unfolding assms(11) minOut_def using pos assms(12,13) by (intro amountOutMin_exact) simp_all
  have lo: "minOut * 10000 \<le> amountOut bestQuote * (10000 - bps)"
    and hi: "amountOut bestQuote * (10000 - bps) < (minOut + 1) * 10000"
    unfolding minOut_def by presburger+
  have built: "\<exists>swapTx. buildSwapTransaction (eth c) (dex bestQuote) chainId fromTok toTok amountIn
                       minOut userAddr (dateNow (js c) div 1000 + SWAP_DEADLINE_SECONDS)
                     = Inr swapTx
                   \<and> tx_to row = ptx_to swapTx \<and> tx_value row = ptx_value swapTx
                   \<and> tx_data row = ptx_data swapTx"
    if h: "swapHandler c swap ctx w = (Success row, w')" for row w'
  proof -
    from swapHandler_from_body [OF h] assms(3)
    have b: "swapBody c swap ctx userAddr w = (Success row, w')" by auto
    obtain r3 w3 where f: "finishSwap c prov chainId userAddr fromTok toTok (sw_amount swap)
        amountIn (slippageBps (js c) (sw_slippage swap)) bestQuote w2 = (r3, w3)"
      by force
    note body = swapBody_reached [OF assms(5-8) [unfolded chainId_def], of userAddr w,
                  folded prov_def chainId_def]
    show ?thesis
    proof (cases r3)
      case (Inl failure)
      with b body assms(9,10) f show ?thesis by simp
    next
      case (Inr prepared)
      obtain swapTx buttonText approval where p: "prepared = (swapTx, buttonText, approval)"
        by (cases prepared) auto
      from b body assms(9,10) f Inr p
      have "persistAndPublish c ''swap'' ''Failed to emit swap request: '' chainId (chatId ctx)
              userAddr swapTx buttonText approval w3 = (Success row, w')"
        by simp
      from persistAndPublish_row [OF this] finishSwap_built [OF f [unfolded Inr p] m]
      show ?thesis by auto
    qed
  qed
  from m lo hi built show ?thesis by blast
qed

text \<open>
  Scenario A of the specification: 100 USDC for ETH on chain 1, Uniswap quotes 0.05 ETH
  and SushiSwap 0.048 ETH, default tolerance of 50 basis points. The minimum is
  0.04975 ETH, and it is the minimum in the saved call data.
\<close>

theorem prepared_swap_minimum_is_floor_witness:
  "amountOutMin (5 * 10 ^ 16)
      (slippageBps (js (scenario scenarioAProvider)) (sw_slippage usdcToEth))
     = Inr 49750000000000000
   \<and> map (\<lambda>row. (tx_status row, tx_data row))
         (transactions (snd (swapHandler (scenario scenarioAProvider) usdcToEth aliceContext
                               demoWorld)))
     = [(''pending'', ''multicall:min=49750000000000000'')]
   \<and> (\<exists>swapTx.
         buildSwapTransaction (eth (scenario scenarioAProvider)) UNISWAP 1
           \<lparr> st_address = USDC1, st_symbol = ''USDC'', st_decimals = 6, st_isNative = False \<rparr>
           \<lparr> st_address = WETH1, st_symbol = ''ETH'', st_decimals = 18, st_isNative = True \<rparr>
           (10 ^ 8) 49750000000000000 alice
           (dateNow (js (scenario scenarioAProvider)) div 1000 + SWAP_DEADLINE_SECONDS)
         = Inr swapTx
         \<and> ptx_data swapTx = ''multicall:min=49750000000000000'')"
proof -
  let ?c = "scenario scenarioAProvider"
  let ?from = "\<lparr> st_address = USDC1, st_symbol = ''USDC'', st_decimals = 6, st_isNative = False \<rparr>"
  let ?to = "\<lparr> st_address = WETH1, st_symbol = ''ETH'', st_decimals = 18, st_isNative = True \<rparr>"
  let ?best = "\<lparr> dex = UNISWAP, amountOut = 5 * 10 ^ 16, amountOutFormatted = ''formatted'' \<rparr>"
  let ?second = "\<lparr> dex = SUSHISWAP, amountOut = 48 * 10 ^ 15, amountOutFormatted = ''formatted'' \<rparr>"
  let ?row = "\<lparr> tx_id = 0, tx_chatId = ''chat1'', tx_userId = ''u1'', tx_type = ''swap'',
                tx_status = ''pending'', tx_chainId = 1,
                tx_to = Some ''0x68b3465833fb72A70ecDF485E0e4C7bD8665Fc45'', tx_value = 0,
                tx_data = ''multicall:min=49750000000000000'',
                tx_buttonText = ''Swap 100 USDC for ~formatted ETH'' \<rparr>"
  let ?prov = "JsonRpcProvider (eth ?c) (getRpcUrl (contextChainId aliceContext))"
  let ?w1 = "snd (checkSwapBalance ?prov alice ?from (10 ^ 8) demoWorld)"
  have ua: "userAddress aliceContext = Some alice" "alice \<noteq> []"
    by (simp_all add: aliceContext_def alice_def)
  have chain: "contextChainId aliceContext = 1" by code_simp
  have s1: "resolveToken_swap (eth ?c) TOKEN_ALIASES_swap TOKENS (sw_fromToken usdcToEth)
              (contextChainId aliceContext) = Inr (Some ?from)" by code_simp
  have s2: "resolveToken_swap (eth ?c) TOKEN_ALIASES_swap TOKENS (sw_toToken usdcToEth)
              (contextChainId aliceContext) = Inr (Some ?to)" by code_simp
  have s3: "toLowerCase (st_address ?from) \<noteq> toLowerCase (st_address ?to)" by code_simp
  have s4: "parseUnits (eth ?c) (sw_amount usdcToEth) (st_decimals ?from) = Inr (10 ^ 8)"
    by code_simp
  have s5: "fst (checkSwapBalance ?prov alice ?from (10 ^ 8) demoWorld) = None" by code_simp
  have s6: "fst (selectQuotes ?c ?prov (contextChainId aliceContext) (sw_dex usdcToEth)
                   ?from ?to (10 ^ 8) ?w1) = Inr (?best # [?second])" by code_simp
  have bps: "slippageBps (js ?c) (sw_slippage usdcToEth) = Some 50" by code_simp
  have range: "(0::int) \<le> 50" "(50::int) < 10000" by simp_all
  have h: "fst (swapHandler ?c usdcToEth aliceContext demoWorld) = Success ?row" by code_simp
  have t: "map (\<lambda>row. (tx_status row, tx_data row))
             (transactions (snd (swapHandler ?c usdcToEth aliceContext demoWorld)))
           = [(''pending'', ''multicall:min=49750000000000000'')]" by code_simp
  note inst = prepared_swap_minimum_is_floor
                [OF ua s1 s2 s3 s4 paired [OF s5] paired [OF s6] bps range]
  have m: "amountOutMin (5 * 10 ^ 16) (slippageBps (js ?c) (sw_slippage usdcToEth))
             = Inr 49750000000000000"
    using inst [THEN conjunct1] by simp
  from inst [THEN conjunct2, THEN conjunct2, THEN conjunct2, rule_format, OF paired [OF h]]
  obtain swapTx where
    "buildSwapTransaction (eth ?c) (dex ?best) (contextChainId aliceContext) ?from ?to (10 ^ 8)
       (amountOut ?best * (10000 - 50) div 10000) alice
       (dateNow (js ?c) div 1000 + SWAP_DEADLINE_SECONDS) = Inr swapTx"
    and "tx_data ?row = ptx_data swapTx"
    by blast
  then have "buildSwapTransaction (eth ?c) UNISWAP 1 ?from ?to (10 ^ 8) 49750000000000000 alice
               (dateNow (js ?c) div 1000 + SWAP_DEADLINE_SECONDS) = Inr swapTx
             \<and> ptx_data swapTx = ''multicall:min=49750000000000000''"
    by (simp add: chain)
  with m t show ?thesis by blast
qed

end
